(* ===== verification/Prelude.thy ===== *)
theory Prelude
  imports Main "HOL-Library.Word"
begin

text \<open>
  Shared vocabulary of the development. JavaScript strings are sequences of
  UTF-16 code units, so a string of the program is a list of 16-bit words
  (\<open>js_string\<close>); ASCII literals of the source are written \<open>js ''...''\<close>.
  The theory also fixes JavaScript's truthiness of a nullable string (the
  tests \<open>if (!state.sessionId)\<close> and \<open>savedMessages ? ... : []\<close>), the
  whitespace set and \<open>String.prototype.trim\<close> used by the controller, and
  list and map lemmas the component theories share.
\<close>

named_theorems js_simps "evaluation rules for JavaScript strings and literals"
named_theorems store_simps "rules for reads after writes of the client store"

type_synonym code_unit = "16 word"
type_synonym js_string = "code_unit list"

definition js :: "string \<Rightarrow> js_string" where
  "js s = map (\<lambda>c. of_nat (of_char c)) s"

text \<open>JavaScript truthiness of a value of type \<open>string | null\<close>: \<open>null\<close> and \<open>''\<close> are falsy.\<close>

definition js_truthy :: "js_string option \<Rightarrow> bool" where
  "js_truthy x = (case x of None \<Rightarrow> False | Some s \<Rightarrow> s \<noteq> [])"

text \<open>
  WhiteSpace and LineTerminator of ECMAScript (section 12.2, 12.3), the code
  units \<open>String.prototype.trim\<close> removes at both ends.
\<close>

definition js_is_space :: "code_unit \<Rightarrow> bool" where
  "js_is_space c \<longleftrightarrow>
     c \<in> {0x09, 0x0A, 0x0B, 0x0C, 0x0D, 0x20, 0xA0, 0x1680,
          0x2028, 0x2029, 0x202F, 0x205F, 0x3000, 0xFEFF}
     \<or> (0x2000 \<le> c \<and> c \<le> 0x200A)"

definition js_trim :: "js_string \<Rightarrow> js_string" where
  "js_trim s = rev (dropWhile js_is_space (rev (dropWhile js_is_space s)))"

text \<open>The operator \<open>x || d\<close> on a value of type \<open>string | null\<close>: \<open>x\<close> when it is truthy, else \<open>d\<close>.\<close>

definition js_or :: "js_string option \<Rightarrow> js_string \<Rightarrow> js_string" where
  "js_or x d = (case x of Some s \<Rightarrow> if s = [] then d else s | None \<Rightarrow> d)"

subsection \<open>Shared lemmas\<close>

lemma js_Nil [simp, js_simps]: "js [] = []"
  by (simp add: js_def)

lemma js_eq_Nil_iff [simp]: "js s = [] \<longleftrightarrow> s = []"
  by (simp add: js_def)

lemma js_Cons [js_simps]: "js (c # s) = of_nat (of_char c) # js s"
  by (simp add: js_def)

lemma js_append [simp, js_simps]: "js (s @ t) = js s @ js t"
  by (simp add: js_def)

lemma length_js [simp]: "length (js s) = length s"
  by (simp add: js_def)

lemma js_truthy_simps [simp, js_simps]:
  "\<not> js_truthy None"
  "js_truthy (Some s) \<longleftrightarrow> s \<noteq> []"
  by (simp_all add: js_truthy_def)

lemma js_truthy_SomeE:
  assumes "js_truthy x"
  obtains s where "x = Some s" and "s \<noteq> []"
  using assms by (cases x) auto

lemma js_trim_Nil [simp]: "js_trim [] = []"
  by (simp add: js_trim_def)

text \<open>The last element of a list, read and written by index as the source does.\<close>

lemma update_last_index:
  "xs \<noteq> [] \<Longrightarrow> xs[length xs - Suc 0 := y] = butlast xs @ [y]"
  by (induction xs) (auto simp: nth_append list_update_append split: nat.splits)

lemma nth_last_index [simp]:
  "xs \<noteq> [] \<Longrightarrow> xs ! (length xs - Suc 0) = last xs"
  by (simp add: last_conv_nth)

end
