(* ===== verification/Json.thy ===== *)
theory Json
  imports Prelude
begin

text \<open>
  The textual format of the client store. \<open>chatReducer\<close> writes a message list
  with \<open>JSON.stringify\<close> and reads it back with \<open>JSON.parse\<close>
  (src/src/context/ChatContext.tsx, lines 39, 47 and 59). This theory models both on
  JSON values over UTF-16 strings: \<open>json_stringify\<close> follows ECMAScript's
  SerializeJSONProperty and QuoteJSONString (the two-character escapes, \<open>\u\<close>
  with four lower-case hex digits for control units and lone surrogates, no
  whitespace), \<open>json_parse\<close> follows the JSON grammar of \<open>JSON.parse\<close> with
  whitespace, escapes in either hex case, and the literals. Numbers follow
  the grammar of \<open>JSON.parse\<close>: a sign, an integer part without a leading
  zero, an optional fraction and an optional exponent. Their value is kept
  exactly: an integral value is \<open>JNum\<close> (the \<open>Date.now()\<close> timestamps the
  program stores), any other is \<open>JFrac m k\<close>, the decimal \<open>m / 10^k\<close> in
  lowest terms. JavaScript rounds a number to a double (and an exponent past
  308 to \<open>Infinity\<close>); the model does not, which changes nothing for the
  integers below \<open>2^53\<close> that the program writes. The parser recurses on the
  nesting of the input; its recursion is bounded by a fuel argument, and
  \<open>json_parse\<close> supplies one unit per input unit, which the lemmas below show
  is always enough for printed values.
\<close>

datatype json =
    JNull
  | JBool bool
  | JNum int
  | JFrac int nat
  | JStr js_string
  | JArr "json list"
  | JObj "(js_string \<times> json) list"

abbreviation QUOTE :: code_unit where "QUOTE \<equiv> 0x22"
abbreviation BSL :: code_unit where "BSL \<equiv> 0x5C"

subsection \<open>Printing: \<open>JSON.stringify\<close>\<close>

definition hex_digit :: "nat \<Rightarrow> code_unit" where
  "hex_digit d = (if d < 10 then of_nat (48 + d) else of_nat (87 + d))"

definition hex4 :: "nat \<Rightarrow> js_string" where
  "hex4 n = [hex_digit (n div 4096 mod 16), hex_digit (n div 256 mod 16),
             hex_digit (n div 16 mod 16), hex_digit (n mod 16)]"

definition is_lead :: "code_unit \<Rightarrow> bool" where
  "is_lead c \<longleftrightarrow> 0xD800 \<le> c \<and> c \<le> 0xDBFF"

definition is_trail :: "code_unit \<Rightarrow> bool" where
  "is_trail c \<longleftrightarrow> 0xDC00 \<le> c \<and> c \<le> 0xDFFF"

definition escape_unit :: "code_unit \<Rightarrow> js_string" where
  "escape_unit c =
     (if c = 0x08 then [BSL, 0x62]
      else if c = 0x09 then [BSL, 0x74]
      else if c = 0x0A then [BSL, 0x6E]
      else if c = 0x0C then [BSL, 0x66]
      else if c = 0x0D then [BSL, 0x72]
      else if c = QUOTE then [BSL, QUOTE]
      else if c = BSL then [BSL, BSL]
      else if c < 0x20 \<or> is_lead c \<or> is_trail c then BSL # 0x75 # hex4 (unat c)
      else [c])"

text \<open>A surrogate pair is one code point and is copied; a lone surrogate is escaped.\<close>

fun quote_body :: "js_string \<Rightarrow> js_string" where
  "quote_body [] = []"
| "quote_body [c] = escape_unit c"
| "quote_body (c # d # cs) =
     (if is_lead c \<and> is_trail d then c # d # quote_body cs
      else escape_unit c @ quote_body (d # cs))"

definition json_quote :: "js_string \<Rightarrow> js_string" where
  "json_quote s = QUOTE # quote_body s @ [QUOTE]"

fun nat_digits :: "nat \<Rightarrow> js_string" where
  "nat_digits n = (if n < 10 then [of_nat (48 + n)] else nat_digits (n div 10) @ [of_nat (48 + n mod 10)])"

declare nat_digits.simps [simp del]

definition int_digits :: "int \<Rightarrow> js_string" where
  "int_digits i = (if i < 0 then 0x2D # nat_digits (nat (- i)) else nat_digits (nat i))"

definition frac_digits :: "nat \<Rightarrow> nat \<Rightarrow> js_string" where
  "frac_digits k f = replicate (k - length (nat_digits f)) 0x30 @ nat_digits f"

fun join_comma :: "js_string list \<Rightarrow> js_string" where
  "join_comma [] = []"
| "join_comma [x] = x"
| "join_comma (x # y # zs) = x @ 0x2C # join_comma (y # zs)"

fun json_stringify :: "json \<Rightarrow> js_string" where
  "json_stringify JNull = js ''null''"
| "json_stringify (JBool b) = (if b then js ''true'' else js ''false'')"
| "json_stringify (JNum i) = int_digits i"
| "json_stringify (JFrac m k) =
     (if m < 0 then [0x2D] else []) @ nat_digits (nat \<bar>m\<bar> div 10 ^ k) @ 0x2E # frac_digits k (nat \<bar>m\<bar> mod 10 ^ k)"
| "json_stringify (JStr s) = json_quote s"
| "json_stringify (JArr vs) = 0x5B # join_comma (map json_stringify vs) @ [0x5D]"
| "json_stringify (JObj kvs) =
     0x7B # join_comma (map (\<lambda>(k, v). json_quote k @ 0x3A # json_stringify v) kvs) @ [0x7D]"

subsection \<open>Parsing: \<open>JSON.parse\<close>\<close>

definition json_ws :: "code_unit \<Rightarrow> bool" where
  "json_ws c \<longleftrightarrow> c = 0x20 \<or> c = 0x09 \<or> c = 0x0A \<or> c = 0x0D"

definition skip_ws :: "js_string \<Rightarrow> js_string" where
  "skip_ws s = dropWhile json_ws s"

definition hex_val :: "code_unit \<Rightarrow> nat option" where
  "hex_val c =
     (if 0x30 \<le> c \<and> c \<le> 0x39 then Some (unat c - 48)
      else if 0x61 \<le> c \<and> c \<le> 0x66 then Some (unat c - 87)
      else if 0x41 \<le> c \<and> c \<le> 0x46 then Some (unat c - 55)
      else None)"

definition hex4_val :: "js_string \<Rightarrow> nat option" where
  "hex4_val hs =
     (case hs of
        [a, b, c, d] \<Rightarrow>
          (case (hex_val a, hex_val b, hex_val c, hex_val d) of
             (Some w, Some x, Some y, Some z) \<Rightarrow> Some (((w * 16 + x) * 16 + y) * 16 + z)
           | _ \<Rightarrow> None)
      | _ \<Rightarrow> None)"

definition simple_escape :: "code_unit \<Rightarrow> code_unit option" where
  "simple_escape e =
     (if e = QUOTE then Some QUOTE
      else if e = BSL then Some BSL
      else if e = 0x2F then Some 0x2F
      else if e = 0x62 then Some 0x08
      else if e = 0x66 then Some 0x0C
      else if e = 0x6E then Some 0x0A
      else if e = 0x72 then Some 0x0D
      else if e = 0x74 then Some 0x09
      else None)"

definition cons_fst :: "'a \<Rightarrow> ('a list \<times> 'b) option \<Rightarrow> ('a list \<times> 'b) option" where
  "cons_fst x r = map_option (\<lambda>(xs, rest). (x # xs, rest)) r"

text \<open>The body of a string literal, after its opening quote, up to its closing quote.\<close>

function parse_str :: "js_string \<Rightarrow> (js_string \<times> js_string) option" where
  "parse_str [] = None"
| "parse_str (c # cs) =
     (if c = QUOTE then Some ([], cs)
      else if c = BSL then
        (case cs of
           [] \<Rightarrow> None
         | e # rest \<Rightarrow>
             if e = 0x75 then
               (case hex4_val (take 4 rest) of
                  None \<Rightarrow> None
                | Some n \<Rightarrow> cons_fst (of_nat n) (parse_str (drop 4 rest)))
             else
               (case simple_escape e of
                  None \<Rightarrow> None
                | Some d \<Rightarrow> cons_fst d (parse_str rest)))
      else if c < 0x20 then None
      else cons_fst c (parse_str cs))"
  by pat_completeness auto
termination
  by (relation "measure length") auto

definition is_digit :: "code_unit \<Rightarrow> bool" where
  "is_digit c \<longleftrightarrow> 0x30 \<le> c \<and> c \<le> 0x39"

definition digits_val :: "js_string \<Rightarrow> nat" where
  "digits_val ds = foldl (\<lambda>a d. 10 * a + (unat d - 48)) 0 ds"

text \<open>The integer part of a number: digits without a leading zero.\<close>

definition parse_nat_part :: "js_string \<Rightarrow> (nat \<times> js_string) option" where
  "parse_nat_part s =
     (let ds = takeWhile is_digit s; rest = dropWhile is_digit s in
      if ds = [] \<or> (hd ds = 0x30 \<and> 1 < length ds) then None
      else Some (digits_val ds, rest))"

text \<open>The fraction: a point and at least one digit; their value and their count.\<close>

definition parse_frac :: "js_string \<Rightarrow> ((nat \<times> nat) \<times> js_string) option" where
  "parse_frac s =
     (if s \<noteq> [] \<and> hd s = 0x2E then
        (let ds = takeWhile is_digit (tl s) in
         if ds = [] then None else Some ((digits_val ds, length ds), dropWhile is_digit (tl s)))
      else Some ((0, 0), s))"

text \<open>The exponent: \<open>e\<close> or \<open>E\<close>, an optional sign and at least one digit.\<close>

definition parse_exp :: "js_string \<Rightarrow> (int \<times> js_string) option" where
  "parse_exp s =
     (if s \<noteq> [] \<and> hd s \<in> {0x65, 0x45} then
        (let t = tl s;
             u = (if t \<noteq> [] \<and> hd t \<in> {0x2B, 0x2D} then tl t else t);
             ds = takeWhile is_digit u;
             e = int (digits_val ds) in
         if ds = [] then None
         else Some (if t \<noteq> [] \<and> hd t = 0x2D then - e else e, dropWhile is_digit u))
      else Some (0, s))"

text \<open>A decimal \<open>m / 10^k\<close> in lowest terms: the trailing zeros of \<open>m\<close> cancelled.\<close>

fun strip_zeros :: "nat \<Rightarrow> nat \<Rightarrow> nat \<times> nat" where
  "strip_zeros m k = (if 0 < k \<and> m mod 10 = 0 then strip_zeros (m div 10) (k - 1) else (m, k))"

text \<open>
  The value of a number with sign \<open>neg\<close>, integer part \<open>n\<close>, fraction digits
  of value \<open>f\<close> and count \<open>l\<close>, and exponent \<open>e\<close>: \<open>(n * 10^l + f) * 10^(e - l)\<close>.
\<close>

definition number_value :: "bool \<Rightarrow> nat \<Rightarrow> nat \<Rightarrow> nat \<Rightarrow> int \<Rightarrow> json" where
  "number_value neg n f l e =
     (let m = n * 10 ^ l + f; k = e - int l; sg = (\<lambda>x::nat. if neg then - int x else int x) in
      if 0 \<le> k then JNum (sg (m * 10 ^ nat k))
      else if m mod 10 ^ nat (- k) = 0 then JNum (sg (m div 10 ^ nat (- k)))
      else (case strip_zeros m (nat (- k)) of (m', k') \<Rightarrow> JFrac (sg m') k'))"

definition parse_number :: "js_string \<Rightarrow> (json \<times> js_string) option" where
  "parse_number s =
     (let neg = (s \<noteq> [] \<and> hd s = 0x2D) in
      case parse_nat_part (if neg then tl s else s) of
        None \<Rightarrow> None
      | Some (n, r1) \<Rightarrow>
          (case parse_frac r1 of
             None \<Rightarrow> None
           | Some ((f, l), r2) \<Rightarrow>
               (case parse_exp r2 of
                  None \<Rightarrow> None
                | Some (e, r3) \<Rightarrow> Some (number_value neg n f l e, r3))))"

fun parse_value :: "nat \<Rightarrow> js_string \<Rightarrow> (json \<times> js_string) option"
and parse_elems :: "nat \<Rightarrow> json list \<Rightarrow> js_string \<Rightarrow> (json list \<times> js_string) option"
and parse_members ::
  "nat \<Rightarrow> (js_string \<times> json) list \<Rightarrow> js_string \<Rightarrow> ((js_string \<times> json) list \<times> js_string) option"
where
  "parse_value 0 s = None"
| "parse_value (Suc n) s =
     (case skip_ws s of
        [] \<Rightarrow> None
      | c # r \<Rightarrow>
          if c = 0x7B then
            (case skip_ws r of
               d # r' \<Rightarrow> if d = 0x7D then Some (JObj [], r')
                         else map_option (\<lambda>(kvs, r''). (JObj kvs, r'')) (parse_members n [] r)
             | [] \<Rightarrow> None)
          else if c = 0x5B then
            (case skip_ws r of
               d # r' \<Rightarrow> if d = 0x5D then Some (JArr [], r')
                         else map_option (\<lambda>(vs, r''). (JArr vs, r'')) (parse_elems n [] r)
             | [] \<Rightarrow> None)
          else if c = QUOTE then map_option (\<lambda>(t, r'). (JStr t, r')) (parse_str r)
          else if take 4 (c # r) = js ''true'' then Some (JBool True, drop 3 r)
          else if take 5 (c # r) = js ''false'' then Some (JBool False, drop 4 r)
          else if take 4 (c # r) = js ''null'' then Some (JNull, drop 3 r)
          else parse_number (c # r))"
| "parse_elems 0 acc s = None"
| "parse_elems (Suc n) acc s =
     (case parse_value n s of
        None \<Rightarrow> None
      | Some (v, r) \<Rightarrow>
          (case skip_ws r of
             [] \<Rightarrow> None
           | c # r' \<Rightarrow>
               if c = 0x2C then parse_elems n (v # acc) r'
               else if c = 0x5D then Some (rev (v # acc), r')
               else None))"
| "parse_members 0 acc s = None"
| "parse_members (Suc n) acc s =
     (case skip_ws s of
        [] \<Rightarrow> None
      | c # r \<Rightarrow>
          if c \<noteq> QUOTE then None
          else
            (case parse_str r of
               None \<Rightarrow> None
             | Some (k, r1) \<Rightarrow>
                 (case skip_ws r1 of
                    [] \<Rightarrow> None
                  | d # r2 \<Rightarrow>
                      if d \<noteq> 0x3A then None
                      else
                        (case parse_value n r2 of
                           None \<Rightarrow> None
                         | Some (v, r3) \<Rightarrow>
                             (case skip_ws r3 of
                                [] \<Rightarrow> None
                              | e # r4 \<Rightarrow>
                                  if e = 0x2C then parse_members n ((k, v) # acc) r4
                                  else if e = 0x7D then Some (rev ((k, v) # acc), r4)
                                  else None)))))"

text \<open>
  The nesting budget a printed value needs: one unit per value and per element
  or member. It is bounded by the length of the printed text
  (\<open>jfuel_le_length\<close> below), which is the fuel \<open>json_parse\<close> gives.
\<close>

fun jfuel :: "json \<Rightarrow> nat" where
  "jfuel (JArr vs) = Suc (sum_list (map (\<lambda>v. Suc (jfuel v)) vs))"
| "jfuel (JObj kvs) = Suc (sum_list (map (\<lambda>(k, v). Suc (jfuel v)) kvs))"
| "jfuel _ = 1"

text \<open>
  A value whose numbers are all integers. Only for these is the printed text
  the one \<open>JSON.stringify\<close> writes: it prints a fraction as the shortest
  decimal of its double, which \<open>JFrac\<close> does not record.
\<close>

fun json_ints :: "json \<Rightarrow> bool" where
  "json_ints (JFrac m k) = False"
| "json_ints (JArr vs) = (\<forall>v \<in> set vs. json_ints v)"
| "json_ints (JObj kvs) = (\<forall>kv \<in> set kvs. json_ints (snd kv))"
| "json_ints _ = True"

text \<open>What may follow a value inside printed JSON: a separator, a closing bracket, or nothing.\<close>

definition json_delim :: "js_string \<Rightarrow> bool" where
  "json_delim r \<longleftrightarrow> r = [] \<or> hd r \<in> {0x2C, 0x5D, 0x7D}"

definition num_end :: "js_string \<Rightarrow> bool" where
  "num_end r \<longleftrightarrow> r = [] \<or> (\<not> is_digit (hd r) \<and> hd r \<notin> {0x2E, 0x65, 0x45})"

text \<open>A printed value starts with a unit that is neither whitespace nor a closing token.\<close>

definition value_start :: "code_unit \<Rightarrow> bool" where
  "value_start c \<longleftrightarrow> \<not> json_ws c \<and> c \<noteq> 0x5D \<and> c \<noteq> 0x7D \<and> c \<noteq> 0x2C"

abbreviation member_text :: "js_string \<times> json \<Rightarrow> js_string" where
  "member_text \<equiv> (\<lambda>(k, v). json_quote k @ 0x3A # json_stringify v)"

definition json_parse :: "js_string \<Rightarrow> json option" where
  "json_parse s =
     (case parse_value (Suc (length s)) s of
        None \<Rightarrow> None
      | Some (v, r) \<Rightarrow> if skip_ws r = [] then Some v else None)"

subsection \<open>Round trip: \<open>JSON.parse (JSON.stringify v) = v\<close>\<close>

lemma unat_of_nat_small: "n < 65536 \<Longrightarrow> unat (of_nat n :: code_unit) = n"
  by (simp add: unat_of_nat)

lemma unat_numeral_plus_of_nat:
  "numeral k + n < 65536 \<Longrightarrow> unat ((numeral k :: code_unit) + of_nat n) = numeral k + n"
proof -
  assume b: "numeral k + n < 65536"
  have "(numeral k :: code_unit) + of_nat n = of_nat (numeral k + n)" by simp
  with b show ?thesis by (simp only: unat_of_nat_small)
qed

lemma unat_code_unit_bound: "unat (c :: code_unit) < 65536"
  using unsigned_less[of c, where 'a = nat] by simp

lemma unat_hex_digit:
  "d < 16 \<Longrightarrow> unat (hex_digit d) = (if d < 10 then 48 + d else 87 + d)"
  unfolding hex_digit_def by (simp only: if_distrib[of unat] unat_of_nat_small)

lemma hex_val_hex_digit: "d < 16 \<Longrightarrow> hex_val (hex_digit d) = Some d"
  by (auto simp: hex_val_def word_le_nat_alt unat_hex_digit)

lemma hex4_val_hex4:
  assumes "n < 65536"
  shows "hex4_val (hex4 n) = Some n"
proof -
  have q: "n div 4096 < 16"
    using assms by simp
  have q': "n div 4096 mod 16 = n div 4096"
    using q by simp
  have d1: "n div 4096 mod 16 = n div 256 div 16"
    using q by simp
  have d2: "n div 256 = n div 16 div 16"
    by simp
  have "((n div 4096 mod 16 * 16 + n div 256 mod 16) * 16 + n div 16 mod 16) * 16 + n mod 16
        = n"
    unfolding d1 by (simp only: div_mult_mod_eq d2)
  then show ?thesis
    by (simp add: hex4_def hex4_val_def hex_val_hex_digit q q')
qed

lemma surrogate_not_special:
  "is_lead c \<or> is_trail c \<Longrightarrow> c \<noteq> QUOTE \<and> c \<noteq> BSL \<and> \<not> c < 0x20"
  by (auto simp: is_lead_def is_trail_def word_le_nat_alt word_less_nat_alt)

lemma parse_str_escape_unit:
  "parse_str (escape_unit c @ rest) = cons_fst c (parse_str rest)"
proof -
  have t: "take 4 (hex4 n) = hex4 n" and d: "drop 4 (hex4 n) = []"
    and l: "length (hex4 n) = 4" for n
    by (simp_all add: hex4_def)
  have u: "parse_str (BSL # 0x75 # hex4 (unat c) @ rest) = cons_fst c (parse_str rest)"
    by (simp add: t d l hex4_val_hex4 unat_code_unit_bound)
  show ?thesis
    unfolding escape_unit_def
    by (simp add: u simple_escape_def del: parse_str.simps(2)) (simp add: simple_escape_def)
qed

lemma parse_str_raw:
  "c \<noteq> QUOTE \<Longrightarrow> c \<noteq> BSL \<Longrightarrow> \<not> c < 0x20 \<Longrightarrow> parse_str (c # cs) = cons_fst c (parse_str cs)"
  by simp

lemma parse_str_quote_body: "parse_str (quote_body s @ QUOTE # r) = Some (s, r)"
proof (induction s rule: quote_body.induct)
  case 1
  then show ?case by simp
next
  case (2 c)
  then show ?case by (simp add: parse_str_escape_unit cons_fst_def)
next
  case (3 c d cs)
  show ?case
  proof (cases "is_lead c \<and> is_trail d")
    case True
    then have "parse_str (c # d # quote_body cs @ QUOTE # r) = Some (c # d # cs, r)"
      using "3.IH"(1) surrogate_not_special[of c] surrogate_not_special[of d]
      by (simp add: parse_str_raw cons_fst_def del: parse_str.simps)
    with True show ?thesis by simp
  next
    case False
    then have "quote_body (c # d # cs) = escape_unit c @ quote_body (d # cs)"
      by (simp only: quote_body.simps(3) if_not_P if_False)
    with "3.IH"(2)[OF False] show ?thesis by (simp add: parse_str_escape_unit cons_fst_def)
  qed
qed

lemma nat_digits_nonempty: "nat_digits n \<noteq> []"
  by (subst nat_digits.simps) simp

lemma nat_digits_is_digit: "c \<in> set (nat_digits n) \<Longrightarrow> is_digit c"
proof (induction n rule: nat_digits.induct)
  case (1 n)
  have "is_digit (of_nat (48 + d))" if "d < 10" for d :: nat
    using that by (simp add: is_digit_def word_le_nat_alt unat_numeral_plus_of_nat)
  with 1 show ?case
    by (subst (asm) nat_digits.simps) (auto split: if_splits)
qed

lemma digits_val_snoc: "digits_val (ds @ [d]) = 10 * digits_val ds + (unat d - 48)"
  by (simp add: digits_val_def)

lemma digits_val_nat_digits: "digits_val (nat_digits n) = n"
proof (induction n rule: nat_digits.induct)
  case (1 n)
  show ?case
  proof (cases "n < 10")
    case True
    then show ?thesis
      by (subst nat_digits.simps) (simp add: digits_val_def unat_numeral_plus_of_nat)
  next
    case False
    with "1.IH" show ?thesis
      by (subst nat_digits.simps) (simp add: digits_val_snoc unat_numeral_plus_of_nat)
  qed
qed

lemma nat_digits_no_leading_zero:
  "hd (nat_digits n) = 0x30 \<Longrightarrow> length (nat_digits n) = 1"
proof (induction n rule: nat_digits.induct)
  case (1 n)
  show ?case
  proof (cases "n < 10")
    case True
    then show ?thesis by (subst nat_digits.simps) simp
  next
    case False
    have "hd (nat_digits (n div 10)) = 0x30"
      using "1.prems" False nat_digits_nonempty[of "n div 10"]
      by (subst (asm) nat_digits.simps) simp
    then have "length (nat_digits (n div 10)) = 1" using "1.IH" False by simp
    then have "nat_digits (n div 10) = [0x30]"
      using \<open>hd (nat_digits (n div 10)) = 0x30\<close> by (cases "nat_digits (n div 10)") auto
    then have "n div 10 = 0"
      using digits_val_nat_digits[of "n div 10"] by (simp add: digits_val_def)
    with False show ?thesis by simp
  qed
qed

lemma parse_nat_part_nat_digits:
  assumes "num_end r"
  shows "parse_nat_part (nat_digits n @ r) = Some (n, r)"
proof -
  have tw: "takeWhile is_digit (nat_digits n @ r) = nat_digits n"
    and dw: "dropWhile is_digit (nat_digits n @ r) = r"
    using assms nat_digits_is_digit[of _ n]
    by (cases r; auto simp: num_end_def takeWhile_append2 dropWhile_append2)+
  show ?thesis
    using assms nat_digits_nonempty[of n] nat_digits_no_leading_zero[of n]
    by (auto simp: parse_nat_part_def Let_def tw dw digits_val_nat_digits num_end_def)
qed

lemma parse_frac_end: "num_end r \<Longrightarrow> parse_frac r = Some ((0, 0), r)"
  by (auto simp: parse_frac_def num_end_def)

lemma parse_exp_end: "num_end r \<Longrightarrow> parse_exp r = Some (0, r)"
  by (auto simp: parse_exp_def num_end_def)

lemma number_value_int: "number_value neg n 0 0 0 = JNum (if neg then - int n else int n)"
  by (simp add: number_value_def)

lemma parse_number_int_digits:
  "num_end r \<Longrightarrow> parse_number (int_digits i @ r) = Some (JNum i, r)"
proof -
  assume r: "num_end r"
  have hd_digit: "hd (nat_digits n @ r) \<noteq> 0x2D" for n
    using nat_digits_is_digit[of "hd (nat_digits n)" n] nat_digits_nonempty[of n]
    by (auto simp: is_digit_def)
  show ?thesis
    using hd_digit parse_nat_part_nat_digits[OF r]
    by (auto simp: parse_number_def int_digits_def nat_digits_nonempty parse_frac_end[OF r]
        parse_exp_end[OF r] number_value_int)
qed

lemma skip_ws_Cons: "\<not> json_ws c \<Longrightarrow> skip_ws (c # cs) = c # cs"
  by (simp add: skip_ws_def)

lemma skip_ws_Nil [simp]: "skip_ws [] = []"
  by (simp add: skip_ws_def)

lemma join_comma_Cons_append:
  "join_comma (x # xs) @ t = x @ (if xs = [] then t else 0x2C # join_comma xs @ t)"
  by (cases xs) simp_all

lemma int_digits_head:
  obtains c cs where "int_digits i = c # cs" and "c = 0x2D \<or> is_digit c"
proof -
  obtain c cs where ncs: "nat_digits (nat \<bar>i\<bar>) = c # cs"
    using nat_digits_nonempty by (cases "nat_digits (nat \<bar>i\<bar>)") auto
  then have "is_digit c" using nat_digits_is_digit[of c "nat \<bar>i\<bar>"] by simp
  with ncs that show ?thesis
    by (cases "i < 0") (auto simp: int_digits_def)
qed

lemma is_digit_value_start: "is_digit c \<Longrightarrow> value_start c"
  by (auto simp: is_digit_def value_start_def json_ws_def)

lemma json_stringify_head:
  obtains c cs where "json_stringify v = c # cs" and "value_start c"
proof (cases v)
  case (JNum i)
  obtain c cs where "int_digits i = c # cs" and "c = 0x2D \<or> is_digit c"
    by (rule int_digits_head)
  then have "value_start c"
    by (elim disjE) (simp add: value_start_def json_ws_def, simp add: is_digit_value_start)
  with JNum that \<open>int_digits i = c # cs\<close> show ?thesis by simp
next
  case (JFrac m k)
  obtain c cs where ncs: "nat_digits (nat \<bar>m\<bar> div 10 ^ k) = c # cs"
    using nat_digits_nonempty by (cases "nat_digits (nat \<bar>m\<bar> div 10 ^ k)") auto
  then have "value_start c"
    using nat_digits_is_digit[of c "nat \<bar>m\<bar> div 10 ^ k"] is_digit_value_start by simp
  with JFrac ncs that show ?thesis
    by (cases "m < 0") (auto simp: value_start_def json_ws_def)
next
  case (JBool b)
  with that show ?thesis by (cases b) (auto simp: value_start_def json_ws_def js_def)
qed (use that in \<open>auto simp: value_start_def json_ws_def js_def json_quote_def\<close>)

lemma parse_elems_join:
  assumes "\<And>v n r. v \<in> set vs \<Longrightarrow> jfuel v \<le> n \<Longrightarrow> json_delim r \<Longrightarrow>
             parse_value n (json_stringify v @ r) = Some (v, r)"
    and "vs \<noteq> []" and "sum_list (map (\<lambda>v. Suc (jfuel v)) vs) \<le> m"
  shows "parse_elems m acc (join_comma (map json_stringify vs) @ 0x5D # r) = Some (rev acc @ vs, r)"
  using assms
proof (induction vs arbitrary: m acc)
  case Nil
  then show ?case by simp
next
  case (Cons v vs)
  from Cons.prems(3) obtain m' where m: "m = Suc m'" and fv: "jfuel v \<le> m'"
    and fvs: "sum_list (map (\<lambda>v. Suc (jfuel v)) vs) \<le> m'"
    by (cases m) auto
  show ?case
  proof (cases "vs = []")
    case True
    have "parse_value m' (json_stringify v @ [0x5D] @ r) = Some (v, 0x5D # r)"
      using Cons.prems(1)[of v m' "0x5D # r"] fv by (simp add: json_delim_def)
    with True m show ?thesis by (simp add: skip_ws_Cons json_ws_def)
  next
    case False
    have pv: "parse_value m' (json_stringify v @ 0x2C # join_comma (map json_stringify vs) @ 0x5D # r)
              = Some (v, 0x2C # join_comma (map json_stringify vs) @ 0x5D # r)"
      using Cons.prems(1) fv by (simp add: json_delim_def)
    have "parse_elems m' (v # acc) (join_comma (map json_stringify vs) @ 0x5D # r)
          = Some (rev (v # acc) @ vs, r)"
      using Cons.IH[of m' "v # acc"] Cons.prems(1) False fvs by simp
    with False m pv show ?thesis
      by (simp add: join_comma_Cons_append skip_ws_Cons json_ws_def)
  qed
qed

lemma parse_members_join:
  assumes "\<And>k v n r. (k, v) \<in> set kvs \<Longrightarrow> jfuel v \<le> n \<Longrightarrow> json_delim r \<Longrightarrow>
             parse_value n (json_stringify v @ r) = Some (v, r)"
    and "kvs \<noteq> []" and "sum_list (map (\<lambda>(k, v). Suc (jfuel v)) kvs) \<le> m"
  shows "parse_members m acc (join_comma (map member_text kvs) @ 0x7D # r) = Some (rev acc @ kvs, r)"
  using assms
proof (induction kvs arbitrary: m acc)
  case Nil
  then show ?case by simp
next
  case (Cons kv kvs)
  obtain k v where kv: "kv = (k, v)" by (cases kv)
  from Cons.prems(3) kv obtain m' where m: "m = Suc m'" and fv: "jfuel v \<le> m'"
    and fvs: "sum_list (map (\<lambda>(k, v). Suc (jfuel v)) kvs) \<le> m'"
    by (cases m) auto
  have key: "parse_str (quote_body k @ QUOTE # t) = Some (k, t)" for t
    by (rule parse_str_quote_body)
  have colon: "skip_ws (0x3A # t) = 0x3A # t" for t
    by (simp add: skip_ws_Cons json_ws_def)
  show ?case
  proof (cases "kvs = []")
    case True
    have "parse_value m' (json_stringify v @ 0x7D # r) = Some (v, 0x7D # r)"
      using Cons.prems(1)[of k v m' "0x7D # r"] kv fv by (simp add: json_delim_def)
    with True m kv key colon show ?thesis
      by (simp add: json_quote_def skip_ws_Cons json_ws_def)
  next
    case False
    let ?rest = "0x2C # join_comma (map member_text kvs) @ 0x7D # r"
    have pv: "parse_value m' (json_stringify v @ ?rest) = Some (v, ?rest)"
      using Cons.prems(1)[of k v m' ?rest] kv fv by (simp add: json_delim_def)
    have "parse_members m' ((k, v) # acc) (join_comma (map member_text kvs) @ 0x7D # r)
          = Some (rev ((k, v) # acc) @ kvs, r)"
      by (rule Cons.IH[OF _ False fvs]) (auto intro: Cons.prems(1))
    with False m kv pv key colon show ?thesis
      by (simp add: join_comma_Cons_append json_quote_def skip_ws_Cons json_ws_def)
  qed
qed

lemma parse_value_stringify:
  "json_ints v \<Longrightarrow> jfuel v \<le> n \<Longrightarrow> json_delim r \<Longrightarrow> parse_value n (json_stringify v @ r) = Some (v, r)"
proof (induction v arbitrary: n r)
  case JNull
  then show ?case by (cases n) (auto simp: skip_ws_def json_ws_def js_def)
next
  case (JBool b)
  then show ?case by (cases n; cases b) (auto simp: skip_ws_def json_ws_def js_def)
next
  case (JNum i)
  obtain c cs where ics: "int_digits i = c # cs" and c: "c = 0x2D \<or> is_digit c"
    by (rule int_digits_head)
  have ne: "num_end r" using JNum.prems(3)
    by (auto simp: json_delim_def num_end_def is_digit_def)
  from c have "c \<noteq> 0x7B \<and> c \<noteq> 0x5B \<and> c \<noteq> QUOTE \<and> c \<noteq> 0x74 \<and> c \<noteq> 0x66 \<and> c \<noteq> 0x6E
      \<and> \<not> json_ws c"
    by (auto simp: is_digit_def json_ws_def)
  with JNum.prems(2) ics parse_number_int_digits[OF ne, of i] show ?case
    by (cases n) (auto simp: skip_ws_Cons js_def)
next
  case (JFrac m k)
  then show ?case by simp
next
  case (JStr s)
  then show ?case
    by (cases n) (auto simp: json_quote_def skip_ws_Cons json_ws_def parse_str_quote_body)
next
  case (JArr vs)
  from JArr.prems(2) obtain n' where n: "n = Suc n'"
    and f: "sum_list (map (\<lambda>v. Suc (jfuel v)) vs) \<le> n'"
    by (cases n) auto
  show ?case
  proof (cases vs)
    case Nil
    with n show ?thesis by (simp add: skip_ws_Cons json_ws_def)
  next
    case (Cons v1 vs1)
    obtain c cs where v1: "json_stringify v1 = c # cs" and c: "value_start c"
      by (rule json_stringify_head)
    obtain t where X: "join_comma (map json_stringify vs) @ 0x5D # r = c # t"
      using Cons v1 by (simp add: join_comma_Cons_append)
    have ih: "\<And>v n r. v \<in> set vs \<Longrightarrow> jfuel v \<le> n \<Longrightarrow> json_delim r \<Longrightarrow>
             parse_value n (json_stringify v @ r) = Some (v, r)"
      using JArr.IH JArr.prems(1) by simp
    have "parse_elems n' [] (join_comma (map json_stringify vs) @ 0x5D # r) = Some (vs, r)"
      using parse_elems_join[of vs n' "[]" r] ih Cons f by simp
    with n X c show ?thesis
      by (simp add: skip_ws_Cons json_ws_def value_start_def)
  qed
next
  case (JObj kvs)
  from JObj.prems(2) obtain n' where n: "n = Suc n'"
    and f: "sum_list (map (\<lambda>(k, v). Suc (jfuel v)) kvs) \<le> n'"
    by (cases n) auto
  show ?case
  proof (cases kvs)
    case Nil
    with n show ?thesis by (simp add: skip_ws_Cons json_ws_def)
  next
    case (Cons kv kvs1)
    have ih: "\<And>k v n r. (k, v) \<in> set kvs \<Longrightarrow> jfuel v \<le> n \<Longrightarrow> json_delim r \<Longrightarrow>
             parse_value n (json_stringify v @ r) = Some (v, r)"
      using JObj.IH JObj.prems(1) by fastforce
    obtain t where X: "join_comma (map member_text kvs) @ 0x7D # r = QUOTE # t"
      using Cons by (cases kv) (simp add: join_comma_Cons_append json_quote_def)
    have "parse_members n' [] (join_comma (map member_text kvs) @ 0x7D # r) = Some (kvs, r)"
      using parse_members_join[of kvs n' "[]" r] ih Cons f by simp
    with n X show ?thesis
      by (simp add: skip_ws_Cons json_ws_def)
  qed
qed

lemma sum_suc_le_join_comma:
  assumes "\<And>x. x \<in> set xs \<Longrightarrow> f x \<le> length (g x)"
  shows "sum_list (map (\<lambda>x. Suc (f x)) xs) \<le> Suc (length (join_comma (map g xs)))"
  using assms
proof (induction xs rule: induct_list012)
  case (3 x y zs)
  then show ?case by fastforce
qed auto

lemma jfuel_le_length: "jfuel v \<le> length (json_stringify v)"
proof (induction v)
  case (JNum i)
  then show ?case
    by (rule int_digits_head[of i]) simp
next
  case (JArr vs)
  then show ?case using sum_suc_le_join_comma[of vs jfuel json_stringify] by simp
next
  case (JObj kvs)
  have "\<And>kv. kv \<in> set kvs \<Longrightarrow> (\<lambda>(k, v). jfuel v) kv \<le> length (member_text kv)"
    using JObj.IH by fastforce
  then show ?case
    using sum_suc_le_join_comma[of kvs "\<lambda>(k, v). jfuel v" member_text]
    by (simp add: case_prod_beta')
qed (simp_all add: js_def json_quote_def)

theorem json_parse_stringify: "json_ints v \<Longrightarrow> json_parse (json_stringify v) = Some v"
proof -
  assume v: "json_ints v"
  have "jfuel v \<le> Suc (length (json_stringify v))"
    using jfuel_le_length[of v] by simp
  then have "parse_value (Suc (length (json_stringify v))) (json_stringify v @ []) = Some (v, [])"
    by (rule parse_value_stringify[OF v]) (simp add: json_delim_def)
  then show ?thesis by (simp add: json_parse_def)
qed

end
