(* ===== verification/Message.thy ===== *)
theory Message
  imports Json
begin

text \<open>
  The \<open>Message\<close> type of src/src/context/ChatContext.tsx (lines 3 to 7, repeated in
  src/src/pages/Chat.tsx, lines 16 to 20) and the JSON text a message list is
  stored as. \<open>encode_messages\<close> is \<open>JSON.stringify(newMessages)\<close>; the objects
  the program builds have their keys in the order \<open>text\<close>, \<open>sender\<close>,
  \<open>timestamp\<close>. \<open>decode_messages\<close> is \<open>JSON.parse(savedMessages)\<close> read as a
  \<open>Message[]\<close>: the source does not check the parsed value, so a text that
  parses to something else than an array of messages is the error
  \<open>NotMessageList\<close> here (the program would carry the wrong value on and fail
  where it first uses it), and a text that does not parse is \<open>SyntaxError\<close>
  (the exception \<open>JSON.parse\<close> throws). A key given twice in an object counts
  with its last value, as in a parsed JavaScript object.
\<close>

datatype sender = User | Bot

record message =
  "text" :: js_string
  sender :: sender
  timestamp :: int

datatype decode_error = SyntaxError | NotMessageList

definition sender_str :: "sender \<Rightarrow> js_string" where
  "sender_str s = (case s of User \<Rightarrow> js ''user'' | Bot \<Rightarrow> js ''bot'')"

definition sender_of_str :: "js_string \<Rightarrow> sender option" where
  "sender_of_str s =
     (if s = js ''user'' then Some User else if s = js ''bot'' then Some Bot else None)"

definition json_of_message :: "message \<Rightarrow> json" where
  "json_of_message m =
     JObj [(js ''text'', JStr (text m)), (js ''sender'', JStr (sender_str (sender m))),
           (js ''timestamp'', JNum (timestamp m))]"

definition obj_get :: "(js_string \<times> json) list \<Rightarrow> js_string \<Rightarrow> json option" where
  "obj_get kvs k = map_of (rev kvs) k"

fun message_of_json :: "json \<Rightarrow> message option" where
  "message_of_json (JObj kvs) =
     (case (obj_get kvs (js ''text''), obj_get kvs (js ''sender''), obj_get kvs (js ''timestamp'')) of
        (Some (JStr t), Some (JStr s), Some (JNum n)) \<Rightarrow>
          map_option (\<lambda>snd. \<lparr>text = t, sender = snd, timestamp = n\<rparr>) (sender_of_str s)
      | _ \<Rightarrow> None)"
| "message_of_json _ = None"

definition messages_of_json :: "json \<Rightarrow> message list option" where
  "messages_of_json j = (case j of JArr vs \<Rightarrow> those (map message_of_json vs) | _ \<Rightarrow> None)"

definition encode_messages :: "message list \<Rightarrow> js_string" where
  "encode_messages ms = json_stringify (JArr (map json_of_message ms))"

definition decode_messages :: "js_string \<Rightarrow> decode_error + message list" where
  "decode_messages s =
     (case json_parse s of
        None \<Rightarrow> Inl SyntaxError
      | Some j \<Rightarrow> (case messages_of_json j of None \<Rightarrow> Inl NotMessageList | Some ms \<Rightarrow> Inr ms))"

subsection \<open>Round trip of the stored text\<close>

lemma sender_of_str_sender_str [simp]: "sender_of_str (sender_str s) = Some s"
  by (cases s) (simp_all add: sender_of_str_def sender_str_def js_def)

lemma message_of_json_json_of_message [simp]: "message_of_json (json_of_message m) = Some m"
  by (simp add: json_of_message_def obj_get_def js_def)

lemma those_map_Some: "(\<And>x. x \<in> set xs \<Longrightarrow> f (g x) = Some x) \<Longrightarrow> those (map (f \<circ> g) xs) = Some xs"
  by (induction xs) auto

lemma decode_encode_messages: "decode_messages (encode_messages ms) = Inr ms"
proof -
  have i: "json_ints (JArr (map json_of_message ms))"
    by (simp add: json_of_message_def)
  have "those (map (message_of_json \<circ> json_of_message) ms) = Some ms"
    by (rule those_map_Some) simp
  then show ?thesis
    by (simp add: decode_messages_def encode_messages_def json_parse_stringify[OF i] messages_of_json_def
        del: json_stringify.simps)
qed

lemma encode_messages_nonempty: "encode_messages ms \<noteq> []"
  by (simp add: encode_messages_def)

subsection \<open>Numbers in a stored text\<close>

text \<open>
  \<open>JSON.parse\<close> reads every number of the JSON grammar: exponents and
  fractions are values, a fraction's trailing zeros cancel, and a point
  without digits, a leading zero, a bare sign or an empty exponent are syntax
  errors. A stored timestamp written with an exponent reads as its integer.
\<close>

lemma json_number_grammar:
  "json_parse (js ''[1e3,-2.50,0.125E1,7E+0,5e-1]'') = Some (JArr [JNum 1000, JFrac (-25) 1, JFrac 125 2, JNum 7, JFrac 5 1])"
  "json_parse (js ''1.'') = None \<and> json_parse (js ''01'') = None \<and> json_parse (js ''1e'') = None
   \<and> json_parse (js ''-'') = None \<and> json_parse (js ''.5'') = None"
  by code_simp+

lemma decode_exponent_timestamp:
  "decode_messages (js ''[{\"text\":\"a\",\"sender\":\"user\",\"timestamp\":1e3}]'')
     = Inr [\<lparr>text = js ''a'', sender = User, timestamp = 1000\<rparr>]"
  by code_simp

end
