(* ===== verification/Storage.thy ===== *)
theory Storage
  imports Message
begin

text \<open>
  The browser's \<open>localStorage\<close>: one store of string keys and string values
  shared by the whole program. The chat store keeps one entry per session under
  the key \<open>chat-messages-<sessionId>\<close> (src/src/context/ChatContext.tsx, lines
  35, 47, 59, 73); the theme keeps the key \<open>theme\<close>
  (src/src/context/ThemeContext.tsx, lines 16, 21, 26). The three operations the
  reducer performs on a session's entry are \<open>load_messages\<close> (the read of
  \<open>SET_SESSION_ID\<close>), \<open>save_messages\<close> (\<open>setItem\<close> of the stringified list)
  and \<open>remove_messages\<close> (\<open>removeItem\<close>). \<open>stored_sessions\<close> abstracts the
  store to the map from sessions to their histories that the spec's
  Persistence Adapter describes; the operations refine map update and
  deletion on it.
\<close>

type_synonym local_storage = "js_string \<Rightarrow> js_string option"

definition chat_key :: "js_string \<Rightarrow> js_string" where
  "chat_key sid = js ''chat-messages-'' @ sid"

definition theme_key :: js_string where
  "theme_key = js ''theme''"

definition load_messages :: "local_storage \<Rightarrow> js_string \<Rightarrow> decode_error + message list" where
  "load_messages st sid =
     (case st (chat_key sid) of
        None \<Rightarrow> Inr []
      | Some saved \<Rightarrow> if saved = [] then Inr [] else decode_messages saved)"

definition save_messages :: "js_string \<Rightarrow> message list \<Rightarrow> local_storage \<Rightarrow> local_storage" where
  "save_messages sid ms st = st(chat_key sid \<mapsto> encode_messages ms)"

definition remove_messages :: "js_string \<Rightarrow> local_storage \<Rightarrow> local_storage" where
  "remove_messages sid st = st(chat_key sid := None)"

definition stored_sessions :: "local_storage \<Rightarrow> js_string \<Rightarrow> (decode_error + message list) option" where
  "stored_sessions st sid =
     map_option (\<lambda>saved. if saved = [] then Inr [] else decode_messages saved) (st (chat_key sid))"

text \<open>
  A well-typed store: every session's entry is absent or decodes to a message
  list, so that no \<open>SET_SESSION_ID\<close> can throw.
\<close>

definition store_ok :: "local_storage \<Rightarrow> bool" where
  "store_ok st \<longleftrightarrow> (\<forall>sid e. load_messages st sid \<noteq> Inl e)"

subsection \<open>Keys\<close>

lemma chat_key_inject [simp]: "chat_key a = chat_key b \<longleftrightarrow> a = b"
  by (simp add: chat_key_def)

lemma chat_key_ne_theme_key [simp]: "chat_key sid \<noteq> theme_key"
  by (simp add: chat_key_def theme_key_def js_def)

subsection \<open>Reads after writes\<close>

lemma load_save_same [store_simps]: "load_messages (save_messages sid ms st) sid = Inr ms"
  by (simp add: load_messages_def save_messages_def encode_messages_nonempty decode_encode_messages)

lemma load_save_other [store_simps]:
  "sid' \<noteq> sid \<Longrightarrow> load_messages (save_messages sid ms st) sid' = load_messages st sid'"
  by (simp add: load_messages_def save_messages_def)

lemma load_remove_same [store_simps]: "load_messages (remove_messages sid st) sid = Inr []"
  by (simp add: load_messages_def remove_messages_def)

lemma load_remove_other [store_simps]:
  "sid' \<noteq> sid \<Longrightarrow> load_messages (remove_messages sid st) sid' = load_messages st sid'"
  by (simp add: load_messages_def remove_messages_def)

lemma load_empty [simp, store_simps]: "load_messages Map.empty sid = Inr []"
  by (simp add: load_messages_def)

lemma save_save_same [store_simps]:
  "save_messages sid ms (save_messages sid ms' st) = save_messages sid ms st"
  by (simp add: save_messages_def)

lemma remove_remove_same [store_simps]:
  "remove_messages sid (remove_messages sid st) = remove_messages sid st"
  by (simp add: remove_messages_def)

lemma load_messages_stored_sessions:
  "load_messages st sid = (case stored_sessions st sid of None \<Rightarrow> Inr [] | Some r \<Rightarrow> r)"
  by (simp add: load_messages_def stored_sessions_def split: option.split)

lemma load_theme_upd [store_simps]: "load_messages (st(theme_key \<mapsto> v)) sid = load_messages st sid"
  by (simp add: load_messages_def chat_key_ne_theme_key[symmetric])

lemma store_ok_save:
  assumes "store_ok st"
  shows "store_ok (save_messages sid ms st)"
  unfolding store_ok_def
proof (intro allI)
  fix sid' e
  show "load_messages (save_messages sid ms st) sid' \<noteq> Inl e"
    using assms by (cases "sid' = sid") (simp_all add: store_ok_def load_save_same load_save_other)
qed

lemma store_ok_remove:
  assumes "store_ok st"
  shows "store_ok (remove_messages sid st)"
  unfolding store_ok_def
proof (intro allI)
  fix sid' e
  show "load_messages (remove_messages sid st) sid' \<noteq> Inl e"
    using assms by (cases "sid' = sid") (simp_all add: store_ok_def load_remove_same load_remove_other)
qed

lemma store_ok_theme: "store_ok (st(theme_key \<mapsto> v)) \<longleftrightarrow> store_ok st"
  by (simp add: store_ok_def load_theme_upd)

lemma store_ok_empty: "store_ok Map.empty"
  by (simp add: store_ok_def)

lemma store_ok_load: "store_ok st \<Longrightarrow> \<exists>ms. load_messages st sid = Inr ms"
  unfolding store_ok_def by (metis sum.exhaust)

lemma stored_sessions_theme_upd [store_simps]: "stored_sessions (st(theme_key \<mapsto> v)) = stored_sessions st"
  by (simp add: stored_sessions_def fun_eq_iff chat_key_ne_theme_key[symmetric])

text \<open>
  C2. Persistence round trip and session isolation: reading a session after
  saving a message list under it gives back that list, unchanged in content and
  order; reading any other session gives what it gave before the save.
\<close>

theorem load_after_save:
  "load_messages (save_messages sid ms st) sid' =
     (if sid' = sid then Inr ms else load_messages st sid')"
  by (simp add: load_save_same load_save_other)

text \<open>
  C15. Refinement: on the abstract view of the store as a map from sessions to
  their (decoded) histories, saving a list is the map update, removing an
  entry is the map deletion, and a write of the theme entry is invisible.
\<close>

theorem stored_sessions_refinement:
  "stored_sessions (save_messages sid ms st) = (stored_sessions st)(sid \<mapsto> Inr ms)
   \<and> stored_sessions (remove_messages sid st) = (stored_sessions st)(sid := None)
   \<and> stored_sessions (st(theme_key \<mapsto> v)) = stored_sessions st"
  by (auto simp: stored_sessions_def save_messages_def remove_messages_def
      encode_messages_nonempty decode_encode_messages fun_eq_iff chat_key_ne_theme_key[symmetric])

end
