(* ===== verification/ChatStore.thy ===== *)
theory ChatStore
  imports Storage
begin

text \<open>
  The conversation store of src/src/context/ChatContext.tsx: the state
  \<open>ChatState\<close> (lines 9 to 14) as the record \<open>chat_state\<close>, the action union
  \<open>ChatAction\<close> (lines 16 to 22) as the datatype \<open>chat_action\<close> with the
  source's tags as constructors, \<open>initialState\<close> (lines 24 to 29), and
  \<open>chatReducer\<close> (lines 31 to 80). The reducer reads and writes
  \<open>localStorage\<close>, so it takes the store with the state and returns both; the
  only exception it can raise is the one of \<open>JSON.parse\<close> in
  \<open>SET_SESSION_ID\<close>, which is the \<open>Inl\<close> branch. The guards
  \<open>if (!state.sessionId) return state\<close> are \<open>active_session\<close>, which is
  \<open>None\<close> for a \<open>null\<close> or empty session id. \<open>useReducer\<close> applies dispatched
  actions one after the other (\<open>ChatProvider\<close>, lines 84 to 88); a run of
  dispatches is \<open>dispatch_all\<close>, which stops at the first exception as the
  render that raised it would.
\<close>

record chat_state =
  sessionId :: "js_string option"
  messages :: "message list"
  loading :: bool
  error :: "js_string option"

datatype chat_action =
    SET_SESSION_ID js_string
  | ADD_MESSAGE message
  | UPDATE_LAST_BOT_MESSAGE js_string
  | SET_LOADING bool
  | SET_ERROR "js_string option"
  | CLEAR_MESSAGES

type_synonym chat_world = "chat_state \<times> local_storage"

definition initialState :: chat_state where
  "initialState = \<lparr>sessionId = None, messages = [], loading = False, error = None\<rparr>"

definition active_session :: "chat_state \<Rightarrow> js_string option" where
  "active_session s = (if js_truthy (sessionId s) then sessionId s else None)"

fun chatReducer :: "chat_world \<Rightarrow> chat_action \<Rightarrow> decode_error + chat_world" where
  "chatReducer (s, st) (SET_SESSION_ID sid) =
     (case load_messages st sid of
        Inl e \<Rightarrow> Inl e
      | Inr saved \<Rightarrow> Inr (s\<lparr>sessionId := Some sid, messages := saved\<rparr>, st))"
| "chatReducer (s, st) (ADD_MESSAGE m) =
     (case active_session s of
        None \<Rightarrow> Inr (s, st)
      | Some sid \<Rightarrow>
          (let newMessages = messages s @ [m]
           in Inr (s\<lparr>messages := newMessages\<rparr>, save_messages sid newMessages st)))"
| "chatReducer (s, st) (UPDATE_LAST_BOT_MESSAGE payload) =
     (case active_session s of
        None \<Rightarrow> Inr (s, st)
      | Some sid \<Rightarrow>
          (let newMessages = messages s; lastMessageIndex = length newMessages - 1
           in if newMessages \<noteq> [] \<and> sender (newMessages ! lastMessageIndex) = Bot
              then
                (let newMessages' =
                       newMessages[lastMessageIndex :=
                         (newMessages ! lastMessageIndex)\<lparr>text := payload\<rparr>]
                 in Inr (s\<lparr>messages := newMessages'\<rparr>, save_messages sid newMessages' st))
              else Inr (s\<lparr>messages := newMessages\<rparr>, st)))"
| "chatReducer (s, st) (SET_LOADING b) = Inr (s\<lparr>loading := b\<rparr>, st)"
| "chatReducer (s, st) (SET_ERROR e) = Inr (s\<lparr>error := e\<rparr>, st)"
| "chatReducer (s, st) CLEAR_MESSAGES =
     (case active_session s of
        None \<Rightarrow> Inr (s, st)
      | Some sid \<Rightarrow> Inr (s\<lparr>messages := []\<rparr>, remove_messages sid st))"

fun dispatch_all :: "chat_world \<Rightarrow> chat_action list \<Rightarrow> decode_error + chat_world" where
  "dispatch_all w [] = Inr w"
| "dispatch_all w (a # as) =
     (case chatReducer w a of Inl e \<Rightarrow> Inl e | Inr w' \<Rightarrow> dispatch_all w' as)"

text \<open>
  Write-through: the store holds, under the active session's key, exactly the
  message list of the state. Where no session is active nothing is claimed.
\<close>

definition synced :: "chat_world \<Rightarrow> bool" where
  "synced w \<longleftrightarrow>
     (case active_session (fst w) of
        None \<Rightarrow> True
      | Some sid \<Rightarrow> load_messages (snd w) sid = Inr (messages (fst w)))"

text \<open>
  What an action does to \<open>loading\<close> and to \<open>sessionId\<close>: only
  \<open>SET_LOADING\<close> and \<open>SET_SESSION_ID\<close> write them.
\<close>

fun loading_step :: "bool \<Rightarrow> chat_action \<Rightarrow> bool" where
  "loading_step l (SET_LOADING b) = b"
| "loading_step l a = l"

fun session_step :: "js_string option \<Rightarrow> chat_action \<Rightarrow> js_string option" where
  "session_step x (SET_SESSION_ID sid) = Some sid"
| "session_step x a = x"

text \<open>Example data for the witnesses below.\<close>

definition demo_msg :: message where
  "demo_msg = \<lparr>text = js ''hi'', sender = User, timestamp = 1\<rparr>"

definition demo_session :: chat_state where
  "demo_session = initialState\<lparr>sessionId := Some (js ''s'')\<rparr>"

subsection \<open>Basic facts\<close>

lemma active_session_Some: "active_session s = Some sid \<Longrightarrow> sessionId s = Some sid \<and> sid \<noteq> []"
  by (auto simp: active_session_def js_truthy_def split: if_splits option.splits)

lemma active_session_upd [simp]:
  "active_session (s\<lparr>messages := ms\<rparr>) = active_session s"
  "active_session (s\<lparr>loading := b\<rparr>) = active_session s"
  "active_session (s\<lparr>error := e\<rparr>) = active_session s"
  by (simp_all add: active_session_def)

lemma active_session_set [simp]:
  "active_session (s\<lparr>sessionId := x\<rparr>) = (if js_truthy x then x else None)"
  by (simp add: active_session_def)

lemma active_session_initial [simp]: "active_session initialState = None"
  by (simp add: active_session_def initialState_def)

lemma last_is_bot_iff [simp]:
  "(ms \<noteq> [] \<and> sender (ms ! (length ms - Suc 0)) = Bot) \<longleftrightarrow> (ms \<noteq> [] \<and> sender (last ms) = Bot)"
  by (cases ms) auto

lemma dispatch_all_append:
  "dispatch_all w (as @ bs) = (case dispatch_all w as of Inl e \<Rightarrow> Inl e | Inr w' \<Rightarrow> dispatch_all w' bs)"
  by (induction as arbitrary: w) (auto split: sum.split)

lemma update_last_text:
  "ms \<noteq> [] \<Longrightarrow> ms[length ms - Suc 0 := last ms\<lparr>text := p\<rparr>] = butlast ms @ [(last ms)\<lparr>text := p\<rparr>]"
  by (simp add: update_last_index)

subsection \<open>Write-through\<close>

lemma chatReducer_synced:
  assumes "chatReducer w a = Inr w'" and "synced w"
  shows "synced w'"
proof -
  obtain s st where w: "w = (s, st)" by (cases w)
  show ?thesis
  proof (cases a)
    case (SET_SESSION_ID sid)
    with assms w show ?thesis
      by (auto simp: synced_def split: sum.splits)
  next
    case (ADD_MESSAGE m)
    with assms w show ?thesis
      by (auto simp: synced_def Let_def load_save_same split: option.splits)
  next
    case (UPDATE_LAST_BOT_MESSAGE p)
    with assms w show ?thesis
      by (auto simp: synced_def Let_def load_save_same split: option.splits if_splits)
  next
    case CLEAR_MESSAGES
    with assms w show ?thesis
      by (auto simp: synced_def load_remove_same split: option.splits)
  qed (use assms w in \<open>auto simp: synced_def split: option.splits\<close>)
qed

lemma dispatch_all_synced:
  "dispatch_all w as = Inr w' \<Longrightarrow> synced w \<Longrightarrow> synced w'"
  by (induction as arbitrary: w) (auto split: sum.splits intro: chatReducer_synced)

lemma synced_initial: "synced (initialState, st)"
  by (simp add: synced_def)

lemma synced_theme_upd: "synced (s, st(theme_key \<mapsto> v)) \<longleftrightarrow> synced (s, st)"
  by (simp add: synced_def load_theme_upd split: option.split)

subsection \<open>Frame of a step\<close>

lemma chatReducer_frame:
  assumes "chatReducer w a = Inr w'"
  shows "loading (fst w') = loading_step (loading (fst w)) a
    \<and> sessionId (fst w') = session_step (sessionId (fst w)) a
    \<and> snd w' theme_key = snd w theme_key"
proof (cases w)
  case (Pair s st)
  show ?thesis
  proof (cases a)
    case (SET_SESSION_ID sid)
    with assms Pair show ?thesis by (auto split: sum.splits)
  next
    case (ADD_MESSAGE m)
    with assms Pair show ?thesis
      by (auto simp: Let_def save_messages_def chat_key_ne_theme_key[symmetric] split: option.splits)
  next
    case (UPDATE_LAST_BOT_MESSAGE t)
    with assms Pair show ?thesis
      by (auto simp: Let_def save_messages_def chat_key_ne_theme_key[symmetric] split: option.splits if_splits)
  next
    case CLEAR_MESSAGES
    with assms Pair show ?thesis
      by (auto simp: remove_messages_def chat_key_ne_theme_key[symmetric] split: option.splits)
  qed (use assms Pair in auto)
qed

lemma dispatch_frame:
  "dispatch_all w as = Inr w' \<Longrightarrow>
     loading (fst w') = foldl loading_step (loading (fst w)) as
     \<and> sessionId (fst w') = foldl session_step (sessionId (fst w)) as
     \<and> snd w' theme_key = snd w theme_key"
proof (induction as arbitrary: w)
  case (Cons a as)
  then obtain w1 where a: "chatReducer w a = Inr w1" and r: "dispatch_all w1 as = Inr w'"
    by (auto split: sum.splits)
  show ?case
    using chatReducer_frame[OF a] Cons.IH[OF r] by simp
qed simp

lemma chatReducer_store_ok:
  assumes "store_ok st"
  shows "\<exists>s' st'. chatReducer (s, st) a = Inr (s', st') \<and> store_ok st'"
proof (cases a)
  case (SET_SESSION_ID sid)
  then show ?thesis
    using store_ok_load[OF assms, of sid] assms by auto
qed (use assms in \<open>auto simp: Let_def store_ok_save store_ok_remove split: option.splits\<close>)

lemma dispatch_store_ok:
  "store_ok (snd w) \<Longrightarrow> \<exists>w'. dispatch_all w as = Inr w' \<and> store_ok (snd w')"
proof (induction as arbitrary: w)
  case (Cons a as)
  obtain s st where w: "w = (s, st)" by (cases w)
  obtain s1 st1 where "chatReducer (s, st) a = Inr (s1, st1)" and "store_ok st1"
    using chatReducer_store_ok Cons.prems w by fastforce
  then show ?case
    using Cons.IH[of "(s1, st1)"] w by simp
qed simp

text \<open>
  C1. Write-through: in every state the reducer reaches from the initial state,
  whatever the store held at start and whatever actions were dispatched, the
  store's entry for the active session decodes to exactly the in-memory
  message list.
\<close>

theorem reachable_synced:
  "dispatch_all (initialState, st) as = Inr w \<Longrightarrow> synced w"
  using dispatch_all_synced synced_initial by blast

theorem reachable_synced_witness:
  "dispatch_all (initialState, Map.empty) [SET_SESSION_ID (js ''s''), ADD_MESSAGE demo_msg]
     = Inr (initialState\<lparr>sessionId := Some (js ''s''), messages := [demo_msg]\<rparr>,
            save_messages (js ''s'') [demo_msg] Map.empty)
   \<and> synced (initialState\<lparr>sessionId := Some (js ''s''), messages := [demo_msg]\<rparr>,
            save_messages (js ''s'') [demo_msg] Map.empty)"
proof -
  have run: "dispatch_all (initialState, Map.empty) [SET_SESSION_ID (js ''s''), ADD_MESSAGE demo_msg]
     = Inr (initialState\<lparr>sessionId := Some (js ''s''), messages := [demo_msg]\<rparr>,
            save_messages (js ''s'') [demo_msg] Map.empty)"
    by (simp add: initialState_def active_session_def Let_def)
  show ?thesis using run reachable_synced[OF run] by simp
qed

subsection \<open>The actions one by one\<close>

lemma add_messages_run:
  assumes "active_session s = Some sid"
  shows "dispatch_all (s, st) (map ADD_MESSAGE ms) =
     Inr (s\<lparr>messages := messages s @ ms\<rparr>,
          if ms = [] then st else save_messages sid (messages s @ ms) st)"
  using assms
proof (induction ms arbitrary: s st)
  case Nil
  then show ?case by simp
next
  case (Cons m ms)
  let ?s1 = "s\<lparr>messages := messages s @ [m]\<rparr>"
  let ?st1 = "save_messages sid (messages s @ [m]) st"
  have "dispatch_all (s, st) (map ADD_MESSAGE (m # ms)) = dispatch_all (?s1, ?st1) (map ADD_MESSAGE ms)"
    using Cons.prems by (simp add: Let_def)
  also have "\<dots> = Inr (?s1\<lparr>messages := messages ?s1 @ ms\<rparr>,
                        if ms = [] then ?st1 else save_messages sid (messages ?s1 @ ms) ?st1)"
    using Cons.prems by (intro Cons.IH) simp
  finally show ?case by (simp add: save_save_same)
qed

text \<open>
  C9. Ordering: a sequence of \<open>ADD_MESSAGE\<close> actions dispatched while a
  session is active appends the messages in dispatch order, and the store then
  holds the whole resulting list.
\<close>

theorem add_messages_in_order:
  assumes "active_session s = Some sid" and "ms \<noteq> []"
  shows "dispatch_all (s, st) (map ADD_MESSAGE ms) =
     Inr (s\<lparr>messages := messages s @ ms\<rparr>, save_messages sid (messages s @ ms) st)"
  using add_messages_run[OF assms(1)] assms(2) by simp

theorem add_messages_in_order_witness:
  "active_session (initialState\<lparr>sessionId := Some (js ''s'')\<rparr>) = Some (js ''s'') \<and>
   dispatch_all (initialState\<lparr>sessionId := Some (js ''s'')\<rparr>, Map.empty) (map ADD_MESSAGE [demo_msg, demo_msg]) =
     Inr (initialState\<lparr>sessionId := Some (js ''s''), messages := [demo_msg, demo_msg]\<rparr>,
          save_messages (js ''s'') [demo_msg, demo_msg] Map.empty)"
proof -
  have a: "active_session (initialState\<lparr>sessionId := Some (js ''s'')\<rparr>) = Some (js ''s'')"
    by simp
  show ?thesis
    using a add_messages_in_order[OF a, of "[demo_msg, demo_msg]" Map.empty] by (simp add: initialState_def)
qed

text \<open>
  C7. \<open>UPDATE_LAST_BOT_MESSAGE\<close> changes nothing, in the state or in the
  store, unless the last message exists and was sent by the bot.
\<close>

theorem update_noop_unless_last_bot:
  assumes "\<not> (messages s \<noteq> [] \<and> sender (last (messages s)) = Bot)"
  shows "chatReducer (s, st) (UPDATE_LAST_BOT_MESSAGE p) = Inr (s, st)"
  using assms by (auto simp: Let_def split: option.split)

theorem update_noop_unless_last_bot_witness:
  "\<not> (messages (initialState\<lparr>sessionId := Some (js ''s''), messages := [demo_msg]\<rparr>) \<noteq> []
       \<and> sender (last (messages (initialState\<lparr>sessionId := Some (js ''s''), messages := [demo_msg]\<rparr>))) = Bot)
   \<and> chatReducer (initialState\<lparr>sessionId := Some (js ''s''), messages := [demo_msg]\<rparr>, Map.empty)
       (UPDATE_LAST_BOT_MESSAGE (js ''x'')) =
     Inr (initialState\<lparr>sessionId := Some (js ''s''), messages := [demo_msg]\<rparr>, Map.empty)"
  using update_noop_unless_last_bot[of "initialState\<lparr>sessionId := Some (js ''s''), messages := [demo_msg]\<rparr>"]
  by (simp add: demo_msg_def)

lemma update_last_bot:
  assumes "active_session s = Some sid" and "messages s = ms @ [b]" and "sender b = Bot"
  shows "chatReducer (s, st) (UPDATE_LAST_BOT_MESSAGE p) =
     Inr (s\<lparr>messages := ms @ [b\<lparr>text := p\<rparr>]\<rparr>, save_messages sid (ms @ [b\<lparr>text := p\<rparr>]) st)"
  using assms by (simp add: Let_def update_last_text)

text \<open>
  C8. Without an active session (\<open>sessionId\<close> null or empty), the actions
  \<open>ADD_MESSAGE\<close>, \<open>UPDATE_LAST_BOT_MESSAGE\<close> and \<open>CLEAR_MESSAGES\<close> return the
  state unchanged and do not touch the store.
\<close>

theorem no_session_noop:
  assumes "active_session s = None"
    and "(\<exists>m. a = ADD_MESSAGE m) \<or> (\<exists>p. a = UPDATE_LAST_BOT_MESSAGE p) \<or> a = CLEAR_MESSAGES"
  shows "chatReducer (s, st) a = Inr (s, st)"
  using assms by auto

theorem no_session_noop_witness:
  "active_session initialState = None \<and>
   chatReducer (initialState, Map.empty) CLEAR_MESSAGES = Inr (initialState, Map.empty)"
  using no_session_noop[of initialState CLEAR_MESSAGES] by simp

text \<open>
  C10. \<open>CLEAR_MESSAGES\<close> with a session active empties the list and removes the
  session's entry, so a later load of that session gives the empty history.
\<close>

theorem clear_messages_total:
  assumes "active_session s = Some sid"
  shows "chatReducer (s, st) CLEAR_MESSAGES = Inr (s\<lparr>messages := []\<rparr>, remove_messages sid st)
    \<and> remove_messages sid st (chat_key sid) = None
    \<and> load_messages (remove_messages sid st) sid = Inr []"
  using assms load_remove_same[of sid st] unfolding remove_messages_def by (simp add: remove_messages_def)

theorem clear_messages_total_witness:
  "active_session (initialState\<lparr>sessionId := Some (js ''s''), messages := [demo_msg]\<rparr>) = Some (js ''s'') \<and>
   chatReducer (initialState\<lparr>sessionId := Some (js ''s''), messages := [demo_msg]\<rparr>, save_messages (js ''s'') [demo_msg] Map.empty) CLEAR_MESSAGES
     = Inr (initialState\<lparr>sessionId := Some (js ''s''), messages := []\<rparr>, remove_messages (js ''s'') (save_messages (js ''s'') [demo_msg] Map.empty))
   \<and> load_messages (remove_messages (js ''s'') (save_messages (js ''s'') [demo_msg] Map.empty)) (js ''s'') = Inr []"
  using clear_messages_total[of "initialState\<lparr>sessionId := Some (js ''s''), messages := [demo_msg]\<rparr>" "js ''s''"
      "save_messages (js ''s'') [demo_msg] Map.empty"]
  by simp

text \<open>
  C11. Reload: \<open>SET_SESSION_ID\<close> for a session whose history was saved
  restores that history, in its order, as the message list.
\<close>

theorem reload_restores_history:
  "chatReducer (s, save_messages sid ms st) (SET_SESSION_ID sid) =
     Inr (s\<lparr>sessionId := Some sid, messages := ms\<rparr>, save_messages sid ms st)"
  by (simp add: load_save_same)

text \<open>
  C12. The read of \<open>SET_SESSION_ID\<close> is not guarded: a non-empty stored text
  that is not JSON makes the reducer raise the exception of \<open>JSON.parse\<close>.
\<close>

theorem set_session_malformed_raises:
  assumes "st (chat_key sid) = Some v" and "v \<noteq> []" and "json_parse v = None"
  shows "chatReducer (s, st) (SET_SESSION_ID sid) = Inl SyntaxError"
  using assms by (simp add: load_messages_def decode_messages_def)

theorem set_session_malformed_raises_witness:
  "(Map.empty(chat_key (js ''s'') \<mapsto> js ''{'')) (chat_key (js ''s'')) = Some (js ''{'') \<and> js ''{'' \<noteq> []
   \<and> json_parse (js ''{'') = None
   \<and> chatReducer (initialState, Map.empty(chat_key (js ''s'') \<mapsto> js ''{'')) (SET_SESSION_ID (js ''s'')) = Inl SyntaxError"
proof -
  have p: "json_parse (js ''{'') = None" by code_simp
  show ?thesis
    using p set_session_malformed_raises[of "Map.empty(chat_key (js ''s'') \<mapsto> js ''{'')" "js ''s''" "js ''{''" initialState, OF _ _ p]
    by simp
qed

text \<open>
  A reducer call that sees the store its previous call on the same state
  wrote returns the same result: React's StrictMode, which calls a reducer
  twice on one state, changes nothing.
\<close>

lemma reducer_rerun_same:
  assumes "chatReducer (s, st) a = Inr (s', st')"
  shows "chatReducer (s, st') a = Inr (s', st')"
  using assms
  by (cases a) (auto simp: Let_def save_save_same remove_remove_same split: option.splits if_splits sum.splits)

text \<open>
  C13. StrictMode runs the session effect of the \<open>Chat\<close> page twice on
  mount: \<open>SET_SESSION_ID\<close> dispatched twice in sequence leaves the same world
  (or raises the same exception) as once; the second load replaces the list
  the first one loaded instead of adding to it.
\<close>

theorem strict_mode_idempotent:
  "dispatch_all w [SET_SESSION_ID sid, SET_SESSION_ID sid] = dispatch_all w [SET_SESSION_ID sid]"
  by (cases w) (simp split: sum.splits)

text \<open>
  C14. Isolation: a reducer step changes no entry of the store but the one of
  the active session; other sessions' histories and the theme entry are never
  written by the chat store.
\<close>

theorem reducer_writes_only_active_key:
  assumes "chatReducer (s, st) a = Inr (s', st')" and "st' k \<noteq> st k"
  shows "\<exists>sid. active_session s = Some sid \<and> k = chat_key sid"
  using assms
  by (cases a) (auto simp: Let_def save_messages_def remove_messages_def split: option.splits if_splits sum.splits)

theorem reducer_writes_only_active_key_witness:
  "chatReducer (initialState\<lparr>sessionId := Some (js ''s'')\<rparr>, Map.empty) (ADD_MESSAGE demo_msg)
     = Inr (initialState\<lparr>sessionId := Some (js ''s''), messages := [demo_msg]\<rparr>, save_messages (js ''s'') [demo_msg] Map.empty)
   \<and> save_messages (js ''s'') [demo_msg] Map.empty (chat_key (js ''s'')) \<noteq> Map.empty (chat_key (js ''s''))
   \<and> (\<exists>sid. active_session (initialState\<lparr>sessionId := Some (js ''s'')\<rparr>) = Some sid \<and> chat_key (js ''s'') = chat_key sid)"
proof -
  have r: "chatReducer (initialState\<lparr>sessionId := Some (js ''s'')\<rparr>, Map.empty) (ADD_MESSAGE demo_msg)
     = Inr (initialState\<lparr>sessionId := Some (js ''s''), messages := [demo_msg]\<rparr>, save_messages (js ''s'') [demo_msg] Map.empty)"
    by (simp add: initialState_def active_session_def Let_def)
  have k: "save_messages (js ''s'') [demo_msg] Map.empty (chat_key (js ''s'')) \<noteq> Map.empty (chat_key (js ''s''))"
    by (simp add: save_messages_def)
  show ?thesis using r k reducer_writes_only_active_key[OF r k] by simp
qed

end
