(* ===== verification/Controller.thy ===== *)
theory Controller
  imports ChatStore
begin

text \<open>
  The send flow of src/src/pages/Chat.tsx, \<open>sendMessage\<close> (lines 156 to 199),
  with the help text of src/src/common/consts.ts (lines 4 to 11). The
  function is asynchronous, but the store only sees what it dispatches, in
  order; \<open>sendMessage\<close> here is that list of actions, given the input, the
  two \<open>Date.now()\<close> readings (user message; help or placeholder message) and
  the completion stream. The stream is \<open>completion\<close>: the
  \<open>delta.content\<close> of each chunk received (\<open>None\<close> where it is absent or null)
  and how the iteration ended: \<open>Completed\<close>, or \<open>Failed\<close> when the request
  or the iteration threw (a failed request is \<open>Failed\<close> with no chunk). The
  first argument is the \<open>state.loading\<close> the function reads: the callback is
  created once (\<open>useCallback(..., [])\<close>), so it reads the state of the
  component's first render. The 200 ms delay, the scrolling and the
  \<open>isTyping\<close> ref only affect the view and dispatch nothing.
\<close>

datatype stream_end = Completed | Failed

record completion =
  chunks :: "js_string option list"
  stream_end :: stream_end

definition HELP_DETAILS :: js_string where
  "HELP_DETAILS =
     [0xA] @ js ''### '' @ [0xD83E, 0xDD16] @ js '' AI Chat Features:'' @ [0xA] @
     js ''- '' @ [0xD83D, 0xDCAC] @
     js '' **Real-time AI Chat:** Ask any question and receive instant responses.'' @ [0xA] @
     js ''- '' @ [0xD83C, 0xDF19] @
     js '' **Dark/Light Mode:** Customize the theme in **Settings**.'' @ [0xA] @
     js ''- '' @ [0xD83D, 0xDDD1, 0xFE0F] @
     js '' **Clear Chat History:** Delete past conversations for a specific session in **Settings**.'' @ [0xA] @
     js ''- '' @ [0xD83D, 0xDCC2] @
     js '' **Session-Based Message Storage:** Messages are saved **per session ID** and automatically loaded when you revisit `/chat/:sessionId`.'' @ [0xA] @
     js ''- '' @ [0xD83D, 0xDD0D] @
     js '' **Help Command:** Type `/help` to see this message again.'' @ [0xA]"

definition ERROR_TEXT :: js_string where
  "ERROR_TEXT = js ''Error fetching response from bot. Please try again.''"

definition chunk_text :: "js_string option \<Rightarrow> js_string" where
  "chunk_text c = (case c of None \<Rightarrow> [] | Some t \<Rightarrow> t)"

text \<open>The \<open>for await\<close> loop: the accumulated response after each chunk.\<close>

fun stream_updates :: "js_string \<Rightarrow> js_string option list \<Rightarrow> chat_action list" where
  "stream_updates botResponse [] = []"
| "stream_updates botResponse (c # cs) =
     (let botResponse' = botResponse @ chunk_text c
      in UPDATE_LAST_BOT_MESSAGE botResponse' # stream_updates botResponse' cs)"

definition sendMessage ::
  "bool \<Rightarrow> js_string \<Rightarrow> int \<Rightarrow> int \<Rightarrow> completion \<Rightarrow> chat_action list" where
  "sendMessage loading_read input now_user now_bot c =
     (if js_trim input = [] \<or> loading_read then []
      else
        ADD_MESSAGE \<lparr>text = input, sender = User, timestamp = now_user\<rparr> #
        (if js_trim input = js ''/help''
         then [ADD_MESSAGE \<lparr>text = HELP_DETAILS, sender = Bot, timestamp = now_bot\<rparr>]
         else
           SET_LOADING True #
           ADD_MESSAGE \<lparr>text = [], sender = Bot, timestamp = now_bot\<rparr> #
           stream_updates [] (chunks c) @
           (case stream_end c of Completed \<Rightarrow> [] | Failed \<Rightarrow> [SET_ERROR (Some ERROR_TEXT)]) @
           [SET_LOADING False]))"

text \<open>The callback the \<open>Chat\<close> component hands to \<open>ChatInput\<close>, created at its first render.\<close>

definition component_sendMessage ::
  "chat_state \<Rightarrow> js_string \<Rightarrow> int \<Rightarrow> int \<Rightarrow> completion \<Rightarrow> chat_action list" where
  "component_sendMessage first_render_state = sendMessage (loading first_render_state)"

abbreviation user_msg :: "js_string \<Rightarrow> int \<Rightarrow> message" where
  "user_msg t n \<equiv> \<lparr>text = t, sender = User, timestamp = n\<rparr>"

abbreviation bot_msg :: "js_string \<Rightarrow> int \<Rightarrow> message" where
  "bot_msg t n \<equiv> \<lparr>text = t, sender = Bot, timestamp = n\<rparr>"

subsection \<open>The streaming loop\<close>

lemma length_stream_updates [simp]: "length (stream_updates acc cs) = length cs"
  by (induction cs arbitrary: acc) (simp_all add: Let_def)

lemma take_stream_updates: "take k (stream_updates acc cs) = stream_updates acc (take k cs)"
  by (induction cs arbitrary: acc k) (auto simp: Let_def take_Cons split: nat.split)

lemma stream_updates_run:
  assumes "active_session s = Some sid" and "messages s = ms @ [b]" and "sender b = Bot"
    and "text b = acc"
  shows "dispatch_all (s, st) (stream_updates acc cs) =
     Inr (s\<lparr>messages := ms @ [b\<lparr>text := acc @ concat (map chunk_text cs)\<rparr>]\<rparr>,
          if cs = [] then st else save_messages sid (ms @ [b\<lparr>text := acc @ concat (map chunk_text cs)\<rparr>]) st)"
  using assms
proof (induction cs arbitrary: s st b acc)
  case Nil
  then show ?case by simp
next
  case (Cons c cs)
  let ?b1 = "b\<lparr>text := acc @ chunk_text c\<rparr>"
  let ?s1 = "s\<lparr>messages := ms @ [?b1]\<rparr>"
  let ?st1 = "save_messages sid (ms @ [?b1]) st"
  have "dispatch_all (s, st) (stream_updates acc (c # cs)) = dispatch_all (?s1, ?st1) (stream_updates (acc @ chunk_text c) cs)"
    using Cons.prems update_last_bot[of s sid ms b st "acc @ chunk_text c"] by (simp add: Let_def)
  also have "\<dots> = Inr (?s1\<lparr>messages := ms @ [?b1\<lparr>text := (acc @ chunk_text c) @ concat (map chunk_text cs)\<rparr>]\<rparr>,
       if cs = [] then ?st1
       else save_messages sid (ms @ [?b1\<lparr>text := (acc @ chunk_text c) @ concat (map chunk_text cs)\<rparr>]) ?st1)"
    using Cons.prems by (intro Cons.IH) simp_all
  finally show ?case by (simp add: save_save_same)
qed

lemma send_prefix_run:
  assumes "active_session s = Some sid"
  shows "dispatch_all (s, st)
     [ADD_MESSAGE (user_msg input tu), SET_LOADING True, ADD_MESSAGE (bot_msg [] tb)] =
     Inr (s\<lparr>messages := messages s @ [user_msg input tu, bot_msg [] tb], loading := True\<rparr>,
          save_messages sid (messages s @ [user_msg input tu, bot_msg [] tb]) st)"
  using assms by (simp add: Let_def save_save_same)

lemma send_stream_run:
  assumes "active_session s = Some sid"
  shows "dispatch_all (s, st)
     (ADD_MESSAGE (user_msg input tu) # SET_LOADING True # ADD_MESSAGE (bot_msg [] tb) #
      stream_updates [] cs) =
     Inr (s\<lparr>messages := messages s @ [user_msg input tu, bot_msg (concat (map chunk_text cs)) tb],
            loading := True\<rparr>,
          save_messages sid (messages s @ [user_msg input tu, bot_msg (concat (map chunk_text cs)) tb]) st)"
proof -
  let ?s2 = "s\<lparr>messages := messages s @ [user_msg input tu, bot_msg [] tb], loading := True\<rparr>"
  let ?st2 = "save_messages sid (messages s @ [user_msg input tu, bot_msg [] tb]) st"
  have "dispatch_all (s, st)
     ([ADD_MESSAGE (user_msg input tu), SET_LOADING True, ADD_MESSAGE (bot_msg [] tb)] @ stream_updates [] cs)
     = dispatch_all (?s2, ?st2) (stream_updates [] cs)"
    using send_prefix_run[OF assms] by (simp only: dispatch_all_append sum.case)
  also have "\<dots> = Inr (?s2\<lparr>messages := (messages s @ [user_msg input tu]) @ [(bot_msg [] tb)\<lparr>text := [] @ concat (map chunk_text cs)\<rparr>]\<rparr>,
       if cs = [] then ?st2
       else save_messages sid ((messages s @ [user_msg input tu]) @ [(bot_msg [] tb)\<lparr>text := [] @ concat (map chunk_text cs)\<rparr>]) ?st2)"
    using assms by (intro stream_updates_run) simp_all
  finally show ?thesis by (cases cs) (simp_all add: save_save_same)
qed

lemma demo_session_active: "active_session demo_session = Some (js ''s'')"
  by (simp add: demo_session_def)

lemma trim_hi: "js_trim (js ''Hi'') = js ''Hi''"
  by (simp add: js_trim_def js_is_space_def js_def)

lemma hi_nonblank: "js_trim (js ''Hi'') \<noteq> []"
  by (simp add: trim_hi)

lemma hi_not_help: "js_trim (js ''Hi'') \<noteq> js ''/help''"
  by (simp only: trim_hi) (simp add: js_def)

lemma send_completed_run:
  assumes "active_session s = Some sid" and "js_trim input \<noteq> []" and "js_trim input \<noteq> js ''/help''"
    and "stream_end c = Completed"
  shows "dispatch_all (s, st) (sendMessage False input tu tb c) =
     Inr (s\<lparr>messages := messages s @ [user_msg input tu, bot_msg (concat (map chunk_text (chunks c))) tb],
            loading := False\<rparr>,
          save_messages sid (messages s @ [user_msg input tu, bot_msg (concat (map chunk_text (chunks c))) tb]) st)"
  using assms send_stream_run[OF assms(1), where cs = "chunks c" and input = input and tu = tu and tb = tb and st = st]
  by (simp add: sendMessage_def dispatch_all_append Let_def)

subsection \<open>One send, start to end\<close>

text \<open>
  C3. A send that completes: with a session active and an input that is
  neither blank nor \<open>/help\<close>, the whole flow appends the user's message and
  one bot message whose text is the concatenation of every chunk's content in
  order, ends with \<open>loading\<close> false and \<open>error\<close> as it was, and leaves the
  store holding the final list.
\<close>

theorem send_completed:
  assumes "active_session s = Some sid" and "js_trim input \<noteq> []" and "js_trim input \<noteq> js ''/help''"
    and "stream_end c = Completed"
  shows "dispatch_all (s, st) (sendMessage False input tu tb c) =
     (let M = messages s @ [user_msg input tu, bot_msg (concat (map chunk_text (chunks c))) tb]
      in Inr (s\<lparr>messages := M, loading := False\<rparr>, save_messages sid M st))"
  using send_completed_run[OF assms, where st = st and tu = tu and tb = tb] by (simp add: Let_def)

theorem send_completed_witness:
  "dispatch_all (demo_session, Map.empty)
     (sendMessage False (js ''Hi'') 1 2 \<lparr>chunks = [Some (js ''Hi ''), Some (js ''there!'')], stream_end = Completed\<rparr>) =
   Inr (demo_session\<lparr>messages := [user_msg (js ''Hi'') 1, bot_msg (js ''Hi there!'') 2], loading := False\<rparr>,
        save_messages (js ''s'') [user_msg (js ''Hi'') 1, bot_msg (js ''Hi there!'') 2] Map.empty)"
  using send_completed[OF demo_session_active hi_nonblank hi_not_help,
      where c = "\<lparr>chunks = [Some (js ''Hi ''), Some (js ''there!'')], stream_end = Completed\<rparr>"
        and st = Map.empty and tu = 1 and tb = 2]
  by (simp add: chunk_text_def js_def demo_session_def initialState_def Let_def)

text \<open>
  C5. A send whose stream fails (before the first chunk or after some):
  the bot message keeps the text of the chunks received before the failure,
  \<open>error\<close> is set to the fixed message, \<open>loading\<close> ends false, and the store
  holds the final list.
\<close>

theorem send_failed:
  assumes "active_session s = Some sid" and "js_trim input \<noteq> []" and "js_trim input \<noteq> js ''/help''"
    and "stream_end c = Failed"
  shows "dispatch_all (s, st) (sendMessage False input tu tb c) =
     (let M = messages s @ [user_msg input tu, bot_msg (concat (map chunk_text (chunks c))) tb]
      in Inr (s\<lparr>messages := M, loading := False, error := Some ERROR_TEXT\<rparr>, save_messages sid M st))"
  using assms send_stream_run[OF assms(1), where cs = "chunks c" and input = input and tu = tu and tb = tb and st = st]
  by (simp add: sendMessage_def dispatch_all_append Let_def)

theorem send_failed_witness:
  "dispatch_all (demo_session, Map.empty)
     (sendMessage False (js ''Hi'') 1 2 \<lparr>chunks = [Some (js ''Par'')], stream_end = Failed\<rparr>) =
   Inr (demo_session\<lparr>messages := [user_msg (js ''Hi'') 1, bot_msg (js ''Par'') 2], loading := False,
                      error := Some ERROR_TEXT\<rparr>,
        save_messages (js ''s'') [user_msg (js ''Hi'') 1, bot_msg (js ''Par'') 2] Map.empty)"
  using send_failed[OF demo_session_active hi_nonblank hi_not_help,
      where c = "\<lparr>chunks = [Some (js ''Par'')], stream_end = Failed\<rparr>" and st = Map.empty and tu = 1 and tb = 2]
  by (simp add: chunk_text_def js_def demo_session_def initialState_def Let_def)

text \<open>
  C4. Streaming fold: after the placeholder and the first \<open>k\<close> chunks, the
  last message is the bot's, its text is the concatenation of the first \<open>k\<close>
  chunk contents, \<open>loading\<close> is true, and the store already holds that list.
\<close>

theorem stream_prefix:
  assumes "active_session s = Some sid" and "js_trim input \<noteq> []" and "js_trim input \<noteq> js ''/help''"
    and "k \<le> length (chunks c)"
  shows "dispatch_all (s, st) (take (3 + k) (sendMessage False input tu tb c)) =
     (let M = messages s @ [user_msg input tu, bot_msg (concat (map chunk_text (take k (chunks c)))) tb]
      in Inr (s\<lparr>messages := M, loading := True\<rparr>, save_messages sid M st))"
proof -
  have "take (3 + k) (sendMessage False input tu tb c) =
        ADD_MESSAGE (user_msg input tu) # SET_LOADING True # ADD_MESSAGE (bot_msg [] tb) #
        stream_updates [] (take k (chunks c))"
    using assms(2,3,4) by (simp add: sendMessage_def take_stream_updates numeral_3_eq_3)
  then show ?thesis
    using send_stream_run[OF assms(1), where cs = "take k (chunks c)" and input = input and tu = tu and tb = tb and st = st]
    by (simp add: Let_def)
qed

theorem stream_prefix_witness:
  "dispatch_all (demo_session, Map.empty)
     (take (3 + 2) (sendMessage False (js ''Hi'') 1 2
        \<lparr>chunks = [Some (js ''Hel''), Some (js ''lo, ''), Some (js ''world'')], stream_end = Completed\<rparr>)) =
   Inr (demo_session\<lparr>messages := [user_msg (js ''Hi'') 1, bot_msg (js ''Hello, '') 2], loading := True\<rparr>,
        save_messages (js ''s'') [user_msg (js ''Hi'') 1, bot_msg (js ''Hello, '') 2] Map.empty)"
  using stream_prefix[OF demo_session_active hi_nonblank hi_not_help,
      where c = "\<lparr>chunks = [Some (js ''Hel''), Some (js ''lo, ''), Some (js ''world'')], stream_end = Completed\<rparr>"
        and k = 2 and st = Map.empty and tu = 1 and tb = 2]
  by (simp add: chunk_text_def js_def demo_session_def initialState_def Let_def)

text \<open>
  C6. The local command: an input that trims to \<open>/help\<close> appends the user's
  message (as typed) and the help text as a bot message, and the flow never
  dispatches \<open>SET_LOADING\<close>.
\<close>

theorem help_command:
  assumes "active_session s = Some sid" and "js_trim input = js ''/help''"
  shows "dispatch_all (s, st) (sendMessage False input tu tb c) =
     (let M = messages s @ [user_msg input tu, bot_msg HELP_DETAILS tb]
      in Inr (s\<lparr>messages := M\<rparr>, save_messages sid M st))
   \<and> (\<forall>b. SET_LOADING b \<notin> set (sendMessage False input tu tb c))"
  using assms by (simp add: sendMessage_def Let_def save_save_same)

theorem help_command_witness:
  "dispatch_all (demo_session, Map.empty) (sendMessage False (js ''/help'') 1 2 \<lparr>chunks = [], stream_end = Completed\<rparr>) =
     Inr (demo_session\<lparr>messages := [user_msg (js ''/help'') 1, bot_msg HELP_DETAILS 2]\<rparr>,
          save_messages (js ''s'') [user_msg (js ''/help'') 1, bot_msg HELP_DETAILS 2] Map.empty)
   \<and> (\<forall>b. SET_LOADING b \<notin> set (sendMessage False (js ''/help'') 1 2 \<lparr>chunks = [], stream_end = Completed\<rparr>))"
proof -
  have t: "js_trim (js ''/help'') = js ''/help''"
    by (simp add: js_trim_def js_is_space_def js_def)
  show ?thesis
    using help_command[OF demo_session_active t,
        where c = "\<lparr>chunks = [], stream_end = Completed\<rparr>" and st = Map.empty and tu = 1 and tb = 2]
    by (simp add: demo_session_def initialState_def Let_def)
qed

end
