(* ===== verification/SendFlow.thy ===== *)
theory SendFlow
  imports Controller
begin

text \<open>
  \<open>sendMessage\<close> of src/src/pages/Chat.tsx cut at its suspension points. The
  part up to the first \<open>await\<close> (lines 157 to 170) runs inside the click
  handler that calls it, so its dispatches happen at once (\<open>send_flow\<close>'s
  first component). The rest runs in \<open>segments\<close>, each started when an
  awaited promise settles: one per chunk of the \<open>for await\<close> loop (lines 183
  to 191), and a last one, after the loop ended or threw, with the
  \<open>catch\<close> and \<open>finally\<close> blocks (lines 192 to 198), which run with no
  \<open>await\<close> between them. Between two segments other events of the page may
  run. Concatenated, the segments give back the flat \<open>sendMessage\<close> of the
  controller theory (\<open>send_flow_concat\<close>).
\<close>

definition stream_segments :: "completion \<Rightarrow> chat_action list list" where
  "stream_segments c =
     map (\<lambda>a. [a]) (stream_updates [] (chunks c)) @
     [(case stream_end c of Completed \<Rightarrow> [] | Failed \<Rightarrow> [SET_ERROR (Some ERROR_TEXT)]) @
      [SET_LOADING False]]"

definition send_flow ::
  "bool \<Rightarrow> js_string \<Rightarrow> int \<Rightarrow> int \<Rightarrow> completion \<Rightarrow> chat_action list \<times> chat_action list list" where
  "send_flow loading_read input now_user now_bot c =
     (if js_trim input = [] \<or> loading_read then ([], [])
      else
        (let userMessage = \<lparr>text = input, sender = User, timestamp = now_user\<rparr>
         in if js_trim input = js ''/help''
            then ([ADD_MESSAGE userMessage,
                   ADD_MESSAGE \<lparr>text = HELP_DETAILS, sender = Bot, timestamp = now_bot\<rparr>], [])
            else ([ADD_MESSAGE userMessage, SET_LOADING True,
                   ADD_MESSAGE \<lparr>text = [], sender = Bot, timestamp = now_bot\<rparr>],
                  stream_segments c)))"

text \<open>The actions a segment of a stream may hold before its last one.\<close>

fun is_update :: "chat_action \<Rightarrow> bool" where
  "is_update (UPDATE_LAST_BOT_MESSAGE t) = True"
| "is_update _ = False"

text \<open>
  The shape of what is left of a send in flight: a non-empty list of
  segments, all but the last single updates of the bot message, the last
  one ending with \<open>SET_LOADING false\<close>, after an error report if the stream
  failed.
\<close>

definition final_segment :: "chat_action list \<Rightarrow> bool" where
  "final_segment seg \<longleftrightarrow> seg = [SET_LOADING False] \<or> seg = [SET_ERROR (Some ERROR_TEXT), SET_LOADING False]"

definition flow_ok :: "chat_action list list \<Rightarrow> bool" where
  "flow_ok f \<longleftrightarrow>
     f \<noteq> [] \<and> list_all (\<lambda>seg. length seg = 1 \<and> list_all is_update seg) (butlast f) \<and> final_segment (last f)"

subsection \<open>Basic facts\<close>

lemma concat_singletons [simp]: "concat (map (\<lambda>a. [a]) xs) = xs"
  by (induction xs) simp_all

lemma stream_updates_are_updates: "list_all is_update (stream_updates acc cs)"
  by (induction cs arbitrary: acc) (simp_all add: Let_def)

lemma flow_ok_stream_segments: "flow_ok (stream_segments c)"
proof -
  have "list_all (\<lambda>seg. length seg = 1 \<and> list_all is_update seg) (map (\<lambda>a. [a]) (stream_updates [] (chunks c)))"
    using stream_updates_are_updates[of "[]" "chunks c"] by (simp add: list_all_iff)
  then show ?thesis
    by (simp add: flow_ok_def stream_segments_def final_segment_def split: stream_end.split)
qed

lemma flow_ok_tl:
  assumes "flow_ok f" and "tl f \<noteq> []"
  shows "flow_ok (tl f)"
proof -
  obtain a r where f: "f = a # r" and r: "r \<noteq> []"
    using assms(2) by (cases f) auto
  then show ?thesis
    using assms(1) by (simp add: flow_ok_def)
qed

lemma flow_ok_hd_update:
  "flow_ok f \<Longrightarrow> tl f \<noteq> [] \<Longrightarrow> \<exists>t. hd f = [UPDATE_LAST_BOT_MESSAGE t]"
  by (cases f; cases "hd f") (auto simp: flow_ok_def elim!: is_update.elims)

lemma flow_ok_hd_final: "flow_ok f \<Longrightarrow> tl f = [] \<Longrightarrow> final_segment (hd f)"
  by (cases f) (auto simp: flow_ok_def)

lemma dispatch_final_segment:
  "final_segment seg \<Longrightarrow> \<exists>s'. dispatch_all (s, st) seg = Inr (s', st) \<and> \<not> loading s'
     \<and> messages s' = messages s \<and> sessionId s' = sessionId s"
  by (auto simp: final_segment_def)

lemma dispatch_update_keeps:
  "dispatch_all (s, st) [UPDATE_LAST_BOT_MESSAGE t] = Inr (s', st') \<Longrightarrow>
     loading s' = loading s \<and> sessionId s' = sessionId s"
  by (auto simp: Let_def split: option.splits if_splits)

lemma dispatch_update_total: "\<exists>w'. dispatch_all w [UPDATE_LAST_BOT_MESSAGE t] = Inr w'"
  by (cases w) (auto simp: Let_def split: option.splits)

subsection \<open>The split and the flat list\<close>

text \<open>
  Cutting \<open>sendMessage\<close> at its suspension points loses and reorders
  nothing: the synchronous part followed by the segments in order is the
  flat list of dispatches of the controller model, for every input, guard
  value, clock reading and stream.
\<close>

lemma send_flow_concat:
  "sendMessage loading_read input tu tb c =
     fst (send_flow loading_read input tu tb c) @ concat (snd (send_flow loading_read input tu tb c))"
  by (simp add: sendMessage_def send_flow_def stream_segments_def Let_def)

end
