(* ===== verification/ChatInput.thy ===== *)
theory ChatInput
  imports Prelude
begin

text \<open>
  The input box of src/src/components/ChatInput.tsx (lines 11 to 38): its
  state is the text typed so far; \<open>handleSend\<close> (lines 12 to 17) hands a
  non-blank text to \<open>sendMessage\<close> and clears the box. Enter sends only when
  \<open>loading\<close> is false (lines 27 to 31), and the Send button is disabled while
  \<open>loading\<close> (line 33), so that a click on it fires nothing. A step takes the
  \<open>loading\<close> prop, the current text and an event, and returns the text handed
  to \<open>sendMessage\<close>, if any, with the new text of the box.
\<close>

datatype input_event = Change js_string | KeyDown js_string | ClickSend

definition handleSend :: "js_string \<Rightarrow> js_string option \<times> js_string" where
  "handleSend input = (if js_trim input \<noteq> [] then (Some input, []) else (None, input))"

fun chatInput_step :: "bool \<Rightarrow> js_string \<Rightarrow> input_event \<Rightarrow> js_string option \<times> js_string" where
  "chatInput_step loading input (Change v) = (None, v)"
| "chatInput_step loading input (KeyDown key) =
     (if key = js ''Enter'' \<and> \<not> loading then handleSend input else (None, input))"
| "chatInput_step loading input ClickSend =
     (if loading then (None, input) else handleSend input)"

lemma chatInput_step_loading: "chatInput_step True input ev = (None, snd (chatInput_step True input ev))"
  by (cases ev) simp_all

text \<open>
  C16. While \<open>loading\<close> is true no event of the input box reaches
  \<open>sendMessage\<close>: this, and not the check inside \<open>sendMessage\<close>, is what keeps
  one stream in flight at a time.
\<close>

theorem no_send_while_loading:
  "fst (chatInput_step True input ev) = None"
  by (subst chatInput_step_loading) simp

text \<open>
  C17. What the box hands to \<open>sendMessage\<close> is the text typed, never a blank
  one, and the box is cleared when it does.
\<close>

theorem sent_input_nonblank:
  assumes "chatInput_step loading input ev = (Some x, input')"
  shows "x = input \<and> js_trim input \<noteq> [] \<and> input' = [] \<and> \<not> loading"
  using assms by (cases ev) (auto simp: handleSend_def split: if_splits)

theorem sent_input_nonblank_witness:
  "chatInput_step False (js ''Hi'') ClickSend = (Some (js ''Hi''), []) \<and> js_trim (js ''Hi'') \<noteq> []"
proof -
  have r: "chatInput_step False (js ''Hi'') ClickSend = (Some (js ''Hi''), [])"
    by (simp add: handleSend_def js_trim_def js_is_space_def js_def)
  show ?thesis using r sent_input_nonblank[OF r] by simp
qed

end
