(* ===== verification/Theme.thy ===== *)
theory Theme
  imports Storage
begin

text \<open>
  The theme context of src/src/context/ThemeContext.tsx. Its state is the one
  boolean \<open>darkMode\<close> of \<open>useState\<close> (line 13), mirrored in the store under
  the key \<open>theme\<close> as \<open>'dark'\<close> or \<open>'light'\<close>. Calls of \<open>setDarkMode\<close> do not
  change the state at once: React queues them (\<open>dark_update\<close>) and applies the
  queue at the next render (\<open>run_updates\<close>); the effect with dependency
  \<open>[darkMode]\<close> runs after a render whose \<open>darkMode\<close> differs from the last one
  (\<open>rerender\<close>). The mount runs both effects in source order with the first
  render's value \<open>false\<close>, twice under \<open>StrictMode\<close> (src/src/main.tsx, line 9),
  which in a development build mounts, unmounts and mounts again
  (\<open>theme_mount\<close>). A click of the switch calls \<open>toggleTheme\<close> with the rendered
  value, after which React renders (\<open>theme_click\<close>). \<open>theme_palette\<close> is the
  palette \<open>createTheme\<close> receives.
\<close>

datatype dark_update = SetDark bool | FlipDark

fun apply_update :: "bool \<Rightarrow> dark_update \<Rightarrow> bool" where
  "apply_update d (SetDark b) = b"
| "apply_update d FlipDark = (\<not> d)"

definition run_updates :: "bool \<Rightarrow> dark_update list \<Rightarrow> bool" where
  "run_updates d us = foldl apply_update d us"

definition theme_str :: "bool \<Rightarrow> js_string" where
  "theme_str dark = (if dark then js ''dark'' else js ''light'')"

definition read_theme_effect :: "local_storage \<Rightarrow> dark_update" where
  "read_theme_effect st =
     (let savedTheme = js_or (st theme_key) (js ''light'') in SetDark (savedTheme = js ''dark''))"

definition write_theme_effect :: "bool \<Rightarrow> local_storage \<Rightarrow> local_storage" where
  "write_theme_effect darkMode st = st(theme_key \<mapsto> theme_str darkMode)"

definition toggleTheme :: "bool \<Rightarrow> local_storage \<Rightarrow> dark_update \<times> local_storage" where
  "toggleTheme darkMode st =
     (let newTheme = (if \<not> darkMode then js ''dark'' else js ''light'')
      in (FlipDark, st(theme_key \<mapsto> newTheme)))"

definition rerender :: "bool \<Rightarrow> dark_update list \<Rightarrow> local_storage \<Rightarrow> bool \<times> local_storage" where
  "rerender darkMode us st =
     (let darkMode' = run_updates darkMode us
      in (darkMode', if darkMode' \<noteq> darkMode then write_theme_effect darkMode' st else st))"

definition theme_mount :: "bool \<Rightarrow> local_storage \<Rightarrow> bool \<times> local_storage" where
  "theme_mount strict st =
     (let u1 = read_theme_effect st;
          st1 = write_theme_effect False st
      in if strict
         then rerender False [u1, read_theme_effect st1] (write_theme_effect False st1)
         else rerender False [u1] st1)"

definition theme_click :: "bool \<Rightarrow> local_storage \<Rightarrow> bool \<times> local_storage" where
  "theme_click darkMode st = (case toggleTheme darkMode st of (u, st') \<Rightarrow> rerender darkMode [u] st')"

text \<open>A page load followed by \<open>n\<close> clicks of the switch.\<close>

definition theme_run :: "bool \<Rightarrow> nat \<Rightarrow> local_storage \<Rightarrow> bool \<times> local_storage" where
  "theme_run strict n st = ((\<lambda>(d, st'). theme_click d st') ^^ n) (theme_mount strict st)"

record palette =
  mode :: js_string
  primary_main :: js_string
  background_default :: js_string
  background_paper :: js_string

definition theme_palette :: "bool \<Rightarrow> palette" where
  "theme_palette darkMode =
     \<lparr>mode = (if darkMode then js ''dark'' else js ''light''),
      primary_main = (if darkMode then js ''#90caf9'' else js ''#1976d2''),
      background_default = (if darkMode then js ''#121212'' else js ''#f9f9f9''),
      background_paper = (if darkMode then js ''#1e1e1e'' else js ''#ffffff'')\<rparr>"

text \<open>The store agrees with the rendered theme.\<close>

definition theme_synced :: "bool \<Rightarrow> local_storage \<Rightarrow> bool" where
  "theme_synced darkMode st \<longleftrightarrow> st theme_key = Some (theme_str darkMode)"

text \<open>The value the first effect reads: whether the stored theme is \<open>'dark'\<close>.\<close>

definition saved_dark :: "local_storage \<Rightarrow> bool" where
  "saved_dark st \<longleftrightarrow> st theme_key = Some (js ''dark'')"

subsection \<open>Basic facts\<close>

lemma theme_str_inject [simp]: "theme_str a = theme_str b \<longleftrightarrow> a = b"
  by (simp add: theme_str_def js_def)

lemma read_theme_effect_saved [simp]: "read_theme_effect st = SetDark (saved_dark st)"
  by (auto simp: read_theme_effect_def saved_dark_def js_or_def js_def split: option.split)

lemma read_after_write [simp]: "saved_dark (write_theme_effect d st) = d"
  by (simp add: saved_dark_def write_theme_effect_def theme_str_def js_def)

lemma run_updates_simps [simp]:
  "run_updates d [] = d"
  "run_updates d (u # us) = run_updates (apply_update d u) us"
  by (simp_all add: run_updates_def)

lemma write_write [simp]: "write_theme_effect a (write_theme_effect b st) = write_theme_effect a st"
  by (simp add: write_theme_effect_def)

lemma toggle_write: "snd (toggleTheme d st) = write_theme_effect (\<not> d) st"
  by (simp add: toggleTheme_def write_theme_effect_def theme_str_def)

lemma theme_mount_plain: "theme_mount False st = (saved_dark st, write_theme_effect (saved_dark st) st)"
  by (simp add: theme_mount_def rerender_def Let_def)

lemma theme_click_eq: "theme_click d st = (\<not> d, write_theme_effect (\<not> d) st)"
  by (simp add: theme_click_def toggleTheme_def rerender_def theme_str_def write_theme_effect_def)

lemma theme_click_synced: "theme_synced (fst (theme_click d st)) (snd (theme_click d st))"
  by (simp add: theme_click_eq theme_synced_def write_theme_effect_def)

lemma theme_click_other: "k \<noteq> theme_key \<Longrightarrow> snd (theme_click d st) k = st k"
  by (simp add: theme_click_eq write_theme_effect_def)

lemma theme_run_Suc:
  "theme_run strict (Suc n) st = theme_click (fst (theme_run strict n st)) (snd (theme_run strict n st))"
  by (simp add: theme_run_def case_prod_beta)

lemma theme_mount_writes_theme: "\<exists>v. snd (theme_mount b st) = st(theme_key \<mapsto> v)"
  by (cases b) (auto simp: theme_mount_def rerender_def Let_def write_theme_effect_def)

lemma theme_click_writes_theme: "snd (theme_click d st) = st(theme_key \<mapsto> theme_str (\<not> d))"
  by (simp add: theme_click_eq write_theme_effect_def)

lemma theme_mount_synced: "theme_synced (fst (theme_mount b st)) (snd (theme_mount b st))"
  by (cases b) (simp_all add: theme_mount_plain theme_mount_def rerender_def Let_def theme_synced_def
      write_theme_effect_def theme_str_def)

subsection \<open>Properties\<close>

text \<open>
  C18. Without StrictMode a page load restores the stored theme: the rendered
  mode is dark exactly when the store holds \<open>'dark'\<close>, and the store is left
  holding the name of that mode (other entries untouched).
\<close>

theorem theme_mount_restores:
  "theme_mount False st = (saved_dark st, st(theme_key \<mapsto> theme_str (saved_dark st)))"
  by (simp add: theme_mount_plain write_theme_effect_def)

text \<open>
  C19. Under StrictMode's double mount the stored preference is lost: the
  first mount's write effect stores \<open>'light'\<close> before the second mount reads
  the store, and the queued updates end with \<open>false\<close>; whatever the store held,
  the page renders light and stores \<open>'light'\<close>.
\<close>

theorem theme_strict_mount_forgets_dark:
  "theme_mount True st = (False, st(theme_key \<mapsto> js ''light''))"
  by (simp add: theme_mount_def rerender_def Let_def) (simp add: write_theme_effect_def theme_str_def)

text \<open>
  C20. Invariant of the theme: after a page load without StrictMode and any
  number of clicks of the switch, the store holds the rendered mode, and the
  mode is the stored one flipped once per click.
\<close>

theorem theme_run_synced:
  "theme_synced (fst (theme_run False n st)) (snd (theme_run False n st))
   \<and> fst (theme_run False n st) = (saved_dark st \<noteq> odd n)"
proof (induction n)
  case 0
  then show ?case
    by (simp add: theme_run_def theme_mount_plain theme_synced_def write_theme_effect_def)
next
  case (Suc n)
  then show ?case
    by (simp only: theme_run_Suc theme_click_synced) (simp add: theme_click_eq)
qed

end
