(* ===== verification/Settings.thy ===== *)
theory Settings
  imports ChatStore
begin

text \<open>
  The clear-history flow of src/src/components/SettingsModal.tsx. The modal's
  own state is the four \<open>useState\<close> hooks of lines 33 to 36
  (\<open>settings_state\<close>); the chat state it reads and the dispatch it calls are
  those of the chat store. \<open>settings_step\<close> handles one user event: the
  \<open>Clear Chat History\<close> button (line 93, disabled while there is no
  session, so that a click on it does nothing), the dialog's \<open>Cancel\<close> and
  \<open>Clear\<close> buttons and its backdrop (lines 109 to 122, rendered only while
  \<open>dialogOpen\<close>), the snackbar's close (line 101) and
  \<open>confirmClearChatHistory\<close> (lines 57 to 70). The setters called in one
  handler are applied together at the next render, so a handler is one step.
  Closing the modal through the URL (\<open>closeModal\<close>) and the theme switch are
  left to the routing and theme models.
\<close>

datatype severity = SevSuccess | SevError

record settings_state =
  snackbarOpen :: bool
  snackbarMessage :: js_string
  snackbarSeverity :: severity
  dialogOpen :: bool

datatype settings_event = OpenDialog | CloseDialog | ConfirmClear | SnackbarClose

definition initial_settings :: settings_state where
  "initial_settings =
     \<lparr>snackbarOpen = False, snackbarMessage = [], snackbarSeverity = SevSuccess, dialogOpen = False\<rparr>"

definition NO_SESSION_TEXT :: js_string where
  "NO_SESSION_TEXT = js ''No chat session found!''"

definition CLEARED_TEXT :: js_string where
  "CLEARED_TEXT = js ''Chat history cleared successfully!''"

definition confirmClearChatHistory ::
  "settings_state \<Rightarrow> chat_world \<Rightarrow> decode_error + (settings_state \<times> chat_world)" where
  "confirmClearChatHistory ss w =
     (if \<not> js_truthy (sessionId (fst w))
      then Inr (ss\<lparr>snackbarMessage := NO_SESSION_TEXT, snackbarSeverity := SevError,
                   snackbarOpen := True\<rparr>, w)
      else
        (case chatReducer w CLEAR_MESSAGES of
           Inl e \<Rightarrow> Inl e
         | Inr w' \<Rightarrow>
             Inr (ss\<lparr>snackbarMessage := CLEARED_TEXT, snackbarSeverity := SevSuccess,
                     snackbarOpen := True, dialogOpen := False\<rparr>, w')))"

fun settings_step ::
  "settings_state \<Rightarrow> chat_world \<Rightarrow> settings_event \<Rightarrow> decode_error + (settings_state \<times> chat_world)" where
  "settings_step ss w OpenDialog =
     (if \<not> js_truthy (sessionId (fst w)) then Inr (ss, w) else Inr (ss\<lparr>dialogOpen := True\<rparr>, w))"
| "settings_step ss w CloseDialog = Inr (ss\<lparr>dialogOpen := False\<rparr>, w)"
| "settings_step ss w ConfirmClear =
     (if dialogOpen ss then confirmClearChatHistory ss w else Inr (ss, w))"
| "settings_step ss w SnackbarClose = Inr (ss\<lparr>snackbarOpen := False\<rparr>, w)"

fun settings_run ::
  "settings_state \<Rightarrow> chat_world \<Rightarrow> settings_event list \<Rightarrow> decode_error + (settings_state \<times> chat_world)" where
  "settings_run ss w [] = Inr (ss, w)"
| "settings_run ss w (e # es) =
     (case settings_step ss w e of Inl err \<Rightarrow> Inl err | Inr (ss', w') \<Rightarrow> settings_run ss' w' es)"

text \<open>
  What the modal keeps true: the dialog is open only while a session is
  active, and the snackbar has never reported an error.
\<close>

definition settings_inv :: "settings_state \<Rightarrow> chat_world \<Rightarrow> bool" where
  "settings_inv ss w \<longleftrightarrow>
     snackbarSeverity ss = SevSuccess \<and> (dialogOpen ss \<longrightarrow> js_truthy (sessionId (fst w)))"

subsection \<open>Basic facts\<close>

lemma clear_keeps_session:
  "chatReducer w CLEAR_MESSAGES = Inr w' \<Longrightarrow> sessionId (fst w') = sessionId (fst w)"
  by (cases w) (auto split: option.splits)

lemma settings_step_inv:
  assumes "settings_inv ss w" and "settings_step ss w e = Inr (ss', w')"
  shows "settings_inv ss' w'"
  using assms
  by (cases e)
     (auto simp: settings_inv_def confirmClearChatHistory_def clear_keeps_session
           split: if_splits sum.splits)

lemma settings_run_inv:
  "settings_inv ss w \<Longrightarrow> settings_run ss w es = Inr (ss', w') \<Longrightarrow> settings_inv ss' w'"
proof (induction es arbitrary: ss w)
  case (Cons e es)
  then obtain ss1 w1 where step: "settings_step ss w e = Inr (ss1, w1)"
    and run: "settings_run ss1 w1 es = Inr (ss', w')"
    by (auto split: sum.splits)
  have "settings_inv ss1 w1"
    using Cons.prems(1) step by (rule settings_step_inv)
  then show ?case
    using run by (rule Cons.IH)
qed simp

lemma settings_step_frame:
  assumes "settings_step ss w e = Inr (ss', w')"
  shows "loading (fst w') = loading (fst w) \<and> sessionId (fst w') = sessionId (fst w)
    \<and> snd w' theme_key = snd w theme_key \<and> (synced w \<longrightarrow> synced w')"
proof (cases "e = ConfirmClear \<and> dialogOpen ss \<and> js_truthy (sessionId (fst w))")
  case True
  then obtain w1 where "chatReducer w CLEAR_MESSAGES = Inr w1" and "w' = w1"
    using assms by (auto simp: confirmClearChatHistory_def split: sum.splits)
  then show ?thesis
    using chatReducer_frame chatReducer_synced by fastforce
next
  case False
  then have "w' = w"
    using assms by (cases e) (auto simp: confirmClearChatHistory_def split: if_splits sum.splits)
  then show ?thesis by simp
qed

lemma settings_step_store_ok:
  assumes "store_ok (snd w)"
  shows "\<exists>ss' w'. settings_step ss w e = Inr (ss', w') \<and> store_ok (snd w')"
proof -
  obtain s st where w: "w = (s, st)" by (cases w)
  obtain s1 st1 where "chatReducer (s, st) CLEAR_MESSAGES = Inr (s1, st1)" and "store_ok st1"
    using chatReducer_store_ok assms w by fastforce
  then show ?thesis
    using assms w by (cases e) (auto simp: confirmClearChatHistory_def)
qed

lemma settings_inv_initial: "settings_inv initial_settings w"
  by (simp add: settings_inv_def initial_settings_def)

subsection \<open>Properties\<close>

text \<open>
  C21. Confirming in the dialog with a session active clears the history: the
  chat store's messages are empty, the session's entry is removed from the
  store, the dialog closes and the snackbar reports success.
\<close>

theorem clear_history_confirmed:
  assumes "dialogOpen ss" and "active_session s = Some sid"
  shows "settings_step ss (s, st) ConfirmClear =
           Inr (ss\<lparr>snackbarMessage := CLEARED_TEXT, snackbarSeverity := SevSuccess,
                   snackbarOpen := True, dialogOpen := False\<rparr>,
                (s\<lparr>messages := []\<rparr>, remove_messages sid st))"
  using assms active_session_Some[OF assms(2)]
  by (simp add: confirmClearChatHistory_def)

theorem clear_history_confirmed_witness:
  "settings_step (initial_settings\<lparr>dialogOpen := True\<rparr>)
      (demo_session\<lparr>messages := [demo_msg]\<rparr>, save_messages (js ''s'') [demo_msg] Map.empty) ConfirmClear =
   Inr (initial_settings\<lparr>snackbarMessage := CLEARED_TEXT, snackbarOpen := True\<rparr>,
        (demo_session, Map.empty))"
  using clear_history_confirmed[of "initial_settings\<lparr>dialogOpen := True\<rparr>"
      "demo_session\<lparr>messages := [demo_msg]\<rparr>" "js ''s''" "save_messages (js ''s'') [demo_msg] Map.empty"]
  by (simp add: demo_session_def initialState_def active_session_def initial_settings_def
      remove_messages_def save_messages_def)

text \<open>
  C22. The error report of \<open>confirmClearChatHistory\<close> (\<open>No chat session
  found!\<close>) is never shown: from the modal's initial state, along every
  sequence of its events, the snackbar's severity stays \<open>success\<close>, because the
  dialog can only be opened while a session is active and clearing keeps the
  session.
\<close>

theorem clear_error_unreachable:
  "settings_run initial_settings w es = Inr (ss, w') \<Longrightarrow> snackbarSeverity ss = SevSuccess"
  using settings_run_inv[OF settings_inv_initial] by (simp add: settings_inv_def)

theorem clear_error_unreachable_witness:
  "settings_run initial_settings (demo_session, Map.empty) [OpenDialog, ConfirmClear] =
     Inr (initial_settings\<lparr>snackbarMessage := CLEARED_TEXT, snackbarOpen := True\<rparr>, (demo_session, Map.empty))
   \<and> snackbarSeverity (initial_settings\<lparr>snackbarMessage := CLEARED_TEXT, snackbarOpen := True\<rparr>) = SevSuccess"
  using clear_error_unreachable[of "(demo_session, Map.empty)" "[OpenDialog, ConfirmClear]"
      "initial_settings\<lparr>snackbarMessage := CLEARED_TEXT, snackbarOpen := True\<rparr>" "(demo_session, Map.empty)"]
  by (simp add: demo_session_def initialState_def active_session_def initial_settings_def
      confirmClearChatHistory_def remove_messages_def js_def)

end
