(* ===== verification/ChatView.thy ===== *)
theory ChatView
  imports Controller
begin

text \<open>
  The rest of the \<open>Chat\<close> page of src/src/pages/Chat.tsx: the effect that
  hands the route's session id to the store (lines 141 to 145,
  \<open>session_effect\<close>), the effect that decides whether to scroll after the
  message list changed (lines 147 to 154, \<open>scroll_effect\<close>, with the
  \<open>isTyping\<close> ref), and what the page renders of the state: the error
  snackbar (lines 203 to 212), and per message a row whose React key is
  \<open>msg.sender + msg.timestamp\<close> and whose bubble shows the typing indicator
  when the text is empty and the markdown of the text otherwise (lines 215 to
  234, \<open>chat_view\<close>). A number's decimal text is the one \<open>JSON.stringify\<close>
  prints, \<open>int_digits\<close>, which is what \<open>String(n)\<close> gives for the integer
  timestamps of the program.
\<close>

definition session_effect :: "js_string option \<Rightarrow> chat_action list" where
  "session_effect param =
     (case param of Some sid \<Rightarrow> if sid \<noteq> [] then [SET_SESSION_ID sid] else [] | None \<Rightarrow> [])"

definition scroll_effect :: "message list \<Rightarrow> bool \<Rightarrow> bool" where
  "scroll_effect msgs isTyping =
     (if length msgs = 0 then False
      else
        (let lastMessage = msgs ! (length msgs - 1)
         in if sender lastMessage = User then True
            else sender lastMessage = Bot \<and> \<not> isTyping))"

definition error_open :: "chat_state \<Rightarrow> bool" where
  "error_open s = js_truthy (error s)"

definition snackbar_onClose :: chat_action where
  "snackbar_onClose = SET_ERROR None"

datatype bubble = TypingIndicator | Markdown js_string

definition bubble_of :: "message \<Rightarrow> bubble" where
  "bubble_of msg = (if text msg = [] then TypingIndicator else Markdown (text msg))"

definition row_key :: "message \<Rightarrow> js_string" where
  "row_key msg = sender_str (sender msg) @ int_digits (timestamp msg)"

definition chat_view :: "chat_state \<Rightarrow> (js_string \<times> bubble) list" where
  "chat_view s = map (\<lambda>msg. (row_key msg, bubble_of msg)) (messages s)"

subsection \<open>Basic facts\<close>

lemma parse_number_int_digits_Nil: "parse_number (int_digits i) = Some (JNum i, [])"
  using parse_number_int_digits[of "[]" i] by (simp add: num_end_def)

lemma int_digits_inject [simp]: "int_digits i = int_digits j \<longleftrightarrow> i = j"
  by (metis parse_number_int_digits_Nil option.inject prod.inject json.inject(2))

lemma row_key_eq:
  "row_key m1 = row_key m2 \<longleftrightarrow> sender m1 = sender m2 \<and> timestamp m1 = timestamp m2"
  by (cases "sender m1"; cases "sender m2") (simp_all add: row_key_def sender_str_def js_def)

lemma map_row_key: "map row_key ms = map (\<lambda>(s, t). sender_str s @ int_digits t) (map (\<lambda>m. (sender m, timestamp m)) ms)"
  by (simp add: row_key_def)

lemma inj_on_key_text: "inj_on (\<lambda>(s, t). sender_str s @ int_digits t) A"
proof (rule inj_onI, clarify)
  fix s t s' t'
  assume "sender_str s @ int_digits t = sender_str s' @ int_digits t'"
  then show "s = s' \<and> t = t'"
    by (cases s; cases s') (simp_all add: sender_str_def js_def)
qed

subsection \<open>Properties\<close>

text \<open>
  C23. What the page shows after a completed send: the last row is the bot's,
  keyed by its sender and timestamp, and \<open>loading\<close> is off; its bubble is
  the markdown of the streamed text, except when every chunk was empty, where
  the typing indicator stays on screen although the stream has ended.
\<close>

theorem view_after_send:
  assumes "active_session s = Some sid" and "js_trim input \<noteq> []" and "js_trim input \<noteq> js ''/help''"
    and "stream_end c = Completed"
    and "dispatch_all (s, st) (sendMessage False input tu tb c) = Inr (s', st')"
  shows "\<not> loading s' \<and>
    last (chat_view s') =
      (row_key (bot_msg [] tb),
       if concat (map chunk_text (chunks c)) = [] then TypingIndicator
       else Markdown (concat (map chunk_text (chunks c))))"
  using send_completed_run[OF assms(1-4), where st = st and tu = tu and tb = tb] assms(5)
  by (auto simp: chat_view_def bubble_of_def row_key_def)

theorem view_after_send_witness:
  "dispatch_all (demo_session, Map.empty)
     (sendMessage False (js ''Hi'') 1 2 \<lparr>chunks = [None, Some []], stream_end = Completed\<rparr>) =
     Inr (demo_session\<lparr>messages := [user_msg (js ''Hi'') 1, bot_msg [] 2]\<rparr>,
          save_messages (js ''s'') [user_msg (js ''Hi'') 1, bot_msg [] 2] Map.empty)
   \<and> last (chat_view (demo_session\<lparr>messages := [user_msg (js ''Hi'') 1, bot_msg [] 2]\<rparr>))
       = (row_key (bot_msg [] 2), TypingIndicator)"
proof -
  have run: "dispatch_all (demo_session, Map.empty)
     (sendMessage False (js ''Hi'') 1 2 \<lparr>chunks = [None, Some []], stream_end = Completed\<rparr>) =
     Inr (demo_session\<lparr>messages := [user_msg (js ''Hi'') 1, bot_msg [] 2]\<rparr>,
          save_messages (js ''s'') [user_msg (js ''Hi'') 1, bot_msg [] 2] Map.empty)"
    using send_completed_run[OF demo_session_active hi_nonblank hi_not_help,
        where c = "\<lparr>chunks = [None, Some []], stream_end = Completed\<rparr>" and st = Map.empty and tu = 1 and tb = 2]
    by (simp add: chunk_text_def demo_session_def initialState_def)
  show ?thesis
    using run view_after_send[OF demo_session_active hi_nonblank hi_not_help _ run]
    by (simp add: chunk_text_def)
qed

text \<open>
  C24. The React keys of the rendered rows (\<open>msg.sender + msg.timestamp\<close>) are
  distinct exactly when no two messages share both sender and timestamp: the
  key text determines the pair.
\<close>

theorem row_keys_distinct:
  "distinct (map row_key ms) \<longleftrightarrow> distinct (map (\<lambda>m. (sender m, timestamp m)) ms)"
  by (simp only: map_row_key distinct_map[of "\<lambda>(s, t). sender_str s @ int_digits t"] inj_on_key_text simp_thms)

end
