(* ===== verification/Routing.thy ===== *)
theory Routing
  imports Json
begin

text \<open>
  The routing glue: the two routes of src/src/App.tsx (lines 14 to 17), the
  test that shows the settings modal (line 18), the Header's
  \<open>openSettings\<close> (src/src/components/Header.tsx, lines 35 to 37) and the
  modal's \<open>closeModal\<close> (src/src/components/SettingsModal.tsx, lines 40 to
  43). A location is its path and its query string. The route \<open>/\<close> redirects
  to \<open>/chat/<Date.now()>\<close>; \<open>/chat/:sessionId\<close> matches one non-empty path
  segment. \<open>closeModal\<close> goes through \<open>URLSearchParams\<close>: the query is split
  at \<open>&\<close>, each part at its first \<open>=\<close>, the \<open>settings\<close> entries are deleted
  and the rest is printed back as \<open>k=v\<close> joined by \<open>&\<close>. Percent-encoding is
  left out (the identity on the letters, digits, \<open>=\<close> and \<open>&\<close> this program
  puts in its URLs), and so is a trailing slash after the session id, which
  React Router also accepts. React Router compiles a route into a
  case-insensitive pattern, so the prefix \<open>/chat/\<close> matches in any case of
  its letters (\<open>ascii_lower\<close>), while the session id keeps its case.
\<close>

record location =
  pathname :: js_string
  search :: js_string

datatype route = RedirectTo js_string | ChatRoute js_string | NoMatch

definition CHAT_PREFIX :: js_string where
  "CHAT_PREFIX = js ''/chat/''"

text \<open>
  Route patterns match case-insensitively (React Router compiles them to a
  regular expression with the \<open>i\<close> flag and no \<open>u\<close> flag, which folds the
  ASCII letters only).
\<close>

definition ascii_lower :: "code_unit \<Rightarrow> code_unit" where
  "ascii_lower c = (if 0x41 \<le> c \<and> c \<le> 0x5A then c + 0x20 else c)"

definition match_route :: "int \<Rightarrow> js_string \<Rightarrow> route" where
  "match_route now path =
     (if path = js ''/'' then RedirectTo (CHAT_PREFIX @ int_digits now)
      else
        (let seg = drop (length CHAT_PREFIX) path
         in if map ascii_lower (take (length CHAT_PREFIX) path) = CHAT_PREFIX \<and> seg \<noteq> [] \<and> 0x2F \<notin> set seg
            then ChatRoute seg else NoMatch))"

definition route_param :: "route \<Rightarrow> js_string option" where
  "route_param r = (case r of ChatRoute sid \<Rightarrow> Some sid | _ \<Rightarrow> None)"

fun js_includes :: "js_string \<Rightarrow> js_string \<Rightarrow> bool" where
  "js_includes pat [] = (pat = [])"
| "js_includes pat (c # s) = (take (length pat) (c # s) = pat \<or> js_includes pat s)"

definition settings_visible :: "location \<Rightarrow> bool" where
  "settings_visible loc = js_includes (js ''settings=true'') (search loc)"

definition openSettings :: "location \<Rightarrow> location" where
  "openSettings loc = loc\<lparr>search := js ''?settings=true''\<rparr>"

fun split_on :: "code_unit \<Rightarrow> js_string \<Rightarrow> js_string list" where
  "split_on c [] = [[]]"
| "split_on c (x # xs) =
     (let ps = split_on c xs in if x = c then [] # ps else (x # hd ps) # tl ps)"

definition parse_params :: "js_string \<Rightarrow> (js_string \<times> js_string) list" where
  "parse_params s =
     (let q = (if s \<noteq> [] \<and> hd s = 0x3F then tl s else s)
      in map (\<lambda>p. (takeWhile (\<lambda>x. x \<noteq> 0x3D) p, drop 1 (dropWhile (\<lambda>x. x \<noteq> 0x3D) p)))
           (filter (\<lambda>p. p \<noteq> []) (split_on 0x26 q)))"

definition params_delete :: "js_string \<Rightarrow> (js_string \<times> js_string) list \<Rightarrow> (js_string \<times> js_string) list" where
  "params_delete k ps = filter (\<lambda>(k', v). k' \<noteq> k) ps"

fun serialize_params :: "(js_string \<times> js_string) list \<Rightarrow> js_string" where
  "serialize_params [] = []"
| "serialize_params [(k, v)] = k @ 0x3D # v"
| "serialize_params ((k, v) # ps) = k @ 0x3D # v @ 0x26 # serialize_params ps"

definition setSearchParams :: "location \<Rightarrow> (js_string \<times> js_string) list \<Rightarrow> location" where
  "setSearchParams loc ps =
     loc\<lparr>search := (let q = serialize_params ps in if q = [] then [] else 0x3F # q)\<rparr>"

definition closeModal :: "location \<Rightarrow> location" where
  "closeModal loc = setSearchParams loc (params_delete (js ''settings'') (parse_params (search loc)))"


subsection \<open>Basic facts\<close>

lemma int_digits_nonempty: "int_digits i \<noteq> []"
  by (simp add: int_digits_def nat_digits_nonempty)

lemma slash_notin_int_digits: "0x2F \<notin> set (int_digits i)"
proof
  assume "0x2F \<in> set (int_digits i)"
  then have "(0x2F::code_unit) = 0x2D \<or> is_digit 0x2F"
    by (auto simp: int_digits_def dest: nat_digits_is_digit split: if_splits)
  then show False
    by (simp add: is_digit_def)
qed

lemma ascii_lower_CHAT_PREFIX [simp]: "map ascii_lower CHAT_PREFIX = CHAT_PREFIX"
  by (simp add: CHAT_PREFIX_def js_def ascii_lower_def)

lemma match_chat_route:
  "seg \<noteq> [] \<Longrightarrow> 0x2F \<notin> set seg \<Longrightarrow> match_route now (CHAT_PREFIX @ seg) = ChatRoute seg"
  by (auto simp: match_route_def CHAT_PREFIX_def js_def ascii_lower_def)

lemma match_route_any_case: "match_route now (js ''/CHAT/Ab'') = ChatRoute (js ''Ab'')"
  by (simp add: match_route_def ascii_lower_def CHAT_PREFIX_def js_def)












lemma js_includes_Cons: "js_includes pat s \<Longrightarrow> js_includes pat (c # s)"
  by simp

subsection \<open>Properties\<close>

text \<open>
  C25. The settings button opens the modal from any location, and the modal's
  close button then hides it again, leaving the path and an empty query.
\<close>

theorem settings_open_close:
  "settings_visible (openSettings loc)
   \<and> closeModal (openSettings loc) = loc\<lparr>search := []\<rparr>
   \<and> \<not> settings_visible (closeModal (openSettings loc))"
  by (simp add: settings_visible_def closeModal_def openSettings_def parse_params_def
      setSearchParams_def params_delete_def js_def)



end
