(* ===== verification/App.thy ===== *)
theory App
  imports SendFlow ChatInput Theme Settings ChatView Routing
begin

text \<open>
  The whole page as the components compose it. src/src/main.tsx (lines 8 to
  18) nests \<open>StrictMode\<close>, the theme provider, the chat provider and the
  router around \<open>App\<close>; \<open>App\<close> (src/src/App.tsx, lines 9 to 25) renders the
  header, the route and, when the query asks for it, the settings modal.
  \<open>app_state\<close> holds what the providers and the mounted components keep: the
  chat state, the shared \<open>localStorage\<close>, \<open>darkMode\<close>, the modal's state
  (reset whenever the modal is not shown, as it is unmounted then), the
  location, the text of the input box, the sends still in flight (each the
  list of its remaining segments, see SendFlow), the \<open>isTyping\<close> ref of the
  mounted \<open>Chat\<close>, and the value of \<open>state.loading\<close> its memoised
  \<open>sendMessage\<close> captured (Chat.tsx lines 156 to 199: \<open>useCallback\<close> with
  no dependencies reads the state of the render that mounted the page).
  \<open>app_load\<close> is a page load: the route (\<open>/\<close> redirects), the page's
  session effect (run twice under StrictMode) and the theme's mount.
  \<open>app_step\<close> is one event: a reload, a move to another session's URL
  (the same \<open>Chat\<close> stays mounted with a new parameter), a move back to
  \<open>/\<close> (whose \<open>Navigate\<close>, App.tsx line 15, redirects to \<open>/chat/<now>\<close>:
  the \<open>Chat\<close> element is unmounted and a new one is mounted, with an empty
  input box, a cleared \<open>isTyping\<close> ref and a new \<open>sendMessage\<close> that
  captures the current \<open>loading\<close>; a send in flight goes on), an event of
  the input box (with the clock readings and the completion stream
  the send will meet), the arrival of the next segment of a send in flight
  (\<open>Tick\<close>), an event of the settings modal, its theme switch, the header's
  settings button, the modal's close, and the chat snackbar's close. A
  thrown \<open>JSON.parse\<close> error crashes the page: it is the \<open>Inl\<close> result.
  \<open>app_reach\<close> is the set of states reachable from a page load.
\<close>

record app_state =
  app_chat :: chat_state
  app_store :: local_storage
  app_dark :: bool
  app_settings :: settings_state
  app_loc :: location
  app_input :: js_string
  app_flows :: "chat_action list list list"
  app_typing :: bool
  app_send_loading :: bool

datatype app_event =
    Reload bool js_string js_string int
  | NavigateChat js_string
  | GoRoot int
  | UserInput input_event int int completion
  | Tick nat
  | SettingsEvent settings_event
  | ThemeSwitch
  | HeaderSettings
  | CloseSettings
  | DismissError

definition app_param :: "location \<Rightarrow> js_string option" where
  "app_param loc = route_param (match_route 0 (pathname loc))"

definition chat_mounted :: "app_state \<Rightarrow> bool" where
  "chat_mounted s \<longleftrightarrow> app_param (app_loc s) \<noteq> None"

definition landing :: "int \<Rightarrow> js_string \<Rightarrow> js_string \<Rightarrow> location" where
  "landing now path search0 =
     (case match_route now path of
        RedirectTo p \<Rightarrow> \<lparr>pathname = p, search = []\<rparr>
      | _ \<Rightarrow> \<lparr>pathname = path, search = search0\<rparr>)"

definition app_load :: "bool \<Rightarrow> local_storage \<Rightarrow> js_string \<Rightarrow> js_string \<Rightarrow> int \<Rightarrow> decode_error + app_state" where
  "app_load strict st path search0 now =
     (let loc = landing now path search0;
          acts = session_effect (app_param loc)
      in case dispatch_all (initialState, st) (if strict then acts @ acts else acts) of
           Inl e \<Rightarrow> Inl e
         | Inr (cs, st1) \<Rightarrow>
             (case theme_mount strict st1 of
                (dark, st2) \<Rightarrow>
                  Inr \<lparr>app_chat = cs, app_store = st2, app_dark = dark, app_settings = initial_settings,
                       app_loc = loc, app_input = [], app_flows = [], app_typing = False,
                       app_send_loading = False\<rparr>))"

definition settings_after :: "location \<Rightarrow> location \<Rightarrow> settings_state \<Rightarrow> settings_state" where
  "settings_after old new ss = (if settings_visible old \<and> settings_visible new then ss else initial_settings)"

definition with_world :: "app_state \<Rightarrow> chat_world \<Rightarrow> app_state" where
  "with_world s w = s\<lparr>app_chat := fst w, app_store := snd w\<rparr>"

fun app_step :: "app_state \<Rightarrow> app_event \<Rightarrow> decode_error + app_state" where
  "app_step s (Reload strict path search0 now) = app_load strict (app_store s) path search0 now"
| "app_step s (NavigateChat sid) =
     (case match_route 0 (CHAT_PREFIX @ sid) of
        ChatRoute p \<Rightarrow>
          (let loc' = \<lparr>pathname = CHAT_PREFIX @ p, search = []\<rparr>;
               acts = (if app_param (app_loc s) = Some p then [] else session_effect (Some p))
           in case dispatch_all (app_chat s, app_store s) acts of
                Inl e \<Rightarrow> Inl e
              | Inr w \<Rightarrow>
                  Inr ((with_world s w)\<lparr>app_loc := loc',
                         app_settings := settings_after (app_loc s) loc' (app_settings s),
                         app_input := (if chat_mounted s then app_input s else []),
                         app_send_loading := (if chat_mounted s then app_send_loading s else loading (app_chat s))\<rparr>))
      | _ \<Rightarrow> Inr s)"
| "app_step s (GoRoot now) =
     (let loc' = landing now (js ''/'') []
      in case dispatch_all (app_chat s, app_store s) (session_effect (app_param loc')) of
           Inl e \<Rightarrow> Inl e
         | Inr w \<Rightarrow>
             Inr ((with_world s w)\<lparr>app_loc := loc',
                    app_settings := settings_after (app_loc s) loc' (app_settings s),
                    app_input := [], app_typing := False, app_send_loading := loading (app_chat s)\<rparr>))"
| "app_step s (UserInput ev now_user now_bot c) =
     (if \<not> chat_mounted s then Inr s
      else
        (case chatInput_step (loading (app_chat s)) (app_input s) ev of
           (None, input') \<Rightarrow> Inr (s\<lparr>app_input := input'\<rparr>)
         | (Some x, input') \<Rightarrow>
             (case send_flow (app_send_loading s) x now_user now_bot c of
                (sync, segs) \<Rightarrow>
                  (case dispatch_all (app_chat s, app_store s) sync of
                     Inl e \<Rightarrow> Inl e
                   | Inr w \<Rightarrow>
                       Inr ((with_world s w)\<lparr>app_input := input',
                              app_flows := app_flows s @ (if segs = [] then [] else [segs]),
                              app_typing := (app_typing s \<or> segs \<noteq> [])\<rparr>)))))"
| "app_step s (Tick n) =
     (if n < length (app_flows s)
      then
        (case app_flows s ! n of
           [] \<Rightarrow> Inr s
         | seg # rest \<Rightarrow>
             (case dispatch_all (app_chat s, app_store s) seg of
                Inl e \<Rightarrow> Inl e
              | Inr w \<Rightarrow>
                  Inr ((with_world s w)\<lparr>
                         app_flows := (if rest = [] then take n (app_flows s) @ drop (Suc n) (app_flows s)
                                       else (app_flows s)[n := rest]),
                         app_typing := (if rest = [] then False else app_typing s)\<rparr>)))
      else Inr s)"
| "app_step s (SettingsEvent e) =
     (if settings_visible (app_loc s)
      then
        (case settings_step (app_settings s) (app_chat s, app_store s) e of
           Inl err \<Rightarrow> Inl err
         | Inr (ss, w) \<Rightarrow> Inr ((with_world s w)\<lparr>app_settings := ss\<rparr>))
      else Inr s)"
| "app_step s ThemeSwitch =
     (if settings_visible (app_loc s)
      then (case theme_click (app_dark s) (app_store s) of (d, st) \<Rightarrow> Inr (s\<lparr>app_dark := d, app_store := st\<rparr>))
      else Inr s)"
| "app_step s HeaderSettings =
     (let loc' = openSettings (app_loc s)
      in Inr (s\<lparr>app_loc := loc', app_settings := settings_after (app_loc s) loc' (app_settings s)\<rparr>))"
| "app_step s CloseSettings =
     (if settings_visible (app_loc s)
      then
        (let loc' = closeModal (app_loc s)
         in Inr (s\<lparr>app_loc := loc', app_settings := settings_after (app_loc s) loc' (app_settings s)\<rparr>))
      else Inr s)"
| "app_step s DismissError =
     (if chat_mounted s \<and> error_open (app_chat s)
      then
        (case dispatch_all (app_chat s, app_store s) [snackbar_onClose] of
           Inl e \<Rightarrow> Inl e
         | Inr w \<Rightarrow> Inr (with_world s w))
      else Inr s)"

inductive app_reach :: "app_state \<Rightarrow> bool" where
  load: "app_load strict st path search0 now = Inr s \<Longrightarrow> app_reach s"
| step: "app_reach s \<Longrightarrow> app_step s e = Inr s' \<Longrightarrow> app_reach s'"

fun app_ticks :: "nat \<Rightarrow> app_state \<Rightarrow> decode_error + app_state" where
  "app_ticks 0 s = Inr s"
| "app_ticks (Suc n) s = (case app_step s (Tick 0) of Inl e \<Rightarrow> Inl e | Inr s' \<Rightarrow> app_ticks n s')"

text \<open>
  What the composed page keeps true: \<open>loading\<close> is on exactly while a send
  is in flight, and then exactly one is, with a well-formed rest; the
  \<open>isTyping\<close> ref is set only then; the store mirrors the chat history and the theme;
  the modal's invariant holds; the active session is the one of the URL when
  the chat page is shown, and the chat state is the initial one when it is
  not; the path is never the bare \<open>/\<close>, which always redirects.
\<close>

definition app_inv :: "app_state \<Rightarrow> bool" where
  "app_inv s \<longleftrightarrow>
     (loading (app_chat s) \<longleftrightarrow> app_flows s \<noteq> [])
     \<and> length (app_flows s) \<le> 1 \<and> list_all flow_ok (app_flows s)
     \<and> (app_typing s \<longrightarrow> app_flows s \<noteq> [])
     \<and> synced (app_chat s, app_store s) \<and> theme_synced (app_dark s) (app_store s)
     \<and> settings_inv (app_settings s) (app_chat s, app_store s)
     \<and> (if chat_mounted s then sessionId (app_chat s) = app_param (app_loc s)
        else app_chat s = initialState)
     \<and> pathname (app_loc s) \<noteq> js ''/''"

text \<open>Example data for the witnesses: a page at \<open>/chat/s\<close> with \<open>Hi\<close> typed, and the same page after Send.\<close>

definition demo_completion :: completion where
  "demo_completion = \<lparr>chunks = [Some (js ''Hel''), Some (js ''lo'')], stream_end = Completed\<rparr>"

definition demo_app :: app_state where
  "demo_app =
     \<lparr>app_chat = initialState\<lparr>sessionId := Some (js ''s'')\<rparr>, app_store = [theme_key \<mapsto> js ''light''],
      app_dark = False, app_settings = initial_settings, app_loc = \<lparr>pathname = js ''/chat/s'', search = []\<rparr>,
      app_input = js ''Hi'', app_flows = [], app_typing = False, app_send_loading = False\<rparr>"

definition demo_sending :: app_state where
  "demo_sending =
     demo_app\<lparr>app_chat := initialState\<lparr>sessionId := Some (js ''s''),
                 messages := [user_msg (js ''Hi'') 1, bot_msg [] 2], loading := True\<rparr>,
              app_store := save_messages (js ''s'') [user_msg (js ''Hi'') 1, bot_msg [] 2] [theme_key \<mapsto> js ''light''],
              app_input := [], app_flows := [stream_segments demo_completion], app_typing := True\<rparr>"

inductive_cases app_reach_cases: "app_reach s"

subsection \<open>The invariant of the composed page\<close>

lemma app_param_nonempty: "app_param loc = Some p \<Longrightarrow> p \<noteq> []"
  by (auto simp: app_param_def route_param_def match_route_def Let_def split: if_splits)

lemma landing_not_root: "pathname (landing now path search0) \<noteq> js ''/''"
  by (auto simp: landing_def match_route_def ascii_lower_def CHAT_PREFIX_def js_def Let_def)

lemma session_effect_frame:
  "foldl loading_step l (session_effect x) = l"
  "x = None \<Longrightarrow> session_effect x = []"
  "x = Some p \<Longrightarrow> p \<noteq> [] \<Longrightarrow> session_effect x = [SET_SESSION_ID p]"
  by (auto simp: session_effect_def split: option.split)

lemma theme_synced_frame: "st' theme_key = st theme_key \<Longrightarrow> theme_synced d st' = theme_synced d st"
  by (simp add: theme_synced_def)

lemma settings_inv_frame:
  "sessionId s' = sessionId s \<Longrightarrow> settings_inv ss (s', st') = settings_inv ss (s, st)"
  by (simp add: settings_inv_def)

lemma app_inv_load:
  assumes "app_load strict st path search0 now = Inr s"
  shows "app_inv s"
proof -
  define loc where "loc = landing now path search0"
  define acts where "acts = session_effect (app_param loc)"
  have "\<exists>cs st1. dispatch_all (initialState, st) (if strict then acts @ acts else acts) = Inr (cs, st1)"
    using assms by (auto simp: app_load_def Let_def loc_def acts_def split: sum.splits)
  then obtain cs st1 where d: "dispatch_all (initialState, st) (if strict then acts @ acts else acts) = Inr (cs, st1)"
    by blast
  obtain dark st2 where tm: "theme_mount strict st1 = (dark, st2)" by fastforce
  have s: "s = \<lparr>app_chat = cs, app_store = st2, app_dark = dark, app_settings = initial_settings,
                app_loc = loc, app_input = [], app_flows = [], app_typing = False, app_send_loading = False\<rparr>"
    using assms d[unfolded acts_def loc_def] tm by (simp add: app_load_def Let_def loc_def)
  obtain v where st2: "st2 = st1(theme_key \<mapsto> v)"
    using theme_mount_writes_theme[of strict st1] tm by auto
  have fr: "loading cs = False"
    using dispatch_frame[OF d] by (simp add: acts_def session_effect_frame(1) initialState_def)
  have sy: "synced (cs, st1)"
    using dispatch_all_synced[OF d synced_initial] .
  have ts: "theme_synced dark st2"
    using theme_mount_synced[of strict st1] tm by simp
  have mounted: "if app_param loc \<noteq> None then sessionId cs = app_param loc else cs = initialState"
  proof (cases "app_param loc")
    case None
    then show ?thesis using d[unfolded acts_def] by (cases strict) (simp_all add: session_effect_frame(2))
  next
    case (Some p)
    then show ?thesis
      using dispatch_frame[OF d[unfolded acts_def]] app_param_nonempty[OF Some]
      by (cases strict) (simp_all add: session_effect_frame(3))
  qed
  show ?thesis
    using fr sy ts mounted landing_not_root[of now path search0]
    by (simp add: s app_inv_def st2 synced_theme_upd settings_inv_initial chat_mounted_def loc_def)
qed

lemma world_frame:
  assumes "dispatch_all (c, st) acts = Inr (c', st')" and "synced (c, st)" and "theme_synced d st"
    and "settings_inv ss (c, st)" and "foldl session_step (sessionId c) acts = sessionId c"
  shows "synced (c', st') \<and> theme_synced d st' \<and> settings_inv ss (c', st') \<and> sessionId c' = sessionId c
    \<and> loading c' = foldl loading_step (loading c) acts"
  using dispatch_frame[OF assms(1)] dispatch_all_synced[OF assms(1,2)] assms(3-5)
    theme_synced_frame[of st' st d] settings_inv_frame[of c' c ss st' st]
  by simp

lemma with_world_simps [simp]:
  "app_chat (with_world s w) = fst w" "app_store (with_world s w) = snd w"
  "app_dark (with_world s w) = app_dark s" "app_settings (with_world s w) = app_settings s"
  "app_loc (with_world s w) = app_loc s" "app_input (with_world s w) = app_input s"
  "app_flows (with_world s w) = app_flows s" "app_typing (with_world s w) = app_typing s"
  "app_send_loading (with_world s w) = app_send_loading s"
  by (simp_all add: with_world_def)

lemma app_invI:
  assumes "loading (app_chat s) \<longleftrightarrow> app_flows s \<noteq> []" and "length (app_flows s) \<le> 1"
    and "list_all flow_ok (app_flows s)" and "app_typing s \<longrightarrow> app_flows s \<noteq> []"
    and "synced (app_chat s, app_store s)" and "theme_synced (app_dark s) (app_store s)"
    and "settings_inv (app_settings s) (app_chat s, app_store s)"
    and "chat_mounted s \<Longrightarrow> sessionId (app_chat s) = app_param (app_loc s)"
    and "\<not> chat_mounted s \<Longrightarrow> app_chat s = initialState"
    and "pathname (app_loc s) \<noteq> js ''/''"
  shows "app_inv s"
  using assms unfolding app_inv_def by presburger

lemma app_invD:
  assumes "app_inv s"
  shows "loading (app_chat s) \<longleftrightarrow> app_flows s \<noteq> []" and "length (app_flows s) \<le> 1"
    and "list_all flow_ok (app_flows s)" and "app_typing s \<longrightarrow> app_flows s \<noteq> []"
    and "synced (app_chat s, app_store s)" and "theme_synced (app_dark s) (app_store s)"
    and "settings_inv (app_settings s) (app_chat s, app_store s)"
    and "chat_mounted s \<Longrightarrow> sessionId (app_chat s) = app_param (app_loc s)"
    and "\<not> chat_mounted s \<Longrightarrow> app_chat s = initialState"
    and "pathname (app_loc s) \<noteq> js ''/''"
  using assms unfolding app_inv_def by presburger+

lemma app_inv_loading_mounted:
  assumes "app_inv s" and "loading (app_chat s)"
  shows "chat_mounted s"
proof (rule ccontr)
  assume "\<not> chat_mounted s"
  then have "app_chat s = initialState" by (rule app_invD(9)[OF assms(1)])
  then show False using assms(2) by (simp add: initialState_def)
qed

lemma app_inv_one_flow:
  assumes "app_inv s" and "app_flows s \<noteq> []"
  obtains f where "app_flows s = [f]" and "flow_ok f"
proof -
  obtain f fs where fs: "app_flows s = f # fs"
    using assms(2) by (cases "app_flows s") auto
  then have "fs = []" using app_invD(2)[OF assms(1)] by simp
  then show ?thesis using that fs app_invD(3)[OF assms(1)] by simp
qed

lemma app_inv_tick:
  assumes inv: "app_inv s" and st: "app_step s (Tick n) = Inr s'"
  shows "app_inv s'"
proof (cases "n < length (app_flows s)")
  case False
  then show ?thesis using inv st by simp
next
  case True
  then have ne: "app_flows s \<noteq> []" by auto
  obtain f where fl: "app_flows s = [f]" and fo: "flow_ok f"
    using app_inv_one_flow[OF inv ne] by blast
  have n: "n = 0" using True fl by simp
  obtain seg rest where f: "f = seg # rest"
    using fo by (cases f) (auto simp: flow_ok_def)
  obtain c' st' where d: "dispatch_all (app_chat s, app_store s) seg = Inr (c', st')"
    and s': "s' = (with_world s (c', st'))\<lparr>app_flows := (if rest = [] then [] else [rest]),
                     app_typing := (if rest = [] then False else app_typing s)\<rparr>"
    using st fl n f by (auto split: sum.splits)
  have ld: "loading (app_chat s)" using app_invD(1)[OF inv] fl by simp
  have mnt: "chat_mounted s" by (rule app_inv_loading_mounted[OF inv ld])
  have seg_session: "foldl session_step (sessionId (app_chat s)) seg = sessionId (app_chat s)"
    and seg_loading: "foldl loading_step (loading (app_chat s)) seg = (rest \<noteq> [])"
  proof -
    have "(rest = [] \<and> final_segment seg) \<or> (rest \<noteq> [] \<and> (\<exists>t. seg = [UPDATE_LAST_BOT_MESSAGE t]))"
      using flow_ok_hd_final[OF fo] flow_ok_hd_update[OF fo] f by auto
    then show "foldl session_step (sessionId (app_chat s)) seg = sessionId (app_chat s)"
      and "foldl loading_step (loading (app_chat s)) seg = (rest \<noteq> [])"
      using ld by (auto simp: final_segment_def)
  qed
  have wf: "synced (c', st') \<and> theme_synced (app_dark s) st' \<and> settings_inv (app_settings s) (c', st')
      \<and> sessionId c' = sessionId (app_chat s) \<and> loading c' = (rest \<noteq> [])"
    using world_frame[OF d app_invD(5,6,7)[OF inv] seg_session] seg_loading by simp
  have rest_ok: "rest \<noteq> [] \<Longrightarrow> flow_ok rest"
    using flow_ok_tl[OF fo] f by simp
  show ?thesis
  proof (rule app_invI)
    show "chat_mounted s' \<Longrightarrow> sessionId (app_chat s') = app_param (app_loc s')"
      using wf app_invD(8)[OF inv mnt] by (simp add: s' chat_mounted_def)
    show "\<not> chat_mounted s' \<Longrightarrow> app_chat s' = initialState"
      using mnt by (simp add: s' chat_mounted_def)
  qed (use wf rest_ok app_invD(10)[OF inv] in \<open>simp_all add: s'\<close>)
qed

lemma send_flow_shape:
  assumes "send_flow b x tu tb c = (sync, segs)"
  shows "foldl session_step y sync = y
    \<and> ((segs = [] \<and> foldl loading_step l sync = l) \<or> (segs = stream_segments c \<and> foldl loading_step l sync = True))"
  using assms by (auto simp: send_flow_def Let_def split: if_splits)

lemma match_route_ChatRoute: "match_route n path = ChatRoute p \<Longrightarrow> p \<noteq> [] \<and> 0x2F \<notin> set p"
  by (auto simp: match_route_def Let_def split: if_splits)

lemma app_param_chat: "p \<noteq> [] \<Longrightarrow> 0x2F \<notin> set p \<Longrightarrow> app_param \<lparr>pathname = CHAT_PREFIX @ p, search = s\<rparr> = Some p"
  by (simp add: app_param_def match_chat_route route_param_def)

lemma chat_prefix_not_root: "CHAT_PREFIX @ p \<noteq> js ''/''"
  by (simp add: CHAT_PREFIX_def js_def)

lemma settings_after_inv:
  "settings_inv ss w \<Longrightarrow> settings_inv (settings_after old new ss) w"
  by (simp add: settings_after_def settings_inv_initial)

lemma settings_step_no_session:
  "\<not> js_truthy (sessionId (fst w)) \<Longrightarrow> settings_step ss w e = Inr (ss', w') \<Longrightarrow> w' = w"
  by (cases e) (auto simp: confirmClearChatHistory_def split: if_splits)

lemma app_inv_loc:
  assumes "app_inv s" and "pathname loc' = pathname (app_loc s)"
  shows "app_inv (s\<lparr>app_loc := loc', app_settings := settings_after (app_loc s) loc' (app_settings s)\<rparr>)"
proof -
  have "app_param loc' = app_param (app_loc s)" using assms(2) by (simp add: app_param_def)
  then show ?thesis
    using assms app_invD[OF assms(1)] settings_after_inv
    by (intro app_invI) (simp_all add: chat_mounted_def)
qed

lemma app_inv_dismiss:
  assumes inv: "app_inv s" and st: "app_step s DismissError = Inr s'"
  shows "app_inv s'"
proof (cases "chat_mounted s \<and> error_open (app_chat s)")
  case True
  then obtain c' st' where d: "dispatch_all (app_chat s, app_store s) [SET_ERROR None] = Inr (c', st')"
    and s': "s' = with_world s (c', st')"
    using st by (auto simp: snackbar_onClose_def split: sum.splits)
  have wf: "synced (c', st') \<and> theme_synced (app_dark s) st' \<and> settings_inv (app_settings s) (c', st')
      \<and> sessionId c' = sessionId (app_chat s) \<and> loading c' = loading (app_chat s)"
    using world_frame[OF d app_invD(5,6,7)[OF inv]] by simp
  show ?thesis
    using wf True app_invD[OF inv] by (intro app_invI) (simp_all add: s' chat_mounted_def)
next
  case False
  then have "s' = s" using st by (auto split: if_splits)
  then show ?thesis using inv by simp
qed

lemma app_inv_theme:
  assumes inv: "app_inv s" and st: "app_step s ThemeSwitch = Inr s'"
  shows "app_inv s'"
proof (cases "settings_visible (app_loc s)")
  case True
  then have s': "s' = s\<lparr>app_dark := \<not> app_dark s, app_store := write_theme_effect (\<not> app_dark s) (app_store s)\<rparr>"
    using st by (simp add: theme_click_eq)
  have "theme_synced (\<not> app_dark s) (write_theme_effect (\<not> app_dark s) (app_store s))"
    using theme_click_synced[of "app_dark s" "app_store s"] by (simp add: theme_click_eq)
  then show ?thesis
    using app_invD[OF inv]
    by (intro app_invI) (simp_all add: s' chat_mounted_def write_theme_effect_def synced_theme_upd settings_inv_def)
qed (use inv st in simp)

lemma app_inv_settings:
  assumes inv: "app_inv s" and st: "app_step s (SettingsEvent e) = Inr s'"
  shows "app_inv s'"
proof (cases "settings_visible (app_loc s)")
  case True
  then obtain ss c' st' where ss: "settings_step (app_settings s) (app_chat s, app_store s) e = Inr (ss, (c', st'))"
    and s': "s' = (with_world s (c', st'))\<lparr>app_settings := ss\<rparr>"
    using st by (auto split: sum.splits)
  have fr: "loading c' = loading (app_chat s) \<and> sessionId c' = sessionId (app_chat s)
      \<and> st' theme_key = app_store s theme_key \<and> synced (c', st')"
    using settings_step_frame[OF ss] app_invD(5)[OF inv] by simp
  have si: "settings_inv ss (c', st')"
    using settings_step_inv[OF app_invD(7)[OF inv] ss] .
  have ts: "theme_synced (app_dark s) st'"
    using fr app_invD(6)[OF inv] theme_synced_frame by metis
  have unm: "\<not> chat_mounted s \<Longrightarrow> c' = initialState"
    using settings_step_no_session[OF _ ss] app_invD(9)[OF inv]
    by (auto simp: initialState_def js_truthy_def)
  show ?thesis
    using fr si ts unm app_invD[OF inv] by (intro app_invI) (simp_all add: s' chat_mounted_def)
qed (use inv st in simp)

lemma settings_hidden_chat_loc: "\<not> settings_visible \<lparr>pathname = q, search = []\<rparr>"
  by (simp add: settings_visible_def js_def)

lemma app_inv_navigate:
  assumes inv: "app_inv s" and st: "app_step s (NavigateChat sid) = Inr s'"
  shows "app_inv s'"
proof (cases "match_route 0 (CHAT_PREFIX @ sid)")
  case (ChatRoute p)
  have p: "p \<noteq> []" "0x2F \<notin> set p" using match_route_ChatRoute[OF ChatRoute] by auto
  define loc' where "loc' = \<lparr>pathname = CHAT_PREFIX @ p, search = []\<rparr>"
  define acts where "acts = (if app_param (app_loc s) = Some p then [] else session_effect (Some p))"
  have "\<exists>c' st'. dispatch_all (app_chat s, app_store s) acts = Inr (c', st')
      \<and> s' = (with_world s (c', st'))\<lparr>app_loc := loc', app_settings := initial_settings,
                app_input := (if chat_mounted s then app_input s else []),
                app_send_loading := (if chat_mounted s then app_send_loading s else loading (app_chat s))\<rparr>"
    using st ChatRoute settings_hidden_chat_loc
    by (auto simp: Let_def loc'_def acts_def settings_after_def split: sum.splits)
  then obtain c' st' where d: "dispatch_all (app_chat s, app_store s) acts = Inr (c', st')"
    and s': "s' = (with_world s (c', st'))\<lparr>app_loc := loc', app_settings := initial_settings,
                app_input := (if chat_mounted s then app_input s else []),
                app_send_loading := (if chat_mounted s then app_send_loading s else loading (app_chat s))\<rparr>"
    by blast
  have acts: "foldl session_step (sessionId (app_chat s)) acts = Some p
      \<and> foldl loading_step (loading (app_chat s)) acts = loading (app_chat s)"
  proof (cases "app_param (app_loc s) = Some p")
    case True
    then have "sessionId (app_chat s) = Some p"
      using app_invD(8)[OF inv] by (simp add: chat_mounted_def)
    then show ?thesis using True by (simp add: acts_def)
  qed (simp add: acts_def session_effect_def p)
  have fr: "loading c' = loading (app_chat s) \<and> sessionId c' = Some p \<and> st' theme_key = app_store s theme_key"
    using dispatch_frame[OF d] acts by simp
  have sy: "synced (c', st')" using dispatch_all_synced[OF d app_invD(5)[OF inv]] .
  have ts: "theme_synced (app_dark s) st'"
    using fr app_invD(6)[OF inv] theme_synced_frame by metis
  have par: "app_param loc' = Some p" using p by (simp add: loc'_def app_param_chat)
  show ?thesis
    using fr sy ts par app_invD(1-4)[OF inv]
    by (intro app_invI) (simp_all add: s' chat_mounted_def settings_inv_initial loc'_def chat_prefix_not_root)
qed (use inv st in simp_all)

lemma landing_root: "landing now (js ''/'') [] = \<lparr>pathname = CHAT_PREFIX @ int_digits now, search = []\<rparr>"
  by (simp add: landing_def match_route_def)

lemma app_param_root: "app_param (landing now (js ''/'') []) = Some (int_digits now)"
  by (simp add: landing_root app_param_chat int_digits_nonempty slash_notin_int_digits)

lemma goroot_step:
  assumes "app_step s (GoRoot now) = Inr s'"
  obtains c' st' where "dispatch_all (app_chat s, app_store s) [SET_SESSION_ID (int_digits now)] = Inr (c', st')"
    and "s' = (with_world s (c', st'))\<lparr>app_loc := landing now (js ''/'') [], app_settings := initial_settings,
                app_input := [], app_typing := False, app_send_loading := loading (app_chat s)\<rparr>"
proof -
  have se: "session_effect (app_param (landing now (js ''/'') [])) = [SET_SESSION_ID (int_digits now)]"
    using app_param_root session_effect_frame(3) int_digits_nonempty by blast
  have "\<not> settings_visible (landing now (js ''/'') [])"
    by (simp add: landing_root settings_hidden_chat_loc)
  then show ?thesis using assms that se by (auto simp: settings_after_def split: sum.splits)
qed

lemma app_inv_goroot:
  assumes inv: "app_inv s" and st: "app_step s (GoRoot now) = Inr s'"
  shows "app_inv s'"
proof -
  obtain c' st' where d: "dispatch_all (app_chat s, app_store s) [SET_SESSION_ID (int_digits now)] = Inr (c', st')"
    and s': "s' = (with_world s (c', st'))\<lparr>app_loc := landing now (js ''/'') [], app_settings := initial_settings,
                app_input := [], app_typing := False, app_send_loading := loading (app_chat s)\<rparr>"
    using goroot_step[OF st] by blast
  have fr: "loading c' = loading (app_chat s) \<and> sessionId c' = Some (int_digits now)
      \<and> st' theme_key = app_store s theme_key"
    using dispatch_frame[OF d] by simp
  have sy: "synced (c', st')" using dispatch_all_synced[OF d app_invD(5)[OF inv]] .
  have ts: "theme_synced (app_dark s) st'"
    using fr app_invD(6)[OF inv] theme_synced_frame by metis
  show ?thesis
    using fr sy ts app_param_root[of now] app_invD(1-3)[OF inv]
    by (intro app_invI) (simp_all add: s' chat_mounted_def settings_inv_initial landing_root chat_prefix_not_root)
qed

lemma app_inv_input:
  assumes inv: "app_inv s" and st: "app_step s (UserInput ev tu tb c) = Inr s'"
  shows "app_inv s'"
proof (cases "chat_mounted s")
  case True
  obtain sent input' where ci: "chatInput_step (loading (app_chat s)) (app_input s) ev = (sent, input')"
    by fastforce
  show ?thesis
  proof (cases sent)
    case None
    then have "s' = s\<lparr>app_input := input'\<rparr>" using st True ci by simp
    then show ?thesis
      using app_invD[OF inv] by (intro app_invI) (simp_all add: chat_mounted_def)
  next
    case (Some x)
    have nl: "\<not> loading (app_chat s)"
      using ci Some chatInput_step_loading[of "app_input s" ev] by (cases "loading (app_chat s)") auto
    then have nf: "app_flows s = []" and nt: "\<not> app_typing s"
      using app_invD(1,4)[OF inv] by auto
    obtain sync segs where sf: "send_flow (app_send_loading s) x tu tb c = (sync, segs)"
      by fastforce
    have "\<exists>c' st'. dispatch_all (app_chat s, app_store s) sync = Inr (c', st')
        \<and> s' = (with_world s (c', st'))\<lparr>app_input := input', app_flows := (if segs = [] then [] else [segs]),
                  app_typing := (segs \<noteq> [])\<rparr>"
      using st True ci Some sf nf nt by (auto split: sum.splits)
    then obtain c' st' where d: "dispatch_all (app_chat s, app_store s) sync = Inr (c', st')"
      and s': "s' = (with_world s (c', st'))\<lparr>app_input := input', app_flows := (if segs = [] then [] else [segs]),
                  app_typing := (segs \<noteq> [])\<rparr>"
      by blast
    have shape: "foldl session_step (sessionId (app_chat s)) sync = sessionId (app_chat s)
        \<and> ((segs = [] \<and> foldl loading_step False sync = False)
           \<or> (segs = stream_segments c \<and> foldl loading_step False sync = True))"
      using send_flow_shape[OF sf] by blast
    have wf: "synced (c', st') \<and> theme_synced (app_dark s) st' \<and> settings_inv (app_settings s) (c', st')
        \<and> sessionId c' = sessionId (app_chat s) \<and> loading c' = (segs \<noteq> [])"
      using world_frame[OF d app_invD(5,6,7)[OF inv]] shape nl stream_segments_def
      by (auto simp: stream_segments_def)
    have fo: "segs \<noteq> [] \<Longrightarrow> flow_ok segs"
      using shape flow_ok_stream_segments by auto
    show ?thesis
      using wf fo True app_invD(8,10)[OF inv]
      by (intro app_invI) (simp_all add: s' chat_mounted_def)
  qed
qed (use inv st in simp)

lemma app_step_inv: "app_inv s \<Longrightarrow> app_step s e = Inr s' \<Longrightarrow> app_inv s'"
proof (cases e)
  case (Reload strict path search0 now)
  then show "app_inv s \<Longrightarrow> app_step s e = Inr s' \<Longrightarrow> app_inv s'"
    by (auto intro: app_inv_load)
next
  case HeaderSettings
  then show "app_inv s \<Longrightarrow> app_step s e = Inr s' \<Longrightarrow> app_inv s'"
    by (auto simp: Let_def openSettings_def intro!: app_inv_loc)
next
  case CloseSettings
  then show "app_inv s \<Longrightarrow> app_step s e = Inr s' \<Longrightarrow> app_inv s'"
    by (auto simp: Let_def closeModal_def setSearchParams_def split: if_splits intro!: app_inv_loc)
qed (auto intro: app_inv_navigate app_inv_goroot app_inv_input app_inv_tick app_inv_settings app_inv_theme app_inv_dismiss)

lemma app_reach_inv: "app_reach s \<Longrightarrow> app_inv s"
  by (induction rule: app_reach.induct) (auto intro: app_inv_load app_step_inv)

subsection \<open>Progress, crash-freedom and reload\<close>

lemma dispatch_store_okE:
  assumes "store_ok st"
  obtains w where "dispatch_all (c, st) as = Inr w" and "store_ok (snd w)"
proof -
  have "store_ok (snd (c, st))" using assms by simp
  then obtain w where "dispatch_all (c, st) as = Inr w \<and> store_ok (snd w)"
    using dispatch_store_ok by blast
  then show ?thesis using that by blast
qed

lemma tick_progress:
  assumes inv: "app_inv s" and fl: "app_flows s = [f]"
  shows "\<exists>s'. app_step s (Tick 0) = Inr s' \<and> app_inv s' \<and> app_flows s' = (if tl f = [] then [] else [tl f])"
proof -
  have fo: "flow_ok f" using app_invD(3)[OF inv] fl by simp
  then obtain seg rest where f: "f = seg # rest" by (cases f) (auto simp: flow_ok_def)
  have "\<exists>w'. dispatch_all (app_chat s, app_store s) seg = Inr w'"
  proof (cases "rest = []")
    case True
    then have "final_segment seg" using flow_ok_hd_final[OF fo] f by simp
    then show ?thesis by (auto simp: final_segment_def)
  next
    case False
    then obtain t where "seg = [UPDATE_LAST_BOT_MESSAGE t]" using flow_ok_hd_update[OF fo] f by auto
    then show ?thesis using dispatch_update_total by metis
  qed
  then obtain w' where d: "dispatch_all (app_chat s, app_store s) seg = Inr w'" by blast
  define s' where "s' = (with_world s w')\<lparr>app_flows := (if rest = [] then [] else [rest]),
                     app_typing := (if rest = [] then False else app_typing s)\<rparr>"
  have st: "app_step s (Tick 0) = Inr s'" using fl f d by (simp add: s'_def)
  show ?thesis using st app_inv_tick[OF inv st] f by (simp add: s'_def)
qed

lemma ticks_drain:
  "app_inv s \<Longrightarrow> sum_list (map length (app_flows s)) = n \<Longrightarrow>
     \<exists>s'. app_ticks n s = Inr s' \<and> app_inv s' \<and> app_flows s' = []"
proof (induction n arbitrary: s)
  case 0
  have "app_flows s = []"
  proof (rule ccontr)
    assume "app_flows s \<noteq> []"
    then obtain f where "app_flows s = [f]" and "flow_ok f" using app_inv_one_flow[OF "0.prems"(1)] by blast
    then show False using "0.prems"(2) by (simp add: flow_ok_def)
  qed
  then show ?case using "0.prems"(1) by simp
next
  case (Suc n)
  then have "app_flows s \<noteq> []" by auto
  then obtain f where fl: "app_flows s = [f]" and fo: "flow_ok f" using app_inv_one_flow[OF Suc.prems(1)] by blast
  obtain s1 where st: "app_step s (Tick 0) = Inr s1" and inv1: "app_inv s1"
    and fl1: "app_flows s1 = (if tl f = [] then [] else [tl f])"
    using tick_progress[OF Suc.prems(1) fl] by blast
  have "f \<noteq> []" using fo by (simp add: flow_ok_def)
  then have "sum_list (map length (app_flows s1)) = n"
    using Suc.prems(2) fl fl1 by (cases f) auto
  then obtain s' where "app_ticks n s1 = Inr s'" and "app_inv s'" and "app_flows s' = []"
    using Suc.IH[OF inv1] by blast
  then show ?case using st by simp
qed

lemma app_ticks_reach: "app_reach s \<Longrightarrow> app_ticks n s = Inr s' \<Longrightarrow> app_reach s'"
proof (induction n arbitrary: s)
  case (Suc n)
  then obtain s1 where "app_step s (Tick 0) = Inr s1" and "app_ticks n s1 = Inr s'"
    by (auto split: sum.splits simp del: app_step.simps)
  then show ?case using Suc by (blast intro: app_reach.step)
qed simp

lemma app_load_ok:
  assumes "store_ok st"
  shows "\<exists>s. app_load strict st path search0 now = Inr s \<and> store_ok (app_store s)"
proof -
  define acts where "acts = session_effect (app_param (landing now path search0))"
  obtain w where d: "dispatch_all (initialState, st) (if strict then acts @ acts else acts) = Inr w"
    and ok: "store_ok (snd w)"
    by (rule dispatch_store_okE[OF assms])
  obtain dark st2 where tm: "theme_mount strict (snd w) = (dark, st2)" by fastforce
  obtain v where "st2 = (snd w)(theme_key \<mapsto> v)"
    using theme_mount_writes_theme[of strict "snd w"] tm by auto
  then have "store_ok st2" using ok by (simp add: store_ok_theme)
  then show ?thesis
    using d[unfolded acts_def] tm by (cases w; cases strict) (simp_all add: app_load_def Let_def)
qed

lemma app_step_ok:
  assumes ok: "store_ok (app_store s)"
  shows "\<exists>s'. app_step s e = Inr s' \<and> store_ok (app_store s')"
proof (cases e)
  case (Reload strict path search0 now)
  then show ?thesis using app_load_ok[OF ok] by simp
next
  case (NavigateChat sid)
  show ?thesis
  proof (cases "match_route 0 (CHAT_PREFIX @ sid)")
    case (ChatRoute p)
    obtain w where "dispatch_all (app_chat s, app_store s)
        (if app_param (app_loc s) = Some p then [] else session_effect (Some p)) = Inr w" and "store_ok (snd w)"
      by (rule dispatch_store_okE[OF ok])
    then show ?thesis using NavigateChat ChatRoute by (simp add: Let_def)
  qed (use NavigateChat ok in simp_all)
next
  case (GoRoot now)
  obtain w where "dispatch_all (app_chat s, app_store s) (session_effect (app_param (landing now (js ''/'') []))) = Inr w"
    and "store_ok (snd w)"
    by (rule dispatch_store_okE[OF ok])
  then show ?thesis using GoRoot by (simp add: Let_def)
next
  case (UserInput ev tu tb c)
  obtain sent input' where ci: "chatInput_step (loading (app_chat s)) (app_input s) ev = (sent, input')"
    by fastforce
  show ?thesis
  proof (cases sent)
    case (Some x)
    obtain sync segs where sf: "send_flow (app_send_loading s) x tu tb c = (sync, segs)" by fastforce
    obtain w where "dispatch_all (app_chat s, app_store s) sync = Inr w" and "store_ok (snd w)"
      by (rule dispatch_store_okE[OF ok])
    then show ?thesis using UserInput ci Some sf ok by simp
  qed (use UserInput ci ok in simp)
next
  case (Tick n)
  show ?thesis
  proof (cases "n < length (app_flows s)")
    case True
    show ?thesis
    proof (cases "app_flows s ! n")
      case (Cons seg rest)
      obtain w where "dispatch_all (app_chat s, app_store s) seg = Inr w" and "store_ok (snd w)"
        by (rule dispatch_store_okE[OF ok])
      then show ?thesis using Tick True Cons by simp
    qed (use Tick True ok in simp)
  qed (use Tick ok in simp)
next
  case (SettingsEvent e')
  have "store_ok (snd (app_chat s, app_store s))" using ok by simp
  then obtain ss w where "settings_step (app_settings s) (app_chat s, app_store s) e' = Inr (ss, w)"
    and "store_ok (snd w)"
    using settings_step_store_ok by blast
  then show ?thesis using SettingsEvent ok by simp
next
  case ThemeSwitch
  then show ?thesis using ok by (simp add: theme_click_eq write_theme_effect_def store_ok_theme)
next
  case DismissError
  obtain w where "dispatch_all (app_chat s, app_store s) [snackbar_onClose] = Inr w" and "store_ok (snd w)"
    by (rule dispatch_store_okE[OF ok])
  then show ?thesis using DismissError ok by simp
qed (use ok in \<open>simp_all add: Let_def\<close>)

lemma landing_same: "pathname loc \<noteq> js ''/'' \<Longrightarrow> landing now (pathname loc) (search loc) = loc"
  by (simp add: landing_def match_route_def Let_def)

lemma reload_restores:
  assumes inv: "app_inv s"
  shows "\<exists>s'. app_step s (Reload strict (pathname (app_loc s)) (search (app_loc s)) now) = Inr s'
    \<and> messages (app_chat s') = messages (app_chat s) \<and> \<not> loading (app_chat s') \<and> app_flows s' = []
    \<and> app_loc s' = app_loc s"
proof -
  have ld: "landing now (pathname (app_loc s)) (search (app_loc s)) = app_loc s"
    using landing_same app_invD(10)[OF inv] by blast
  define acts where "acts = session_effect (app_param (app_loc s))"
  have "\<exists>c st1. dispatch_all (initialState, app_store s) (if strict then acts @ acts else acts) = Inr (c, st1)
      \<and> messages c = messages (app_chat s) \<and> \<not> loading c"
  proof (cases "app_param (app_loc s)")
    case None
    then have "app_chat s = initialState" using app_invD(9)[OF inv] by (simp add: chat_mounted_def)
    then show ?thesis using None by (cases strict) (simp_all add: acts_def session_effect_def initialState_def)
  next
    case (Some p)
    have p: "p \<noteq> []" using app_param_nonempty[OF Some] .
    have sid: "sessionId (app_chat s) = Some p"
      using app_invD(8)[OF inv] Some by (simp add: chat_mounted_def)
    have "load_messages (app_store s) p = Inr (messages (app_chat s))"
      using app_invD(5)[OF inv] sid p by (simp add: synced_def active_session_def js_truthy_def)
    then show ?thesis using Some p by (cases strict) (simp_all add: acts_def session_effect_def initialState_def)
  qed
  then obtain c st1 where d: "dispatch_all (initialState, app_store s) (if strict then acts @ acts else acts) = Inr (c, st1)"
    and m: "messages c = messages (app_chat s)" and l: "\<not> loading c" by blast
  obtain dark st2 where tm: "theme_mount strict st1 = (dark, st2)" by fastforce
  show ?thesis using d[unfolded acts_def] tm m l ld by (cases strict) (simp_all add: app_load_def Let_def)
qed

lemma demo_app_reach: "app_reach demo_app"
proof -
  let ?s0 = "demo_app\<lparr>app_input := []\<rparr>"
  have "app_load False Map.empty (js ''/chat/s'') [] 0 = Inr ?s0"
    by (simp add: app_load_def landing_def match_route_def ascii_lower_def CHAT_PREFIX_def app_param_def route_param_def
        session_effect_def theme_mount_plain saved_dark_def write_theme_effect_def theme_str_def
        demo_app_def initialState_def js_def Let_def)
  then have r0: "app_reach ?s0" by (rule app_reach.load)
  have "app_step ?s0 (UserInput (Change (js ''Hi'')) 0 0 demo_completion) = Inr demo_app"
    by (simp add: demo_app_def chat_mounted_def app_param_def match_route_def ascii_lower_def CHAT_PREFIX_def
        route_param_def initialState_def js_def)
  then show ?thesis by (rule app_reach.step[OF r0])
qed

lemma demo_sending_step: "app_step demo_app (UserInput ClickSend 1 2 demo_completion) = Inr demo_sending"
  by (simp add: demo_app_def demo_sending_def chat_mounted_def app_param_def match_route_def ascii_lower_def CHAT_PREFIX_def
      route_param_def initialState_def handleSend_def trim_hi send_flow_def with_world_def
      hi_nonblank hi_not_help active_session_def Let_def save_save_same stream_segments_def)
     (simp add: js_def ascii_lower_def)

lemma demo_sending_reach: "app_reach demo_sending"
  by (rule app_reach.step[OF demo_app_reach demo_sending_step])

subsection \<open>Properties\<close>

text \<open>
  C28. In every state of the page reachable from a load, whatever the user,
  the network and the clock do, \<open>loading\<close> is on exactly while a send is in
  flight, at most one send is ever in flight, and the \<open>isTyping\<close> ref of the
  mounted page is set only while one is (a move back to \<open>/\<close> mid-stream
  mounts a page whose ref stays cleared): the input box's guard, not the
  stale one inside \<open>sendMessage\<close>, serialises the sends.
\<close>

theorem app_one_send_in_flight:
  "app_reach s \<Longrightarrow>
     (loading (app_chat s) \<longleftrightarrow> app_flows s \<noteq> []) \<and> length (app_flows s) \<le> 1
     \<and> (app_typing s \<longrightarrow> app_flows s \<noteq> [])"
  using app_reach_inv app_invD(1,2,4) by blast

theorem app_one_send_in_flight_witness:
  "app_reach demo_sending \<and> loading (app_chat demo_sending) \<and> length (app_flows demo_sending) = 1"
  using demo_sending_reach app_one_send_in_flight[OF demo_sending_reach]
  by (simp add: demo_sending_def)

text \<open>
  C29. Across the composed page, with the theme, the settings modal, session
  switches, reloads and interleaved stream segments all writing the one
  store, the store holds the active session's history and the rendered theme
  in every reachable state.
\<close>

theorem app_store_mirrors:
  "app_reach s \<Longrightarrow> synced (app_chat s, app_store s) \<and> theme_synced (app_dark s) (app_store s)"
  using app_reach_inv app_invD(5,6) by blast

theorem app_store_mirrors_witness:
  "app_reach demo_sending
   \<and> load_messages (app_store demo_sending) (js ''s'') = Inr [user_msg (js ''Hi'') 1, bot_msg [] 2]"
  using demo_sending_reach app_store_mirrors[OF demo_sending_reach]
  by (simp add: demo_sending_def synced_def active_session_def initialState_def)

text \<open>
  C30. Every send in flight ends: from any reachable state, delivering the
  remaining segments (one tick each) takes the page to a state with
  \<open>loading\<close> off, no send in flight and \<open>isTyping\<close> cleared, without a crash.
\<close>

theorem app_send_finishes:
  "app_reach s \<Longrightarrow>
     \<exists>s'. app_ticks (sum_list (map length (app_flows s))) s = Inr s'
       \<and> \<not> loading (app_chat s') \<and> app_flows s' = [] \<and> \<not> app_typing s'"
proof -
  assume "app_reach s"
  then obtain s' where "app_ticks (sum_list (map length (app_flows s))) s = Inr s'" and "app_inv s'"
    and "app_flows s' = []"
    using ticks_drain[OF app_reach_inv] by blast
  then show ?thesis using app_invD(1,4) by blast
qed

theorem app_send_finishes_witness:
  "app_reach demo_sending \<and> sum_list (map length (app_flows demo_sending)) = 3
   \<and> (\<exists>s'. app_ticks 3 demo_sending = Inr s' \<and> \<not> loading (app_chat s') \<and> app_flows s' = [])"
proof -
  have n: "sum_list (map length (app_flows demo_sending)) = 3"
    by (simp add: demo_sending_def stream_segments_def demo_completion_def Let_def)
  show ?thesis using demo_sending_reach n app_send_finishes[OF demo_sending_reach] by auto
qed

text \<open>
  C31. Well-typedness of the store: when every session entry decodes, no
  event crashes the page (no \<open>JSON.parse\<close> exception) and the store stays
  well-typed, since the program only ever writes stringified message lists.
\<close>

theorem app_no_crash:
  "store_ok (app_store s) \<Longrightarrow> \<exists>s'. app_step s e = Inr s' \<and> store_ok (app_store s')"
  by (rule app_step_ok)

theorem app_no_crash_witness:
  "store_ok (app_store demo_app)
   \<and> (\<exists>s'. app_step demo_app (Reload True (js ''/'') [] 7) = Inr s' \<and> store_ok (app_store s'))"
proof -
  have ok: "store_ok (app_store demo_app)"
    by (simp add: demo_app_def store_ok_theme store_ok_empty)
  show ?thesis using ok app_no_crash[OF ok] by blast
qed

text \<open>
  C32. A reload at the same URL at any moment, mid-stream included, shows
  exactly the messages that were on screen (the partial reply included),
  with \<open>loading\<close> off and the in-flight stream dropped.
\<close>

theorem app_reload_restores:
  "app_reach s \<Longrightarrow>
     \<exists>s'. app_step s (Reload strict (pathname (app_loc s)) (search (app_loc s)) now) = Inr s'
       \<and> messages (app_chat s') = messages (app_chat s) \<and> \<not> loading (app_chat s')
       \<and> app_flows s' = [] \<and> app_loc s' = app_loc s"
  by (rule reload_restores[OF app_reach_inv])

theorem app_reload_restores_witness:
  "app_reach demo_sending
   \<and> (\<exists>s'. app_step demo_sending (Reload True (js ''/chat/s'') [] 9) = Inr s'
        \<and> messages (app_chat s') = [user_msg (js ''Hi'') 1, bot_msg [] 2] \<and> \<not> loading (app_chat s'))"
  using demo_sending_reach app_reload_restores[OF demo_sending_reach, of True 9]
  by (auto simp: demo_sending_def demo_app_def)

end
