(* ===== verification/Styles.thy ===== *)
theory Styles
  imports ChatView ChatInput Settings Theme
begin

text \<open>
  What the components render, as functions of the state they read. A styled
  component (\<open>styled.x`...`\<close> of styled-components) is the list of its CSS
  declarations (\<open>Decl\<close>) and nested rules (\<open>Block\<close>, a selector with its own
  list), with the interpolated \<open>${...}\<close> values computed from the props:
  \<open>TypingIndicator\<close>, \<open>ChatContainer\<close>, \<open>MessagesContainer\<close>, \<open>MessageRow\<close>,
  \<open>MessageBubble\<close> and \<open>Timestamp\<close> of src/src/pages/Chat.tsx (lines 22 to
  126), \<open>HeaderContainer\<close>, \<open>Title\<close> and \<open>ButtonContainer\<close> of
  src/src/components/Header.tsx (lines 8 to 29) and \<open>ModalContainer\<close> of
  src/src/components/SettingsModal.tsx (lines 10 to 26). The JSX of each
  component is a record of what it shows and which props it passes on: the
  chat page (Chat.tsx, lines 201 to 245, with the rows of lines 215 to 239),
  the input box (ChatInput.tsx, lines 19 to 37), the header (Header.tsx,
  lines 31 to 49), the settings modal (SettingsModal.tsx, lines 72 to 125) and
  the theme toggle button (ThemeToggleButton.tsx), with the theme context it
  reads (ThemeContext.tsx, line 10 and lines 43 to 44). The text of a
  timestamp (\<open>toLocaleString\<close>) depends on the browser's locale and is left
  out; so are the MUI components' own styles.
\<close>

datatype css = Decl js_string js_string | Block js_string "css list"

text \<open>The value a rule list gives a property: its last declaration at top level.\<close>

fun css_value :: "js_string \<Rightarrow> css list \<Rightarrow> js_string option" where
  "css_value p [] = None"
| "css_value p (Decl q v # rs) = (case css_value p rs of None \<Rightarrow> if q = p then Some v else None | w \<Rightarrow> w)"
| "css_value p (Block sel rs' # rs) = css_value p rs"

text \<open>The declarations of a nested rule, by its selector.\<close>

fun css_block :: "js_string \<Rightarrow> css list \<Rightarrow> css list" where
  "css_block sel [] = []"
| "css_block sel (Decl q v # rs) = css_block sel rs"
| "css_block sel (Block sel' rs' # rs) = (if sel' = sel then rs' else css_block sel rs)"

subsection \<open>Styled components\<close>

definition TypingIndicator_css :: "css list" where
  "TypingIndicator_css =
     [Decl (js ''display'') (js ''flex''), Decl (js ''gap'') (js ''4px''),
      Decl (js ''padding'') (js ''8px''), Decl (js ''color'') (js ''gray''),
      Block (js ''span'')
        [Decl (js ''width'') (js ''6px''), Decl (js ''height'') (js ''6px''),
         Decl (js ''background'') (js ''gray''), Decl (js ''border-radius'') (js ''50%''),
         Decl (js ''animation'') (js ''typing 1.2s infinite ease-in-out''),
         Block (js ''&:nth-child(1)'') [Decl (js ''animation-delay'') (js ''0s'')],
         Block (js ''&:nth-child(2)'') [Decl (js ''animation-delay'') (js ''0.2s'')],
         Block (js ''&:nth-child(3)'') [Decl (js ''animation-delay'') (js ''0.4s'')]],
      Block (js ''@keyframes typing'')
        [Block (js ''0%'') [Decl (js ''transform'') (js ''scale(1)''), Decl (js ''opacity'') (js ''0.5'')],
         Block (js ''50%'') [Decl (js ''transform'') (js ''scale(1.3)''), Decl (js ''opacity'') (js ''1'')],
         Block (js ''100%'') [Decl (js ''transform'') (js ''scale(1)''), Decl (js ''opacity'') (js ''0.5'')]]]"

definition ChatContainer :: "bool \<Rightarrow> css list" where
  "ChatContainer darkMode =
     [Decl (js ''max-width'') (js ''600px''), Decl (js ''margin'') (js ''auto''),
      Decl (js ''padding'') (js ''16px''),
      Decl (js ''border'') (js ''1px solid '' @ (if darkMode then js ''#444'' else js ''#ddd'')),
      Decl (js ''border-radius'') (js ''8px''),
      Decl (js ''background'') (if darkMode then js ''#1e1e1e'' else js ''#f9f9f9''),
      Decl (js ''color'') (if darkMode then js ''#fff'' else js ''#000''),
      Decl (js ''display'') (js ''flex''), Decl (js ''flex-direction'') (js ''column''),
      Decl (js ''height'') (js ''80vh'')]"

definition MessagesContainer :: "bool \<Rightarrow> css list" where
  "MessagesContainer darkMode =
     [Decl (js ''flex-grow'') (js ''1''), Decl (js ''overflow-y'') (js ''auto''),
      Decl (js ''border-bottom'') (js ''1px solid #ddd''), Decl (js ''padding'') (js ''10px''),
      Decl (js ''display'') (js ''flex''), Decl (js ''flex-direction'') (js ''column''),
      Decl (js ''scroll-behavior'') (js ''smooth''),
      Block (js ''&::-webkit-scrollbar'') [Decl (js ''width'') (js ''8px'')],
      Block (js ''&::-webkit-scrollbar-track'')
        [Decl (js ''background'') (if darkMode then js ''#444'' else js ''#f1f1f1''),
         Decl (js ''border-radius'') (js ''10px'')],
      Block (js ''&::-webkit-scrollbar-thumb'')
        [Decl (js ''background'') (if darkMode then js ''#888'' else js ''#c1c1c1''),
         Decl (js ''border-radius'') (js ''10px'')],
      Block (js ''&::-webkit-scrollbar-thumb:hover'')
        [Decl (js ''background'') (if darkMode then js ''#666'' else js ''#a1a1a1'')]]"

definition MessageRow :: "sender \<Rightarrow> css list" where
  "MessageRow s =
     [Decl (js ''display'') (js ''flex''), Decl (js ''align-items'') (js ''flex-end''),
      Decl (js ''margin'') (js ''5px 0''),
      (if s = User then Decl (js ''flex-direction'') (js ''row-reverse'')
       else Decl (js ''flex-direction'') (js ''row''))]"

definition MessageBubble :: "sender \<Rightarrow> bool \<Rightarrow> css list" where
  "MessageBubble s darkMode =
     [Decl (js ''display'') (js ''inline-block''), Decl (js ''padding'') (js ''10px''),
      Decl (js ''border-radius'') (js ''8px''), Decl (js ''margin'') (js ''5px''),
      Decl (js ''max-width'') (js ''75%''),
      Decl (js ''background-color'')
        (if s = User then (if darkMode then js ''#2979ff'' else js ''#d1e7fd'')
         else if darkMode then js ''#444'' else js ''#e5e5e5''),
      Decl (js ''color'') (if darkMode then js ''#fff'' else js ''#000'')]"

definition Timestamp_css :: "css list" where
  "Timestamp_css =
     [Decl (js ''display'') (js ''flex''), Decl (js ''font-size'') (js ''0.75rem''),
      Decl (js ''color'') (js ''gray''), Decl (js ''text-align'') (js ''right'')]"

definition HeaderContainer :: "bool \<Rightarrow> css list" where
  "HeaderContainer darkMode =
     [Decl (js ''width'') (js ''100%''), Decl (js ''padding'') (js ''10px 20px''),
      Decl (js ''display'') (js ''flex''), Decl (js ''align-items'') (js ''center''),
      Decl (js ''justify-content'') (js ''space-between''), Decl (js ''margin-bottom'') (js ''15px''),
      Decl (js ''background'') (if darkMode then js ''#333'' else js ''#1976d2''),
      Decl (js ''color'') (if darkMode then js ''#fff'' else js ''#fff'')]"

definition Title_css :: "css list" where
  "Title_css = [Decl (js ''font-weight'') (js ''bold'')]"

definition ButtonContainer_css :: "css list" where
  "ButtonContainer_css =
     [Decl (js ''display'') (js ''flex''), Decl (js ''align-items'') (js ''center''),
      Decl (js ''gap'') (js ''10px'')]"

definition ModalContainer :: "bool \<Rightarrow> css list" where
  "ModalContainer darkMode =
     [Decl (js ''position'') (js ''absolute''), Decl (js ''top'') (js ''50%''), Decl (js ''left'') (js ''50%''),
      Decl (js ''transform'') (js ''translate(-50%, -50%)''), Decl (js ''width'') (js ''400px''),
      Decl (js ''padding'') (js ''20px''), Decl (js ''border-radius'') (js ''8px''),
      Decl (js ''box-shadow'') (js ''0px 4px 10px rgba(0, 0, 0, 0.1)''),
      Decl (js ''display'') (js ''flex''), Decl (js ''flex-direction'') (js ''column''),
      Decl (js ''gap'') (js ''16px''),
      Decl (js ''background'') (if darkMode then js ''#1e1e1e'' else js ''#fff''),
      Decl (js ''color'') (if darkMode then js ''#fff'' else js ''#000'')]"

subsection \<open>Rendered components\<close>

record avatar =
  avatar_src :: js_string
  avatar_alt :: js_string
  avatar_size :: nat
  avatar_marginRight :: js_string
  avatar_marginLeft :: js_string

definition Avatar_of :: "sender \<Rightarrow> avatar" where
  "Avatar_of s =
     \<lparr>avatar_src = (if s = User then js ''/user-avatar.png'' else js ''/bot-avatar.png''),
      avatar_alt = (if s = User then js ''User'' else js ''Bot''),
      avatar_size = 32,
      avatar_marginRight = (if s = Bot then js ''10px'' else js ''0''),
      avatar_marginLeft = (if s = User then js ''10px'' else js ''0'')\<rparr>"

text \<open>One row of the message list: its React key, the row's and the bubble's style, the avatar and the bubble's content.\<close>

record message_row =
  mr_key :: js_string
  mr_style :: "css list"
  mr_avatar :: avatar
  mr_bubble_style :: "css list"
  mr_bubble :: bubble

definition render_row :: "bool \<Rightarrow> message \<Rightarrow> message_row" where
  "render_row darkMode msg =
     \<lparr>mr_key = row_key msg, mr_style = MessageRow (sender msg), mr_avatar = Avatar_of (sender msg),
      mr_bubble_style = MessageBubble (sender msg) darkMode, mr_bubble = bubble_of msg\<rparr>"

record input_view =
  iv_value :: js_string
  iv_placeholder :: js_string
  iv_button_disabled :: bool
  iv_button_label :: js_string

definition ChatInput_render :: "bool \<Rightarrow> js_string \<Rightarrow> input_view" where
  "ChatInput_render isLoading input =
     \<lparr>iv_value = input, iv_placeholder = js ''Type your message...'', iv_button_disabled = isLoading,
      iv_button_label = (if isLoading then js ''Typing...'' else js ''Send'')\<rparr>"

record chat_page =
  cp_style :: "css list"
  cp_snackbar_open :: bool
  cp_alert_text :: "js_string option"
  cp_list_style :: "css list"
  cp_rows :: "message_row list"
  cp_input :: input_view

definition Chat_render :: "bool \<Rightarrow> chat_state \<Rightarrow> js_string \<Rightarrow> chat_page" where
  "Chat_render darkMode state input =
     \<lparr>cp_style = ChatContainer darkMode, cp_snackbar_open = error_open state, cp_alert_text = error state,
      cp_list_style = MessagesContainer darkMode, cp_rows = map (render_row darkMode) (messages state),
      cp_input = ChatInput_render (loading state) input\<rparr>"

record header_view =
  hv_style :: "css list"
  hv_title :: js_string
  hv_title_style :: "css list"
  hv_buttons_style :: "css list"

definition Header_render :: "bool \<Rightarrow> header_view" where
  "Header_render darkMode =
     \<lparr>hv_style = HeaderContainer darkMode, hv_title = js ''Groq AI Chat'', hv_title_style = Title_css,
      hv_buttons_style = ButtonContainer_css\<rparr>"

text \<open>
  The settings modal: \<open>model\<close> is \<open>GROQ_MODEL_NAME\<close>, read from the build's
  environment (src/src/common/consts.ts, line 2).
\<close>

record settings_view =
  sv_style :: "css list"
  sv_model :: js_string
  sv_switch_checked :: bool
  sv_clear_disabled :: bool
  sv_snackbar_open :: bool
  sv_alert_severity :: severity
  sv_alert_text :: js_string
  sv_dialog_open :: bool

definition SettingsModal_render :: "js_string \<Rightarrow> bool \<Rightarrow> settings_state \<Rightarrow> chat_state \<Rightarrow> settings_view" where
  "SettingsModal_render model darkMode ss state =
     \<lparr>sv_style = ModalContainer darkMode, sv_model = model, sv_switch_checked = darkMode,
      sv_clear_disabled = \<not> js_truthy (sessionId state), sv_snackbar_open = snackbarOpen ss,
      sv_alert_severity = snackbarSeverity ss, sv_alert_text = snackbarMessage ss,
      sv_dialog_open = dialogOpen ss\<rparr>"

text \<open>
  The theme context a component reads: the provider's value (ThemeContext.tsx,
  line 44: the state and \<open>toggleTheme\<close>, whose \<open>setDarkMode\<close> call is returned
  as a queued update) or, outside any provider, the default of line 10.
\<close>

record theme_context =
  ctx_darkMode :: bool
  ctx_toggleTheme :: "local_storage \<Rightarrow> dark_update list \<times> local_storage"

definition default_theme_context :: theme_context where
  "default_theme_context = \<lparr>ctx_darkMode = False, ctx_toggleTheme = (\<lambda>st. ([], st))\<rparr>"

definition provider_value :: "bool \<Rightarrow> theme_context" where
  "provider_value darkMode =
     \<lparr>ctx_darkMode = darkMode, ctx_toggleTheme = (\<lambda>st. case toggleTheme darkMode st of (u, st') \<Rightarrow> ([u], st'))\<rparr>"

datatype icon = LightModeIcon | DarkModeIcon

definition ThemeToggleButton_icon :: "theme_context \<Rightarrow> icon" where
  "ThemeToggleButton_icon ctx = (if ctx_darkMode ctx then LightModeIcon else DarkModeIcon)"

text \<open>A click on the button calls the context's \<open>toggleTheme\<close>; the provider then renders.\<close>

definition ThemeToggleButton_click :: "theme_context \<Rightarrow> local_storage \<Rightarrow> bool \<times> local_storage" where
  "ThemeToggleButton_click ctx st =
     (case ctx_toggleTheme ctx st of (us, st') \<Rightarrow> rerender (ctx_darkMode ctx) us st')"

subsection \<open>Basic facts\<close>

lemma bubble_colours:
  "css_value (js ''color'') (MessageBubble s d) = Some (if d then js ''#fff'' else js ''#000'')"
  "css_value (js ''background-color'') (MessageBubble s d) =
     Some (if s = User then (if d then js ''#2979ff'' else js ''#d1e7fd'') else if d then js ''#444'' else js ''#e5e5e5'')"
  by (simp_all add: MessageBubble_def js_def)

lemma bubble_contrast:
  "css_value (js ''color'') (MessageBubble s d) \<noteq> css_value (js ''background-color'') (MessageBubble s d)"
  unfolding bubble_colours by (cases d) (simp_all add: js_def)

lemma ThemeToggleButton_provider: "ThemeToggleButton_click (provider_value d) st = theme_click d st"
  by (simp add: ThemeToggleButton_click_def provider_value_def theme_click_def split: prod.split)

lemma ThemeToggleButton_default: "ThemeToggleButton_click default_theme_context st = (False, st)"
  by (simp add: ThemeToggleButton_click_def default_theme_context_def rerender_def)

lemma ThemeToggleButton_icon_provider:
  "ThemeToggleButton_icon (provider_value d) = (if d then LightModeIcon else DarkModeIcon)"
  by (simp add: ThemeToggleButton_icon_def provider_value_def)

end
