(* ===== verification/PageView.thy ===== *)
theory PageView
  imports App Styles
begin

text \<open>
  What the whole page shows in a state of the composed model: the palette the
  theme provider hands to MUI (src/src/context/ThemeContext.tsx, lines 30 to
  49), the header, the chat page when the route \<open>/chat/:sessionId\<close> matches,
  and the settings modal when the query asks for it (src/src/App.tsx, lines 11
  to 24). The route \<open>/\<close> renders only its redirect, which a load has
  already followed, so no reachable state shows it.
\<close>

record page_view =
  pg_palette :: palette
  pg_header :: header_view
  pg_chat :: "chat_page option"
  pg_modal :: "settings_view option"

definition app_view :: "js_string \<Rightarrow> app_state \<Rightarrow> page_view" where
  "app_view model s =
     \<lparr>pg_palette = theme_palette (app_dark s),
      pg_header = Header_render (app_dark s),
      pg_chat = (if chat_mounted s then Some (Chat_render (app_dark s) (app_chat s) (app_input s)) else None),
      pg_modal = (if settings_visible (app_loc s)
                  then Some (SettingsModal_render model (app_dark s) (app_settings s) (app_chat s)) else None)\<rparr>"

subsection \<open>The rendered page follows the state\<close>

lemma theme_str_dark_iff [simp]: "theme_str d = js ''dark'' \<longleftrightarrow> d"
  by (simp add: theme_str_def js_def)

lemma palette_mode: "mode (theme_palette d) = theme_str d"
  by (simp add: theme_palette_def theme_str_def)

lemma app_inv_saved_dark: "app_inv s \<Longrightarrow> saved_dark (app_store s) = app_dark s"
  using app_invD(6) by (simp add: theme_synced_def saved_dark_def)

lemma app_inv_session_shown:
  assumes "app_inv s"
  shows "js_truthy (sessionId (app_chat s)) \<longleftrightarrow> chat_mounted s"
proof (cases "chat_mounted s")
  case True
  then obtain p where "app_param (app_loc s) = Some p" by (auto simp: chat_mounted_def)
  then show ?thesis
    using True app_invD(8)[OF assms True] app_param_nonempty by simp
next
  case False
  then show ?thesis using app_invD(9)[OF assms False] by (simp add: initialState_def)
qed

lemma app_inv_rows:
  assumes "app_inv s" and "chat_mounted s"
  shows "\<exists>sid. app_param (app_loc s) = Some sid \<and> load_messages (app_store s) sid = Inr (messages (app_chat s))"
proof -
  obtain p where p: "app_param (app_loc s) = Some p" using assms(2) by (auto simp: chat_mounted_def)
  then have "sessionId (app_chat s) = Some p" using app_invD(8)[OF assms] by simp
  then have "active_session (app_chat s) = Some p"
    using app_param_nonempty[OF p] by (simp add: active_session_def)
  then show ?thesis using app_invD(5)[OF assms(1)] p by (simp add: synced_def)
qed

lemma app_view_inv:
  assumes inv: "app_inv s"
  shows "mode (pg_palette (app_view model s)) = the (app_store s theme_key)
    \<and> (\<forall>m\<in>set_option (pg_modal (app_view model s)).
         sv_switch_checked m = saved_dark (app_store s) \<and> sv_clear_disabled m = (pg_chat (app_view model s) = None))
    \<and> (\<forall>c\<in>set_option (pg_chat (app_view model s)).
         iv_button_disabled (cp_input c) = (app_flows s \<noteq> [])
         \<and> (\<exists>sid ms. app_param (app_loc s) = Some sid \<and> load_messages (app_store s) sid = Inr ms
              \<and> cp_rows c = map (render_row (app_dark s)) ms))"
proof -
  have th: "app_store s theme_key = Some (theme_str (app_dark s))"
    using app_invD(6)[OF inv] by (simp add: theme_synced_def)
  have rows: "chat_mounted s \<Longrightarrow> \<exists>sid ms. app_param (app_loc s) = Some sid \<and> load_messages (app_store s) sid = Inr ms
              \<and> map (render_row (app_dark s)) (messages (app_chat s)) = map (render_row (app_dark s)) ms"
    using app_inv_rows[OF inv] by blast
  show ?thesis
    using th rows app_inv_saved_dark[OF inv] app_inv_session_shown[OF inv] app_invD(1)[OF inv]
    by (auto simp: app_view_def palette_mode SettingsModal_render_def Chat_render_def ChatInput_render_def)
qed

lemma demo_sending_mounted: "chat_mounted demo_sending"
  by (simp add: chat_mounted_def demo_sending_def demo_app_def app_param_def match_route_def ascii_lower_def CHAT_PREFIX_def
      route_param_def js_def)

subsection \<open>Properties\<close>

text \<open>
  C33. In every reachable state the page shows what the store and the URL
  hold: the palette's mode is the theme stored under \<open>theme\<close>; the modal's
  Dark Mode switch is checked exactly when the stored theme is \<open>dark\<close>, and its
  Clear Chat History button is disabled exactly when no chat page is shown;
  the chat page's Send button is disabled exactly while a send is in flight,
  and its rows are the rendering of the stored history of the URL's session.
\<close>

theorem app_view_agrees:
  assumes "app_reach s"
  shows "mode (pg_palette (app_view model s)) = the (app_store s theme_key)
    \<and> (\<forall>m\<in>set_option (pg_modal (app_view model s)).
         sv_switch_checked m = saved_dark (app_store s) \<and> sv_clear_disabled m = (pg_chat (app_view model s) = None))
    \<and> (\<forall>c\<in>set_option (pg_chat (app_view model s)).
         iv_button_disabled (cp_input c) = (app_flows s \<noteq> [])
         \<and> (\<exists>sid ms. app_param (app_loc s) = Some sid \<and> load_messages (app_store s) sid = Inr ms
              \<and> cp_rows c = map (render_row (app_dark s)) ms))"
  using app_view_inv[OF app_reach_inv[OF assms]] .

theorem app_view_agrees_witness:
  "app_reach demo_sending
   \<and> mode (pg_palette (app_view (js ''llama'') demo_sending)) = js ''light''
   \<and> pg_chat (app_view (js ''llama'') demo_sending) \<noteq> None
   \<and> iv_button_disabled (cp_input (the (pg_chat (app_view (js ''llama'') demo_sending))))"
proof -
  have st: "app_store demo_sending theme_key = Some (js ''light'')"
    by (simp add: demo_sending_def save_messages_def chat_key_ne_theme_key[symmetric])
  have m: "pg_chat (app_view (js ''llama'') demo_sending) \<noteq> None"
    using demo_sending_mounted by (simp add: app_view_def)
  have f: "app_flows demo_sending \<noteq> []" by (simp add: demo_sending_def)
  show ?thesis
    using app_view_agrees[OF demo_sending_reach, of "js ''llama''"] st m f demo_sending_reach by auto
qed

text \<open>
  C34. The spec's invariant that \<open>loading\<close> implies a bot placeholder as the
  last message does not hold of the code. Moving to another session's URL
  while a reply streams keeps \<open>loading\<close> on over that session's empty history
  (the page is reachable); the stream's updates then find no bot message and
  are dropped, \<open>loading\<close> ends off with the new session still empty, and the
  original session's store keeps the empty placeholder, which its page shows
  as a typing indicator from then on.
\<close>

theorem navigate_mid_send_drops_reply:
  "\<exists>s1 s2. app_step demo_sending (NavigateChat (js ''t'')) = Inr s1 \<and> app_reach s1
     \<and> loading (app_chat s1) \<and> messages (app_chat s1) = []
     \<and> app_ticks 3 s1 = Inr s2 \<and> \<not> loading (app_chat s2) \<and> messages (app_chat s2) = []
     \<and> load_messages (app_store s2) (js ''s'') = Inr [user_msg (js ''Hi'') 1, bot_msg [] 2]"
proof -
  define s1 where "s1 = demo_sending\<lparr>app_chat := (app_chat demo_sending)\<lparr>sessionId := Some (js ''t''), messages := []\<rparr>,
                          app_loc := \<lparr>pathname = CHAT_PREFIX @ js ''t'', search = []\<rparr>\<rparr>"
  define s2 where "s2 = s1\<lparr>app_chat := (app_chat s1)\<lparr>loading := False\<rparr>, app_flows := [], app_typing := False\<rparr>"
  have mr: "match_route 0 (CHAT_PREFIX @ js ''t'') = ChatRoute (js ''t'')"
    by (simp add: match_route_def ascii_lower_def CHAT_PREFIX_def js_def)
  have ap: "app_param (app_loc demo_sending) = Some (js ''s'')"
    by (simp add: demo_sending_def demo_app_def app_param_def match_route_def ascii_lower_def CHAT_PREFIX_def
        route_param_def js_def)
  have ts: "js ''t'' \<noteq> js ''s''" by (simp add: js_def)
  have ldt: "load_messages (app_store demo_sending) (js ''t'') = Inr []"
    using ts by (simp add: demo_sending_def load_save_other) (simp add: load_messages_def)
  have st1: "app_step demo_sending (NavigateChat (js ''t'')) = Inr s1"
    using demo_sending_mounted ap ldt ts
    by (simp add: s1_def mr session_effect_def settings_after_def settings_visible_def with_world_def Let_def)
       (simp add: demo_sending_def demo_app_def js_def)
  have r1: "app_reach s1" by (rule app_reach.step[OF demo_sending_reach st1])
  have t: "app_ticks 3 s1 = Inr s2"
    by (simp add: s1_def s2_def demo_sending_def demo_app_def stream_segments_def demo_completion_def
        initialState_def active_session_def numeral_eq_Suc with_world_def chunk_text_def Let_def)
  have ld: "load_messages (app_store s2) (js ''s'') = Inr [user_msg (js ''Hi'') 1, bot_msg [] 2]"
    by (simp add: s2_def s1_def demo_sending_def load_save_same)
  show ?thesis
    using st1 r1 t ld by (auto simp: s1_def s2_def demo_sending_def initialState_def)
qed

text \<open>
  C35. A move back to \<open>/\<close> during a stream mounts a new \<open>Chat\<close> whose
  memoised \<open>sendMessage\<close> captured \<open>loading = true\<close>. From such a page
  every send from the input box is dropped: the box is cleared, and no
  message, store write or stream follows, and the capture stays. Such a
  page is reachable with \<open>loading\<close> off and the Send button enabled: the
  first stream ends, the user types and clicks, and nothing is sent.
\<close>

theorem stale_send_dropped:
  assumes "app_send_loading s" and "app_step s (UserInput ev tu tb c) = Inr s'"
  shows "app_chat s' = app_chat s \<and> app_store s' = app_store s \<and> app_flows s' = app_flows s
    \<and> app_send_loading s'"
proof (cases "chat_mounted s")
  case True
  obtain sent input' where ci: "chatInput_step (loading (app_chat s)) (app_input s) ev = (sent, input')"
    by fastforce
  have "send_flow True x tu tb c = ([], [])" for x by (simp add: send_flow_def)
  then show ?thesis using assms True ci by (cases sent) auto
qed (use assms in simp)

theorem stale_send_dropped_witness:
  "\<exists>s1 s2 s3 s4. app_step demo_sending (GoRoot 5) = Inr s1 \<and> app_ticks 3 s1 = Inr s2
     \<and> app_step s2 (UserInput (Change (js ''Hi'')) 0 0 demo_completion) = Inr s3
     \<and> app_reach s3 \<and> app_send_loading s3 \<and> \<not> loading (app_chat s3) \<and> app_input s3 = js ''Hi''
     \<and> app_step s3 (UserInput ClickSend 7 8 demo_completion) = Inr s4
     \<and> app_chat s4 = app_chat s3 \<and> app_flows s4 = [] \<and> app_input s4 = []"
proof -
  define s1 where "s1 = demo_sending\<lparr>app_chat := (app_chat demo_sending)\<lparr>sessionId := Some (js ''5''), messages := []\<rparr>,
                          app_loc := \<lparr>pathname = CHAT_PREFIX @ js ''5'', search = []\<rparr>, app_input := [],
                          app_typing := False, app_send_loading := True\<rparr>"
  define s2 where "s2 = s1\<lparr>app_chat := (app_chat s1)\<lparr>loading := False\<rparr>, app_flows := []\<rparr>"
  define s3 where "s3 = s2\<lparr>app_input := js ''Hi''\<rparr>"
  have five: "int_digits 5 = js ''5''" by (simp add: int_digits_def nat_digits.simps js_def)
  have l5: "landing 5 (js ''/'') [] = \<lparr>pathname = CHAT_PREFIX @ js ''5'', search = []\<rparr>"
    by (simp add: landing_root five)
  have ts: "js ''5'' \<noteq> js ''s''" by (simp add: js_def)
  have ld5: "load_messages (app_store demo_sending) (js ''5'') = Inr []"
    using ts by (simp add: demo_sending_def load_save_other) (simp add: load_messages_def)
  have st1: "app_step demo_sending (GoRoot 5) = Inr s1"
    using app_param_root[of 5] ld5
    by (simp add: s1_def l5 five session_effect_def settings_after_def settings_visible_def with_world_def Let_def)
       (simp add: demo_sending_def demo_app_def js_def)
  have r1: "app_reach s1" using app_reach.step[OF demo_sending_reach st1] .
  have t: "app_ticks 3 s1 = Inr s2"
    by (simp add: s1_def s2_def demo_sending_def demo_app_def stream_segments_def demo_completion_def
        initialState_def active_session_def numeral_eq_Suc with_world_def chunk_text_def Let_def)
  have r2: "app_reach s2" by (rule app_ticks_reach[OF r1 t])
  have m2: "chat_mounted s2"
    using app_param_root[of 5] by (simp add: s2_def s1_def chat_mounted_def l5[symmetric])
  have st3: "app_step s2 (UserInput (Change (js ''Hi'')) 0 0 demo_completion) = Inr s3"
    using m2 by (simp add: s3_def)
  have r3: "app_reach s3" by (rule app_reach.step[OF r2 st3])
  have sl: "app_send_loading s3" by (simp add: s3_def s2_def s1_def)
  have st4: "app_step s3 (UserInput ClickSend 7 8 demo_completion) = Inr (s3\<lparr>app_input := []\<rparr>)"
    using m2 by (simp add: s3_def s2_def s1_def chat_mounted_def handleSend_def send_flow_def trim_hi)
  show ?thesis
    using st1 t st3 r3 sl st4 stale_send_dropped[OF sl st4]
    by (auto simp: s3_def s2_def s1_def demo_sending_def initialState_def)
qed
end
