(* ===== verification/JsonFuel.thy ===== *)
theory JsonFuel
  imports Json
begin

text \<open>
  Termination of \<open>JSON.parse\<close> as modelled in Json (the read of
  src/src/context/ChatContext.tsx, line 39). The parser's recursion is cut by
  its fuel; these lemmas show that the cut never matters. Every call consumes input (\<open>parse_shorter_all\<close>), a parse
  that succeeds needs no more fuel than the number of units it consumed
  (\<open>parse_enough_all\<close>, which also gives monotonicity in the fuel), so any
  fuel beyond the input's length gives the same answer.
\<close>

lemma skip_ws_length: "length (skip_ws s) \<le> length s"
  by (simp add: skip_ws_def length_dropWhile_le)

lemma parse_str_length: "parse_str s = Some (t, r) \<Longrightarrow> length r < length s"
proof (induction s arbitrary: t rule: parse_str.induct)
  case (2 c cs)
  then show ?case
    by (fastforce simp: cons_fst_def split: if_splits list.splits option.splits)
qed simp

lemma parse_nat_part_length: "parse_nat_part s = Some (k, r) \<Longrightarrow> length r < length s"
proof -
  assume a: "parse_nat_part s = Some (k, r)"
  then have ne: "takeWhile is_digit s \<noteq> []" and r: "r = dropWhile is_digit s"
    by (auto simp: parse_nat_part_def Let_def split: if_splits)
  have "length (takeWhile is_digit s) + length (dropWhile is_digit s) = length s"
    by (metis length_append takeWhile_dropWhile_id)
  then show ?thesis using ne r by (cases "takeWhile is_digit s") auto
qed

lemma parse_frac_length: "parse_frac s = Some (x, r) \<Longrightarrow> length r \<le> length s"
  using length_dropWhile_le[of is_digit "tl s"]
  by (auto simp: parse_frac_def Let_def split: if_splits)

lemma parse_exp_length: "parse_exp s = Some (x, r) \<Longrightarrow> length r \<le> length s"
proof -
  assume a: "parse_exp s = Some (x, r)"
  have "length (dropWhile is_digit (tl (tl s))) \<le> length s"
    using length_dropWhile_le[of is_digit "tl (tl s)"] by simp
  moreover have "length (dropWhile is_digit (tl s)) \<le> length s"
    using length_dropWhile_le[of is_digit "tl s"] by simp
  ultimately show ?thesis using a
    by (auto simp: parse_exp_def Let_def split: if_splits)
qed

lemma parse_number_length: "parse_number s = Some (v, r) \<Longrightarrow> length r < length s"
proof -
  assume a: "parse_number s = Some (v, r)"
  let ?s1 = "if s \<noteq> [] \<and> hd s = 0x2D then tl s else s"
  obtain n r1 f l r2 e r3 where p1: "parse_nat_part ?s1 = Some (n, r1)"
    and p2: "parse_frac r1 = Some ((f, l), r2)" and p3: "parse_exp r2 = Some (e, r3)" and r: "r = r3"
    using a by (auto simp: parse_number_def Let_def split: option.splits)
  have "length ?s1 \<le> length s" by simp
  with parse_nat_part_length[OF p1] parse_frac_length[OF p2] parse_exp_length[OF p3] r
  show ?thesis by simp
qed

lemma parse_value_Suc_shorter:
  assumes a: "parse_value (Suc n) s = Some (v, r)"
    and E: "\<And>acc s vs r. parse_elems n acc s = Some (vs, r) \<Longrightarrow> length r < length s"
    and M: "\<And>acc s kvs r. parse_members n acc s = Some (kvs, r) \<Longrightarrow> length r < length s"
  shows "length r < length s"
proof -
  obtain c t where s': "skip_ws s = c # t"
    using a by (auto split: list.splits)
  have lt: "length t < length s" using skip_ws_length[of s] s' by simp
  have lt2: "length (skip_ws t) \<le> length t" by (rule skip_ws_length)
  consider (obj) "c = 0x7B" | (arr) "c \<noteq> 0x7B" "c = 0x5B" | (str) "c \<noteq> 0x7B" "c \<noteq> 0x5B" "c = QUOTE"
    | (lit) "c \<noteq> 0x7B" "c \<noteq> 0x5B" "c \<noteq> QUOTE" by blast
  then show ?thesis
  proof cases
    case obj
    then show ?thesis using a s' lt lt2 M[of "[]" t]
      by (cases "skip_ws t") (auto split: if_splits)
  next
    case arr
    then show ?thesis using a s' lt lt2 E[of "[]" t]
      by (cases "skip_ws t") (auto split: if_splits)
  next
    case str
    then show ?thesis using a s' lt by (auto dest!: parse_str_length)
  next
    case lit
    then show ?thesis using a s' lt by (auto split: if_splits dest!: parse_number_length)
  qed
qed

lemma parse_elems_Suc_shorter:
  assumes a: "parse_elems (Suc n) acc s = Some (vs, r)"
    and V: "\<And>s v r. parse_value n s = Some (v, r) \<Longrightarrow> length r < length s"
    and E: "\<And>acc s vs r. parse_elems n acc s = Some (vs, r) \<Longrightarrow> length r < length s"
  shows "length r < length s"
proof -
  obtain v r1 where p: "parse_value n s = Some (v, r1)"
    using a by (auto split: option.splits)
  obtain c t where w: "skip_ws r1 = c # t"
    using a p by (auto split: list.splits)
  have "length t < length s" using V[OF p] skip_ws_length[of r1] w by simp
  then show ?thesis
    using a p w E[of "v # acc" t] by (auto split: if_splits)
qed

lemma parse_members_Suc_shorter:
  assumes a: "parse_members (Suc n) acc s = Some (kvs, r)"
    and V: "\<And>s v r. parse_value n s = Some (v, r) \<Longrightarrow> length r < length s"
    and M: "\<And>acc s kvs r. parse_members n acc s = Some (kvs, r) \<Longrightarrow> length r < length s"
  shows "length r < length s"
proof -
  obtain t where s': "skip_ws s = QUOTE # t"
    using a by (auto split: list.splits if_splits)
  obtain k r1 where k: "parse_str t = Some (k, r1)"
    using a s' by (auto split: option.splits)
  obtain r2 where c: "skip_ws r1 = 0x3A # r2"
    using a s' k by (auto split: list.splits if_splits)
  obtain v r3 where p: "parse_value n r2 = Some (v, r3)"
    using a s' k c by (auto split: option.splits)
  obtain e r4 where w: "skip_ws r3 = e # r4"
    using a s' k c p by (auto split: list.splits)
  have "length r4 < length s"
    using skip_ws_length[of s] s' parse_str_length[OF k] skip_ws_length[of r1] c V[OF p]
      skip_ws_length[of r3] w by simp
  then show ?thesis
    using a s' k c p w M[of "(k, v) # acc" r4] by (auto split: if_splits)
qed

lemma parse_shorter_all:
  "(\<forall>s v r. parse_value n s = Some (v, r) \<longrightarrow> length r < length s)
   \<and> (\<forall>acc s vs r. parse_elems n acc s = Some (vs, r) \<longrightarrow> length r < length s)
   \<and> (\<forall>acc s kvs r. parse_members n acc s = Some (kvs, r) \<longrightarrow> length r < length s)"
proof (induction n)
  case (Suc n)
  then have V: "\<And>s v r. parse_value n s = Some (v, r) \<Longrightarrow> length r < length s"
    and E: "\<And>acc s vs r. parse_elems n acc s = Some (vs, r) \<Longrightarrow> length r < length s"
    and M: "\<And>acc s kvs r. parse_members n acc s = Some (kvs, r) \<Longrightarrow> length r < length s"
    by blast+
  have "length r < length s" if "parse_value (Suc n) s = Some (v, r)" for s v r
    using that E M by (rule parse_value_Suc_shorter)
  moreover have "length r < length s" if "parse_elems (Suc n) acc s = Some (vs, r)" for acc s vs r
    using that V E by (rule parse_elems_Suc_shorter)
  moreover have "length r < length s" if "parse_members (Suc n) acc s = Some (kvs, r)" for acc s kvs r
    using that V M by (rule parse_members_Suc_shorter)
  ultimately show ?case by blast
qed simp

lemma parse_value_shorter: "parse_value n s = Some (v, r) \<Longrightarrow> length r < length s"
  using parse_shorter_all by blast

lemma parse_elems_shorter: "parse_elems n acc s = Some (vs, r) \<Longrightarrow> length r < length s"
  using parse_shorter_all by blast

lemma parse_members_shorter: "parse_members n acc s = Some (kvs, r) \<Longrightarrow> length r < length s"
  using parse_shorter_all by blast

lemma parse_value_Suc_enough:
  assumes a: "parse_value (Suc n) s = Some (v, r)" and k: "length s - length r \<le> m"
    and E: "\<And>acc s vs r m. parse_elems n acc s = Some (vs, r) \<Longrightarrow> length s - length r \<le> m
              \<Longrightarrow> parse_elems m acc s = Some (vs, r)"
    and M: "\<And>acc s kvs r m. parse_members n acc s = Some (kvs, r) \<Longrightarrow> length s - length r \<le> m
              \<Longrightarrow> parse_members m acc s = Some (kvs, r)"
  shows "parse_value m s = Some (v, r)"
proof -
  obtain m' where m: "m = Suc m'" using k parse_value_shorter[OF a] by (cases m) auto
  obtain c t where s': "skip_ws s = c # t"
    using a by (auto split: list.splits)
  have lt: "length t < length s" using skip_ws_length[of s] s' by simp
  consider (obj) "c = 0x7B" | (arr) "c \<noteq> 0x7B" "c = 0x5B" | (other) "c \<noteq> 0x7B" "c \<noteq> 0x5B" by blast
  then show ?thesis
  proof cases
    case obj
    show ?thesis
    proof (cases "skip_ws t")
      case Nil
      then show ?thesis using a s' obj by simp
    next
      case (Cons d t')
      show ?thesis
      proof (cases "d = 0x7D")
        case True
        then show ?thesis using a s' obj Cons m by simp
      next
        case False
        then obtain kvs where p: "parse_members n [] t = Some (kvs, r)" and v: "v = JObj kvs"
          using a s' obj Cons by auto
        have "parse_members m' [] t = Some (kvs, r)"
          using M[OF p] k lt m by simp
        then show ?thesis using s' obj Cons False m v by simp
      qed
    qed
  next
    case arr
    show ?thesis
    proof (cases "skip_ws t")
      case Nil
      then show ?thesis using a s' arr by simp
    next
      case (Cons d t')
      show ?thesis
      proof (cases "d = 0x5D")
        case True
        then show ?thesis using a s' arr Cons m by simp
      next
        case False
        then obtain vs where p: "parse_elems n [] t = Some (vs, r)" and v: "v = JArr vs"
          using a s' arr Cons by auto
        have "parse_elems m' [] t = Some (vs, r)"
          using E[OF p] k lt m by simp
        then show ?thesis using s' arr Cons False m v by simp
      qed
    qed
  next
    case other
    then show ?thesis using a s' m by simp
  qed
qed

lemma parse_elems_Suc_enough:
  assumes a: "parse_elems (Suc n) acc s = Some (vs, r)" and k: "length s - length r \<le> m"
    and V: "\<And>s v r m. parse_value n s = Some (v, r) \<Longrightarrow> length s - length r \<le> m
              \<Longrightarrow> parse_value m s = Some (v, r)"
    and E: "\<And>acc s vs r m. parse_elems n acc s = Some (vs, r) \<Longrightarrow> length s - length r \<le> m
              \<Longrightarrow> parse_elems m acc s = Some (vs, r)"
  shows "parse_elems m acc s = Some (vs, r)"
proof -
  obtain m' where m: "m = Suc m'" using k parse_elems_shorter[OF a] by (cases m) auto
  obtain v r1 where p: "parse_value n s = Some (v, r1)"
    using a by (auto split: option.splits)
  obtain c t where w: "skip_ws r1 = c # t"
    using a p by (auto split: list.splits)
  have t1: "length t < length r1" using skip_ws_length[of r1] w by simp
  show ?thesis
  proof (cases "c = 0x2C")
    case True
    then have q: "parse_elems n (v # acc) t = Some (vs, r)" using a p w by simp
    have "length r < length t" by (rule parse_elems_shorter[OF q])
    then have p': "parse_value m' s = Some (v, r1)" using V[OF p] k m t1 by simp
    have "parse_elems m' (v # acc) t = Some (vs, r)"
      using E[OF q] k m t1 parse_value_shorter[OF p] by simp
    then show ?thesis using p' w True m by simp
  next
    case False
    then have "c = 0x5D" and r: "vs = rev (v # acc)" "r = t" using a p w by (auto split: if_splits)
    moreover have "parse_value m' s = Some (v, r1)" using V[OF p] k m t1 r by simp
    ultimately show ?thesis using w m by simp
  qed
qed

lemma parse_members_Suc_enough:
  assumes a: "parse_members (Suc n) acc s = Some (kvs, r)" and k: "length s - length r \<le> m"
    and V: "\<And>s v r m. parse_value n s = Some (v, r) \<Longrightarrow> length s - length r \<le> m
              \<Longrightarrow> parse_value m s = Some (v, r)"
    and M: "\<And>acc s kvs r m. parse_members n acc s = Some (kvs, r) \<Longrightarrow> length s - length r \<le> m
              \<Longrightarrow> parse_members m acc s = Some (kvs, r)"
  shows "parse_members m acc s = Some (kvs, r)"
proof -
  obtain m' where m: "m = Suc m'" using k parse_members_shorter[OF a] by (cases m) auto
  obtain t where s': "skip_ws s = QUOTE # t"
    using a by (auto split: list.splits if_splits)
  obtain k r1 where kk: "parse_str t = Some (k, r1)"
    using a s' by (auto split: option.splits)
  obtain r2 where c: "skip_ws r1 = 0x3A # r2"
    using a s' kk by (auto split: list.splits if_splits)
  obtain v r3 where p: "parse_value n r2 = Some (v, r3)"
    using a s' kk c by (auto split: option.splits)
  obtain e r4 where w: "skip_ws r3 = e # r4"
    using a s' kk c p by (auto split: list.splits)
  have l2: "length r2 < length s"
    using skip_ws_length[of s] s' parse_str_length[OF kk] skip_ws_length[of r1] c by simp
  have l4: "length r4 < length r3" using skip_ws_length[of r3] w by simp
  show ?thesis
  proof (cases "e = 0x2C")
    case True
    then have q: "parse_members n ((k, v) # acc) r4 = Some (kvs, r)" using a s' kk c p w by simp
    have "length r < length r4" by (rule parse_members_shorter[OF q])
    then have p': "parse_value m' r2 = Some (v, r3)" using V[OF p] k m l2 l4 by simp
    have "parse_members m' ((k, v) # acc) r4 = Some (kvs, r)"
      using M[OF q] k m l2 l4 parse_value_shorter[OF p] by simp
    then show ?thesis using p' s' kk c w True m by simp
  next
    case False
    then have "e = 0x7D" and r: "kvs = rev ((k, v) # acc)" "r = r4" using a s' kk c p w by (auto split: if_splits)
    moreover have "parse_value m' r2 = Some (v, r3)" using V[OF p] k m l2 l4 r by simp
    ultimately show ?thesis using s' kk c w m by simp
  qed
qed

lemma parse_enough_all:
  "(\<forall>s v r m. parse_value n s = Some (v, r) \<longrightarrow> length s - length r \<le> m \<longrightarrow> parse_value m s = Some (v, r))
   \<and> (\<forall>acc s vs r m. parse_elems n acc s = Some (vs, r) \<longrightarrow> length s - length r \<le> m
        \<longrightarrow> parse_elems m acc s = Some (vs, r))
   \<and> (\<forall>acc s kvs r m. parse_members n acc s = Some (kvs, r) \<longrightarrow> length s - length r \<le> m
        \<longrightarrow> parse_members m acc s = Some (kvs, r))"
proof (induction n)
  case (Suc n)
  then have V: "\<And>s v r m. parse_value n s = Some (v, r) \<Longrightarrow> length s - length r \<le> m
              \<Longrightarrow> parse_value m s = Some (v, r)"
    and E: "\<And>acc s vs r m. parse_elems n acc s = Some (vs, r) \<Longrightarrow> length s - length r \<le> m
              \<Longrightarrow> parse_elems m acc s = Some (vs, r)"
    and M: "\<And>acc s kvs r m. parse_members n acc s = Some (kvs, r) \<Longrightarrow> length s - length r \<le> m
              \<Longrightarrow> parse_members m acc s = Some (kvs, r)"
    by blast+
  have "parse_value m s = Some (v, r)"
    if "parse_value (Suc n) s = Some (v, r)" "length s - length r \<le> m" for s v r m
    using that E M by (rule parse_value_Suc_enough)
  moreover have "parse_elems m acc s = Some (vs, r)"
    if "parse_elems (Suc n) acc s = Some (vs, r)" "length s - length r \<le> m" for acc s vs r m
    using that V E by (rule parse_elems_Suc_enough)
  moreover have "parse_members m acc s = Some (kvs, r)"
    if "parse_members (Suc n) acc s = Some (kvs, r)" "length s - length r \<le> m" for acc s kvs r m
    using that V M by (rule parse_members_Suc_enough)
  ultimately show ?case by blast
qed simp

lemma parse_value_enough:
  "parse_value n s = Some (v, r) \<Longrightarrow> length s - length r \<le> m \<Longrightarrow> parse_value m s = Some (v, r)"
  using parse_enough_all by blast

lemma parse_value_fuel_enough:
  assumes n: "length s < n"
  shows "parse_value n s = parse_value (Suc (length s)) s"
proof (cases "parse_value n s")
  case None
  show ?thesis
  proof (cases "parse_value (Suc (length s)) s")
    case (Some x)
    then obtain v r where p: "parse_value (Suc (length s)) s = Some (v, r)" by (cases x) auto
    have "length s - length r \<le> n" using n by simp
    from parse_value_enough[OF p this] show ?thesis using None by simp
  qed (use None in simp)
next
  case (Some x)
  then obtain v r where p: "parse_value n s = Some (v, r)" by (cases x) auto
  have "length s - length r \<le> Suc (length s)" by simp
  from parse_value_enough[OF p this] p show ?thesis by (simp only:)
qed

text \<open>
  The fuel \<open>json_parse\<close> supplies (one more than the input's length) is
  enough for every text, not only for printed values: \<open>json_parse\<close> gives
  the result of the parser with any larger fuel, and a text is refused only
  for its syntax, never for its depth.
\<close>

lemma json_parse_any_fuel:
  "length s < n \<Longrightarrow>
     json_parse s = (case parse_value n s of None \<Rightarrow> None | Some (v, r) \<Rightarrow> if skip_ws r = [] then Some v else None)"
proof -
  assume "length s < n"
  then have e: "parse_value n s = parse_value (Suc (length s)) s" by (rule parse_value_fuel_enough)
  show ?thesis unfolding json_parse_def e by (rule refl)
qed

end
