(* ===== verification/ChatScroll.thy ===== *)
theory ChatScroll
  imports SendFlow ChatView
begin

text \<open>
  The scrolling of the \<open>Chat\<close> page over a whole send (src/src/pages/Chat.tsx).
  The component keeps two refs (lines 132 and 133): the end-of-list marker
  \<open>messagesEndRef\<close>, set once the list has rendered, and \<open>isTyping\<close>.
  \<open>scrollToBottom\<close> (lines 135 to 139) scrolls when the marker is set. The
  effect of lines 147 to 154 runs after a render in which \<open>state.messages\<close> is
  a new array; the reducer (src/src/context/ChatContext.tsx, lines 31 to 80)
  returns a new array from \<open>SET_SESSION_ID\<close>, and from \<open>ADD_MESSAGE\<close>,
  \<open>UPDATE_LAST_BOT_MESSAGE\<close> and \<open>CLEAR_MESSAGES\<close> when a session is active
  (the update copies the list even when its last message is not the bot's),
  and keeps the array otherwise (\<open>messages_touched\<close>). The dispatches of
  one task are rendered together: the synchronous part of \<open>sendMessage\<close>,
  which also sets \<open>isTyping\<close> (line 170) before the render, and then each
  segment of SendFlow, the last of which clears \<open>isTyping\<close> in its
  \<open>finally\<close> block (line 197) before its render. Between the two comes the
  explicit \<open>scrollToBottom()\<close> of line 172. \<open>send_scrolls\<close> lists, in order,
  whether each of these points scrolls the page.
\<close>

record chat_refs =
  endRef_current :: bool
  isTyping_current :: bool

definition scrollToBottom :: "chat_refs \<Rightarrow> bool" where
  "scrollToBottom refs = endRef_current refs"

fun messages_touched :: "chat_state \<Rightarrow> chat_action \<Rightarrow> bool" where
  "messages_touched s (SET_SESSION_ID sid) = True"
| "messages_touched s (ADD_MESSAGE m) = (active_session s \<noteq> None)"
| "messages_touched s (UPDATE_LAST_BOT_MESSAGE t) = (active_session s \<noteq> None)"
| "messages_touched s CLEAR_MESSAGES = (active_session s \<noteq> None)"
| "messages_touched s (SET_LOADING b) = False"
| "messages_touched s (SET_ERROR e) = False"

text \<open>A batch of dispatches rendered together, and whether it gave \<open>state.messages\<close> a new array.\<close>

fun dispatch_touched :: "chat_world \<Rightarrow> chat_action list \<Rightarrow> decode_error + (chat_world \<times> bool)" where
  "dispatch_touched w [] = Inr (w, False)"
| "dispatch_touched w (a # as) =
     (case chatReducer w a of
        Inl e \<Rightarrow> Inl e
      | Inr w' \<Rightarrow>
          (case dispatch_touched w' as of
             Inl e \<Rightarrow> Inl e
           | Inr (w'', t) \<Rightarrow> Inr (w'', messages_touched (fst w) a \<or> t)))"

text \<open>Whether the render after a batch scrolls: the effect runs on a new array and decides with the ref's current value.\<close>

definition effect_scrolls :: "chat_refs \<Rightarrow> bool \<Rightarrow> message list \<Rightarrow> bool" where
  "effect_scrolls refs touched msgs =
     (touched \<and> scroll_effect msgs (isTyping_current refs) \<and> scrollToBottom refs)"

fun run_segments ::
  "chat_refs \<Rightarrow> chat_world \<Rightarrow> chat_action list list \<Rightarrow> decode_error + (chat_world \<times> chat_refs \<times> bool list)" where
  "run_segments refs w [] = Inr (w, refs, [])"
| "run_segments refs w (seg # segs) =
     (case dispatch_touched w seg of
        Inl e \<Rightarrow> Inl e
      | Inr (w', t) \<Rightarrow>
          (let refs' = (if segs = [] then refs\<lparr>isTyping_current := False\<rparr> else refs)
           in case run_segments refs' w' segs of
                Inl e \<Rightarrow> Inl e
              | Inr (w'', refs'', sc) \<Rightarrow> Inr (w'', refs'', effect_scrolls refs' t (messages (fst w')) # sc)))"

definition send_scrolls ::
  "chat_refs \<Rightarrow> chat_world \<Rightarrow> js_string \<Rightarrow> int \<Rightarrow> int \<Rightarrow> completion
     \<Rightarrow> decode_error + (chat_world \<times> chat_refs \<times> bool list)" where
  "send_scrolls refs w input now_user now_bot c =
     (case send_flow False input now_user now_bot c of
        (sync, segs) \<Rightarrow>
          (case dispatch_touched w sync of
             Inl e \<Rightarrow> Inl e
           | Inr (w1, t) \<Rightarrow>
               (let refs1 = (if segs = [] then refs else refs\<lparr>isTyping_current := True\<rparr>)
                in if segs = [] then Inr (w1, refs1, [effect_scrolls refs1 t (messages (fst w1))])
                   else
                     (case run_segments refs1 w1 segs of
                        Inl e \<Rightarrow> Inl e
                      | Inr (w2, refs2, sc) \<Rightarrow>
                          Inr (w2, refs2, effect_scrolls refs1 t (messages (fst w1)) # scrollToBottom refs1 # sc)))))"

subsection \<open>The scrolls of one send\<close>

lemma dispatch_touched_dispatch_all:
  "dispatch_touched w as = Inr (w', t) \<Longrightarrow> dispatch_all w as = Inr w'"
  by (induction w as arbitrary: t rule: dispatch_touched.induct) (auto split: sum.splits)





text \<open>The help command renders once, with the help text last and no typing: that render scrolls.\<close>

lemma help_scroll_trace:
  assumes "active_session s = Some sid" and "js_trim input = js ''/help''"
  shows "\<exists>w'. send_scrolls \<lparr>endRef_current = True, isTyping_current = False\<rparr> (s, st) input tu tb c
           = Inr (w', \<lparr>endRef_current = True, isTyping_current = False\<rparr>, [True])"
proof -
  have "js_trim input \<noteq> []" using assms(2) by (simp add: js_def)
  then show ?thesis
    using assms by (simp add: send_scrolls_def send_flow_def Let_def effect_scrolls_def scrollToBottom_def
        scroll_effect_def save_save_same nth_append)
qed

end
