(* ===== verification/Providers.thy ===== *)
theory Providers
  imports Styles Routing
begin

text \<open>
  The two React contexts and the element trees that provide them. The chat
  context (src/src/context/ChatContext.tsx, lines 82 to 88) has no default:
  outside a \<open>ChatProvider\<close> it is \<open>undefined\<close>, and \<open>useChat\<close> (lines 90 to
  96) throws. The theme context has the default of ThemeContext.tsx line 10.
  An element tree is modelled down to the components that read a context:
  \<open>contexts\<close> lists each such component with the theme context and the chat
  context it reads. \<open>main_tree\<close> is the tree of src/src/main.tsx (lines 8 to
  18), whose \<open>App\<close> holds the \<open>Chat\<close> page and the settings modal, the two
  callers of \<open>useChat\<close>. The trees of the two test files under src/src/test
  wrap a component in a router and a \<open>ThemeContext.Provider\<close> with a fixed
  value and no chat provider.
\<close>

datatype hook_error = UseChatOutsideProvider

datatype leaf = AppLeaf | HeaderLeaf | ThemeToggleButtonLeaf

datatype element =
    StrictModeE element
  | ThemeProviderWrapperE element
  | ThemeContextProviderE theme_context element
  | ChatProviderE element
  | RouterE element
  | LeafE leaf

fun leaves_ctx ::
  "bool \<Rightarrow> chat_world \<Rightarrow> theme_context \<Rightarrow> chat_world option \<Rightarrow> element
     \<Rightarrow> (leaf \<times> theme_context \<times> chat_world option) list" where
  "leaves_ctx dark w tc cc (StrictModeE e) = leaves_ctx dark w tc cc e"
| "leaves_ctx dark w tc cc (ThemeProviderWrapperE e) = leaves_ctx dark w (provider_value dark) cc e"
| "leaves_ctx dark w tc cc (ThemeContextProviderE v e) = leaves_ctx dark w v cc e"
| "leaves_ctx dark w tc cc (ChatProviderE e) = leaves_ctx dark w tc (Some w) e"
| "leaves_ctx dark w tc cc (RouterE e) = leaves_ctx dark w tc cc e"
| "leaves_ctx dark w tc cc (LeafE l) = [(l, tc, cc)]"

text \<open>The contexts each component of a tree reads, given the providers' states \<open>darkMode\<close> and the chat world.\<close>

definition contexts :: "bool \<Rightarrow> chat_world \<Rightarrow> element \<Rightarrow> (leaf \<times> theme_context \<times> chat_world option) list" where
  "contexts dark w e = leaves_ctx dark w default_theme_context None e"

definition useChat :: "chat_world option \<Rightarrow> hook_error + chat_world" where
  "useChat context = (case context of None \<Rightarrow> Inl UseChatOutsideProvider | Some c \<Rightarrow> Inr c)"

definition main_tree :: element where
  "main_tree = StrictModeE (ThemeProviderWrapperE (ChatProviderE (RouterE (LeafE AppLeaf))))"

text \<open>The tests' trees; the mocked \<open>toggleTheme\<close> changes nothing.\<close>

definition header_test_tree :: element where
  "header_test_tree =
     RouterE (ThemeContextProviderE \<lparr>ctx_darkMode = False, ctx_toggleTheme = (\<lambda>st. ([], st))\<rparr> (LeafE HeaderLeaf))"

definition toggle_test_tree :: "bool \<Rightarrow> element" where
  "toggle_test_tree d =
     RouterE (ThemeContextProviderE \<lparr>ctx_darkMode = d, ctx_toggleTheme = (\<lambda>st. ([], st))\<rparr>
       (LeafE ThemeToggleButtonLeaf))"

subsection \<open>Contexts in the application and in the tests\<close>

lemma main_tree_contexts: "contexts dark w main_tree = [(AppLeaf, provider_value dark, Some w)]"
  by (simp add: contexts_def main_tree_def)

text \<open>In the application every caller of \<open>useChat\<close> reads the provider's world: the hook never throws there.\<close>

lemma useChat_in_main_tree:
  "(l, tc, cc) \<in> set (contexts dark w main_tree) \<Longrightarrow> useChat cc = Inr w \<and> tc = provider_value dark"
  by (simp add: main_tree_contexts useChat_def)

lemma useChat_without_provider: "useChat None = Inl UseChatOutsideProvider"
  by (simp add: useChat_def)

text \<open>
  The tests' expectations hold of the model: in the header test's tree the
  header shows its title and no chat context is provided (a \<open>useChat\<close> there
  would throw; \<open>Header\<close> calls none), its button navigates to
  \<open>?settings=true\<close>, and the toggle button shows the icon of the other mode.
\<close>

lemma header_test_expectations:
  "(l, tc, cc) \<in> set (contexts dark w header_test_tree) \<Longrightarrow>
     l = HeaderLeaf \<and> hv_title (Header_render (ctx_darkMode tc)) = js ''Groq AI Chat''
     \<and> useChat cc = Inl UseChatOutsideProvider"
  "search (openSettings loc) = js ''?settings=true''"
  by (auto simp: contexts_def header_test_tree_def Header_render_def openSettings_def useChat_def)

lemma toggle_test_icons:
  "(l, tc, cc) \<in> set (contexts dark w (toggle_test_tree d)) \<Longrightarrow>
     l = ThemeToggleButtonLeaf \<and> ThemeToggleButton_icon tc = (if d then LightModeIcon else DarkModeIcon)"
  by (auto simp: contexts_def toggle_test_tree_def ThemeToggleButton_icon_def)

end
