(* ===== verification/Spec2Isabelle.thy ===== *)
theory Spec2Isabelle
  imports PageView JsonFuel ChatScroll Providers
begin

text \<open>
  \<^bold>\<open>A verification model of the ai-chat client.\<close>

  The program is a React chat client (src/src). Its core is a reducer-driven
  conversation store whose message list is mirrored in \<open>localStorage\<close> under
  one key per session, and a send flow that appends the user's message, a bot
  placeholder, and folds the streamed completion into that placeholder.
  The components, leaves first, and the theory that models each:

  \<^item> \<^bold>\<open>Prelude\<close>: JavaScript strings as lists of UTF-16 code units
    (\<open>16 word list\<close>), truthiness of \<open>string | null\<close>, \<open>String.prototype.trim\<close>.
  \<^item> \<^bold>\<open>Json\<close>: \<open>JSON.stringify\<close> and \<open>JSON.parse\<close>, the stored format
    of the histories. The parser reads the whole JSON grammar, numbers with
    a fraction and an exponent included (an integral value is \<open>JNum\<close>, any
    other \<open>JFrac\<close>, kept exactly). \<open>json_parse\<close> is defined with a fuel
    argument (the nesting budget); it is given one unit per input unit, and
    \<open>jfuel_le_length\<close> shows that this is enough for every printed value, so
    \<open>json_parse (json_stringify v) = Some v\<close> holds for every value whose
    numbers are integers (\<open>json_parse_stringify\<close>), which are all the
    program writes.
  \<^item> \<^bold>\<open>Message\<close>: the \<open>Message\<close> type (ChatContext.tsx lines 3 to 7) and
    its JSON codec \<open>encode_messages\<close> / \<open>decode_messages\<close>.
  \<^item> \<^bold>\<open>Storage\<close>: the shared \<open>localStorage\<close> as a map from strings to
    strings; the session key \<open>chat-messages-<id>\<close> and the theme key;
    the read, write and removal of a session's history
    (\<open>load_messages\<close>, \<open>save_messages\<close>, \<open>remove_messages\<close>, the inline
    code of \<open>chatReducer\<close>), and the abstraction \<open>stored_sessions\<close> to a map
    from sessions to histories, which they refine.
  \<^item> \<^bold>\<open>ChatStore\<close>: \<open>ChatState\<close>, \<open>ChatAction\<close>, \<open>initialState\<close> and
    \<open>chatReducer\<close> (ChatContext.tsx lines 9 to 80) over a state and a store;
    \<open>dispatch_all\<close> is the sequence of dispatches \<open>useReducer\<close> applies.
    The exception \<open>JSON.parse\<close> can raise in \<open>SET_SESSION_ID\<close> is the
    \<open>Inl\<close> branch of the result.
  \<^item> \<^bold>\<open>Controller\<close>: \<open>sendMessage\<close> (Chat.tsx lines 156 to 199) as the list
    of actions it dispatches, given the input, the two clock readings and the
    completion stream (its chunks' contents and whether it completed or failed).
  \<^item> \<^bold>\<open>ChatInput\<close>: the input box (ChatInput.tsx) and its guard on
    \<open>loading\<close>.
  \<^item> \<^bold>\<open>Theme\<close>: ThemeContext.tsx. The state \<open>darkMode\<close>, React's queue of
    \<open>setDarkMode\<close> updates (\<open>run_updates\<close>), the read effect and the write
    effect, \<open>toggleTheme\<close>, the re-render that re-runs the write effect when
    \<open>darkMode\<close> changed, and the mount, once or twice as under the
    \<open>StrictMode\<close> of main.tsx (\<open>theme_mount\<close>).
  \<^item> \<^bold>\<open>Settings\<close>: SettingsModal.tsx's dialog and snackbar state and the
    clear-history flow, one step per handler, over the chat store.
  \<^item> \<^bold>\<open>ChatView\<close>: the rest of Chat.tsx: the effect that hands the route's
    session id to the store, the scroll decision, the error snackbar, and the
    rendered rows (React key and typing indicator or markdown).
  \<^item> \<^bold>\<open>Routing\<close>: App.tsx's two routes (matched as React Router does,
    the letters of \<open>/chat/\<close> in any case) and settings test, Header.tsx's
    \<open>openSettings\<close>, and SettingsModal.tsx's \<open>closeModal\<close> through
    \<open>URLSearchParams\<close>.
  \<^item> \<^bold>\<open>JsonFuel\<close>: termination of the JSON parser: the fuel
    \<open>json_parse\<close> supplies is enough for every input, so a text is refused
    only for its syntax (\<open>json_parse_any_fuel\<close>).
  \<^item> \<^bold>\<open>Styles\<close>: what the components render. The styled components of
    Chat.tsx, Header.tsx and SettingsModal.tsx as lists of CSS declarations
    computed from their props, and the JSX of the chat page, its rows, the
    input box, the header, the settings modal and the theme toggle button as
    records of what they show, with the theme context they read (the
    provider's value or the default of ThemeContext.tsx line 10).
  \<^item> \<^bold>\<open>SendFlow\<close>: \<open>sendMessage\<close> cut at its \<open>await\<close> points
    (\<open>send_flow\<close>): the synchronous prefix that runs in the click handler, and
    the segments (one per streamed chunk, then the \<open>finally\<close> block) that run
    later as separate tasks; joined, they are the controller's action list
    (\<open>send_flow_concat\<close>).
  \<^item> \<^bold>\<open>App\<close>: the composed page of main.tsx (lines 8 to 18) and App.tsx
    (lines 9 to 25): the state record \<open>app_state\<close> (chat store and
    \<open>localStorage\<close>, theme, settings modal, URL, input box, the sends in flight
    the \<open>isTyping\<close> ref, and the \<open>loading\<close> the mounted page's memoised
    \<open>sendMessage\<close> captured); the events \<open>app_event\<close> (reload, navigation
    to a session's URL, which keeps the \<open>Chat\<close> page mounted, a move back
    to \<open>/\<close>, whose redirect mounts a new one, the input box, delivery of the
    next segment of a send, settings, theme switch, header and snackbar); \<open>app_step\<close>, one step per event, built from
    the components' step functions; \<open>app_reach\<close>, the states reachable from
    a page load by any interleaving of events.
  \<^item> \<^bold>\<open>ChatScroll\<close>: the \<open>Chat\<close> page's refs, \<open>scrollToBottom\<close>
    and the effect on \<open>state.messages\<close> over a whole send: which renders
    get a new messages array (\<open>messages_touched\<close>), and the scroll decision
    of each render and of the explicit call of line 172 (\<open>send_scrolls\<close>).
  \<^item> \<^bold>\<open>Providers\<close>: the chat and theme contexts through the element
    trees of main.tsx and of the tests; \<open>useChat\<close>'s throw outside a
    \<open>ChatProvider\<close> is its \<open>Inl\<close> result.
  \<^item> \<^bold>\<open>PageView\<close>: \<open>app_view\<close>, the whole rendered page of a state
    of the composed model: the palette, the header, the chat page when its
    route matches and the modal when the query asks for it (App.tsx lines 11
    to 24).

  How they interact: every component reads and writes one \<open>localStorage\<close>
  (\<open>local_storage\<close>, Storage); the chat store's actions are the interface the
  controller, the page effects and the settings modal agree on
  (\<open>chat_action\<close>, with \<open>chatReducer\<close> and \<open>dispatch_all\<close>); the routing
  supplies the session id the page dispatches.

  What the lemmas show. Json: the round trip of the stored text. Storage:
  reads after writes, key injectivity, isolation of sessions and of the theme
  key, refinement of a map from sessions to histories (C2, C15). ChatStore:
  the write-through invariant \<open>synced\<close> (the store's entry of the active
  session decodes to the in-memory list) holds in every reachable state (C1);
  each action's behaviour, no-ops and the unguarded \<open>JSON.parse\<close> included
  (C7 to C12); the session effect run twice, as under StrictMode, is the
  effect run once (C13); a step writes only the active session's key (C14).
  Controller: a whole send, completed, failed, or the help command, and every
  intermediate state of the streaming fold (C3 to C6). ChatInput: no send
  starts while loading (C16, C17). Theme: a load restores the stored theme
  (C18) except under StrictMode, where it is always lost (C19); the store
  follows the rendered theme through any number of clicks (C20). Settings:
  confirming clears the history (C21); the no-session error is unreachable
  (C22). ChatView: what a finished send shows, including the typing indicator
  left by an empty reply (C23); row keys are distinct exactly when sender and
  timestamp pairs are (C24). Routing: the settings modal opens and closes
  (C25), but not while the query holds \<open>settings=true\<close> inside another
  parameter and no \<open>settings\<close> parameter of its own (C26). This theory: a
  first visit starts a session named by the clock (C27). App: an invariant
  \<open>app_inv\<close> of every reachable page, by rule induction on \<open>app_reach\<close>:
  \<open>loading\<close> is on exactly while a send is in flight and at most one is
  (C28); the store mirrors the active history and the rendered theme under
  every interleaving (C29); every send in flight ends after as many segment
  deliveries as it has segments left (C30, liveness); no event raises while
  every stored history decodes (C31, the store's type); a reload restores the
  messages on screen (C32). PageView: in every reachable state the rendered
  page agrees with the store and the URL (C33); a navigation during a stream
  reaches a state with \<open>loading\<close> on and no bot placeholder, against the
  spec's invariant, after which the reply is lost (C34); a move back to
  \<open>/\<close> during a stream mounts a page whose memoised \<open>sendMessage\<close> captured
  \<open>loading = true\<close>, and from it every send is silently dropped (C35).
  ChatScroll: a streamed send scrolls the page exactly once, before its
  first chunk, and never to the finished reply (C36), while the help
  command's render scrolls (\<open>help_scroll_trace\<close>). Beyond the claims: every
  \<open>useChat\<close> of the application reads the provider (\<open>useChat_in_main_tree\<close>),
  and the expectations of the test files hold of the model
  (\<open>header_test_expectations\<close>, \<open>toggle_test_icons\<close>).

  Not modelled: markdown rendering, the animation of the typing indicator,
  the avatar images and \<open>scrollIntoView\<close> (the browser's work); the
  200 ms delay of the send (an await point with no dispatch, after which only
  the explicit scroll of line 172 runs, which ChatScroll lists); the Groq SDK
  beyond the chunks it yields and whether it completed; percent-encoding in
  URLs; the text of a timestamp (\<open>toLocaleString\<close> depends on the locale);
  the MUI components' own rendering and the build configuration
  (src/vite.config.ts, which only selects plugins and the test browser). The
  ThemeToggleButton is modelled although no page renders it. Bounds chosen:
  none beyond the JSON parser's fuel, which is shown sufficient for every
  input (\<open>json_parse_any_fuel\<close>). Modelling choices: JSON numbers are
  exact decimals, where JavaScript rounds them to doubles (the program
  stores \<open>Date.now()\<close> timestamps, integers below \<open>2^53\<close>, which both
  read alike), and a message's timestamp must be an integer; a stored value that
  parses but is not an array of messages is the error \<open>NotMessageList\<close> (the
  source would carry it on unchecked); React's batching is modelled as one step
  per event handler, with state updates applied at the next render.

  Bounds and fuel of the composed page: \<open>app_ticks n\<close> delivers \<open>n\<close> segments;
  the sum of the lengths of the flows in flight is enough (C30), since each
  delivery removes one segment. Scheduling: a segment is delivered only by a
  \<open>Tick\<close> event, so every order of network delivery and user events is one
  sequence of \<open>app_event\<close>s.

  Plan for later work: overlapping sends, reachable only if the input box's
  own \<open>loading\<close> guard were bypassed, since the guard inside the memoised
  \<open>sendMessage\<close> reads a stale value.
\<close>

text \<open>
  C27. A first visit starts a fresh session: the root path redirects to
  \<open>/chat/<now>\<close>, the chat route hands the decimal text of \<open>now\<close> to the page,
  and the page's effect makes it the active session with the history the store
  holds for it.
\<close>

theorem fresh_visit_starts_session:
  assumes "load_messages st (int_digits now) = Inr ms"
  shows "match_route now (js ''/'') = RedirectTo (CHAT_PREFIX @ int_digits now)
    \<and> dispatch_all (s, st) (session_effect (route_param (match_route t (CHAT_PREFIX @ int_digits now))))
        = Inr (s\<lparr>sessionId := Some (int_digits now), messages := ms\<rparr>, st)
    \<and> active_session (s\<lparr>sessionId := Some (int_digits now), messages := ms\<rparr>) = Some (int_digits now)"
proof -
  have "match_route t (CHAT_PREFIX @ int_digits now) = ChatRoute (int_digits now)"
    by (rule match_chat_route[OF int_digits_nonempty slash_notin_int_digits])
  then show ?thesis
    using assms by (simp add: match_route_def route_param_def session_effect_def int_digits_nonempty)
qed

theorem fresh_visit_starts_session_witness:
  "load_messages Map.empty (int_digits 5) = Inr []
   \<and> dispatch_all (initialState, Map.empty)
        (session_effect (route_param (match_route 6 (CHAT_PREFIX @ int_digits 5))))
      = Inr (initialState\<lparr>sessionId := Some (int_digits 5), messages := []\<rparr>, Map.empty)"
  using fresh_visit_starts_session[of "Map.empty" 5 "[]" initialState 6] by simp

end
